(* ===== verification/Prelude.thy ===== *)
theory Prelude
  imports Complex_Main "HOL-Library.Sublist" "HOL-Library.Code_Target_Nat"
begin

text \<open>
  Shared vocabulary of the development: the JavaScript string operations the analyzers
  call (\<open>toLowerCase\<close>, \<open>includes\<close>, \<open>startsWith\<close>, \<open>endsWith\<close>, counting the
  matches of a one-character pattern) and the order-preserving de-duplication
  \<open>[...new Set(xs)]\<close>, each with its equivalence to the HOL library notion it
  implements (\<open>prefix\<close>, \<open>suffix\<close>, \<open>sublist\<close>, first occurrences).
  Strings are \<open>char list\<close>s: a character is one byte, so only the ASCII behaviour of
  \<open>toLowerCase\<close> and of the regular-expression classes is modelled.
\<close>

named_theorems js_eval "rules that evaluate the JavaScript helpers on concrete strings"

section \<open>Character classes\<close>

definition is_digit :: "char \<Rightarrow> bool" where
  "is_digit c \<longleftrightarrow> (let n = (of_char c :: nat) in 48 \<le> n \<and> n \<le> 57)"

definition is_upper :: "char \<Rightarrow> bool" where
  "is_upper c \<longleftrightarrow> (let n = (of_char c :: nat) in 65 \<le> n \<and> n \<le> 90)"

definition is_lower :: "char \<Rightarrow> bool" where
  "is_lower c \<longleftrightarrow> (let n = (of_char c :: nat) in 97 \<le> n \<and> n \<le> 122)"

definition is_alpha :: "char \<Rightarrow> bool" where
  "is_alpha c \<longleftrightarrow> is_upper c \<or> is_lower c"

definition is_hex :: "char \<Rightarrow> bool" where
  "is_hex c \<longleftrightarrow> is_digit c \<or> c \<in> set ''abcdefABCDEF''"

text \<open>\<open>\s\<close> of a JavaScript regular expression, restricted to ASCII.\<close>

definition is_space :: "char \<Rightarrow> bool" where
  "is_space c \<longleftrightarrow> (of_char c :: nat) \<in> {9, 10, 11, 12, 13, 32}"

definition lower_char :: "char \<Rightarrow> char" where
  "lower_char c = (if is_upper c then char_of ((of_char c :: nat) + 32) else c)"

text \<open>\<open>String.prototype.toLowerCase\<close> on ASCII.\<close>

definition to_lower :: "string \<Rightarrow> string" where
  "to_lower s = map lower_char s"

declare is_digit_def [js_eval] is_upper_def [js_eval] is_lower_def [js_eval]
  is_alpha_def [js_eval] is_hex_def [js_eval] is_space_def [js_eval]

lemma to_lower_length [simp]: "length (to_lower s) = length s"
  by (simp add: to_lower_def)

lemma to_lower_append [simp]: "to_lower (s @ t) = to_lower s @ to_lower t"
  by (simp add: to_lower_def)

lemma to_lower_Cons [simp]: "to_lower (c # s) = lower_char c # to_lower s"
  by (simp add: to_lower_def)

lemma to_lower_Nil [simp]: "to_lower [] = []"
  by (simp add: to_lower_def)

lemma lower_char_digit [simp]: "is_digit c \<Longrightarrow> lower_char c = c"
  by (simp add: lower_char_def is_digit_def is_upper_def Let_def)

lemma is_digit_lower_char [simp]: "is_digit (lower_char c) = is_digit c"
  by (auto simp: lower_char_def is_digit_def is_upper_def Let_def)

lemma lower_char_idem [simp]: "lower_char (lower_char c) = lower_char c"
  by (simp add: lower_char_def is_upper_def Let_def)

lemma to_lower_idem [simp]: "to_lower (to_lower s) = to_lower s"
  by (simp add: to_lower_def)

text \<open>Folding \<open>Suc\<close> chains back into numerals, for evaluating counts by \<open>simp\<close>.\<close>

lemmas nat_numeral_fold = One_nat_def [symmetric] Suc_1 Suc_numeral

text \<open>\<open>xs.join(sep)\<close> on a list of strings.\<close>

text \<open>The decimal form of a natural number (\<open>String(n)\<close>).\<close>

fun nat_to_dec :: "nat \<Rightarrow> string" where
  "nat_to_dec n = (if n < 10 then [char_of (48 + n)] else nat_to_dec (n div 10) @ [char_of (48 + n mod 10)])"

declare nat_to_dec.simps [simp del]

lemma nat_to_dec_not_Nil [simp]: "nat_to_dec n \<noteq> []"
  by (subst nat_to_dec.simps) simp

text \<open>\<open>s.split(d)\<close> for a one-character separator: \<open>"".split(d)\<close> is \<open>[""]\<close>.\<close>

fun split_on :: "char \<Rightarrow> string \<Rightarrow> string list" where
  "split_on d [] = [[]]"
| "split_on d (c # cs) = (if c = d then [] # split_on d cs
                          else (case split_on d cs of p # ps \<Rightarrow> (c # p) # ps | [] \<Rightarrow> [[c]]))"

fun join_with :: "string \<Rightarrow> string list \<Rightarrow> string" where
  "join_with sep [] = []"
| "join_with sep [x] = x"
| "join_with sep (x # y # zs) = x @ sep @ join_with sep (y # zs)"

section \<open>String searches\<close>

text \<open>\<open>s.startsWith(p)\<close>: the first argument is the searched string.\<close>

fun starts_with :: "string \<Rightarrow> string \<Rightarrow> bool" where
  "starts_with s [] = True"
| "starts_with [] (c # cs) = False"
| "starts_with (x # xs) (c # cs) = (x = c \<and> starts_with xs cs)"

text \<open>\<open>s.includes(t)\<close>: \<open>t\<close> occurs at some position of \<open>s\<close>.\<close>

fun str_includes :: "string \<Rightarrow> string \<Rightarrow> bool" where
  "str_includes [] t = (t = [])"
| "str_includes (c # cs) t = (starts_with (c # cs) t \<or> str_includes cs t)"

text \<open>\<open>s.endsWith(t)\<close>.\<close>

definition ends_with :: "string \<Rightarrow> string \<Rightarrow> bool" where
  "ends_with s t = starts_with (rev s) (rev t)"

lemma starts_with_prefix: "starts_with s p \<longleftrightarrow> prefix p s"
  by (induction s p rule: starts_with.induct) auto

lemma includes_sublist: "str_includes s t \<longleftrightarrow> sublist t s"
proof (induction s)
  case Nil
  then show ?case by simp
next
  case (Cons c cs)
  have "sublist t (c # cs) \<longleftrightarrow> prefix t (c # cs) \<or> sublist t cs"
    by (auto simp: sublist_Cons_right)
  with Cons.IH show ?case by (simp add: starts_with_prefix)
qed

lemma ends_with_suffix: "ends_with s t \<longleftrightarrow> suffix t s"
  by (simp add: ends_with_def starts_with_prefix suffix_to_prefix)

lemma includes_Nil [simp]: "str_includes s []"
  by (simp add: includes_sublist)

lemma includes_append_left: "str_includes t w \<Longrightarrow> str_includes (s @ t) w"
  by (meson includes_sublist sublist_append_leftI sublist_order.dual_order.trans)

lemma includes_append_right: "str_includes s w \<Longrightarrow> str_includes (s @ t) w"
  by (meson includes_sublist sublist_append_rightI sublist_order.dual_order.trans)

lemma includes_trans: "str_includes s t \<Longrightarrow> str_includes t w \<Longrightarrow> str_includes s w"
  by (meson includes_sublist sublist_order.dual_order.trans)

lemma includes_length: "str_includes s t \<Longrightarrow> length t \<le> length s"
  by (simp add: includes_sublist sublist_length_le)

lemma ends_with_includes: "ends_with s t \<Longrightarrow> str_includes s t"
  by (simp add: ends_with_suffix includes_sublist suffix_imp_sublist)

lemma starts_with_includes: "starts_with s t \<Longrightarrow> str_includes s t"
  by (simp add: starts_with_prefix includes_sublist prefix_imp_sublist)

section \<open>Order-preserving de-duplication\<close>

text \<open>
  \<open>[...new Set(xs)]\<close>: elements are added to the set in list order and an element
  already present (under the set's equality) is skipped, so the first occurrence wins.
  The equality is a parameter because \<open>Set\<close> compares objects by reference.
\<close>

fun set_add_all :: "('a \<Rightarrow> 'a \<Rightarrow> bool) \<Rightarrow> 'a list \<Rightarrow> 'a list \<Rightarrow> 'a list" where
  "set_add_all eq seen [] = seen"
| "set_add_all eq seen (x # xs) =
     set_add_all eq (if list_ex (eq x) seen then seen else seen @ [x]) xs"

definition dedup_by :: "('a \<Rightarrow> 'a \<Rightarrow> bool) \<Rightarrow> 'a list \<Rightarrow> 'a list" where
  "dedup_by eq xs = set_add_all eq [] xs"

abbreviation dedup :: "'a list \<Rightarrow> 'a list" where
  "dedup xs \<equiv> dedup_by (=) xs"

lemma set_add_all_sub: "set (set_add_all eq seen xs) \<subseteq> set seen \<union> set xs"
proof (induction xs arbitrary: seen)
  case Nil
  then show ?case by simp
next
  case (Cons x xs)
  let ?s = "if list_ex (eq x) seen then seen else seen @ [x]"
  have "set ?s \<subseteq> set seen \<union> {x}" by auto
  with Cons.IH [of ?s] show ?case by auto
qed

lemma set_add_all_prefix: "prefix seen (set_add_all eq seen xs)"
proof (induction xs arbitrary: seen)
  case Nil
  then show ?case by simp
next
  case (Cons x xs)
  let ?s = "if list_ex (eq x) seen then seen else seen @ [x]"
  have "prefix seen ?s" by simp
  moreover have "prefix ?s (set_add_all eq ?s xs)" by (rule Cons.IH)
  ultimately show ?case using prefix_order.order_trans by simp
qed

lemma set_add_all_unrelated:
  "sorted_wrt (\<lambda>a b. \<not> eq b a) seen \<Longrightarrow> sorted_wrt (\<lambda>a b. \<not> eq b a) (set_add_all eq seen xs)"
proof (induction xs arbitrary: seen)
  case Nil
  then show ?case by simp
next
  case (Cons x xs)
  let ?s = "if list_ex (eq x) seen then seen else seen @ [x]"
  have "sorted_wrt (\<lambda>a b. \<not> eq b a) ?s"
  proof (cases "list_ex (eq x) seen")
    case True
    with Cons.prems show ?thesis by simp
  next
    case False
    then have "\<forall>a \<in> set seen. \<not> eq x a" by (simp add: list_ex_iff)
    with Cons.prems False show ?thesis by (simp add: sorted_wrt_append)
  qed
  then show ?case using Cons.IH by simp
qed

lemma set_add_all_covers:
  "x \<in> set seen \<union> set xs \<Longrightarrow> \<exists>y \<in> set (set_add_all eq seen xs). y = x \<or> eq x y"
proof (induction xs arbitrary: seen)
  case Nil
  then show ?case by auto
next
  case (Cons z xs)
  let ?s = "if list_ex (eq z) seen then seen else seen @ [z]"
  have "prefix ?s (set_add_all eq ?s xs)" by (rule set_add_all_prefix)
  then have "set ?s \<subseteq> set (set_add_all eq ?s xs)" by (rule set_mono_prefix)
  moreover have "set seen \<subseteq> set ?s" by auto
  ultimately have sub: "set seen \<subseteq> set (set_add_all eq ?s xs)" by blast
  show ?case
  proof (cases "x \<in> set xs \<or> x \<in> set ?s")
    case True
    then have "\<exists>y \<in> set (set_add_all eq ?s xs). y = x \<or> eq x y"
      using Cons.IH [of ?s] by blast
    then show ?thesis by simp
  next
    case False
    with Cons.prems have "x = z" "list_ex (eq z) seen" by (auto split: if_splits)
    then obtain y where y: "y \<in> set seen" "eq x y" by (auto simp: list_ex_iff)
    then have "\<exists>y \<in> set (set_add_all eq ?s xs). y = x \<or> eq x y"
      using sub by blast
    then show ?thesis by simp
  qed
qed

lemma set_dedup [simp]: "set (dedup xs) = set xs"
proof
  show "set (dedup xs) \<subseteq> set xs"
    using set_add_all_sub [of "(=)" "[]" xs] by (simp add: dedup_by_def)
  show "set xs \<subseteq> set (dedup xs)"
    using set_add_all_covers [of _ "[]" xs "(=)"] by (auto simp: dedup_by_def)
qed

lemma sorted_wrt_neq_distinct: "sorted_wrt (\<lambda>a b. \<not> b = a) xs \<longleftrightarrow> distinct xs"
  by (induction xs) auto

lemma distinct_dedup [simp]: "distinct (dedup xs)"
proof -
  have "sorted_wrt (\<lambda>a b. \<not> b = a) (dedup xs)"
    unfolding dedup_by_def by (rule set_add_all_unrelated) simp
  then show ?thesis by (simp add: sorted_wrt_neq_distinct)
qed

lemma set_add_all_append:
  "set_add_all (=) (a @ b) xs = a @ set_add_all (=) b [x \<leftarrow> xs. x \<notin> set a]"
proof (induction xs arbitrary: b)
  case Nil
  then show ?case by simp
next
  case (Cons x xs)
  show ?case
  proof (cases "x \<in> set a")
    case True
    then have "set_add_all (=) (a @ b) (x # xs) = set_add_all (=) (a @ b) xs"
      by (simp add: list_ex_iff)
    with True Cons.IH [of b] show ?thesis by simp
  next
    case False
    let ?b = "if x \<in> set b then b else b @ [x]"
    from False have "set_add_all (=) (a @ b) (x # xs) = set_add_all (=) (a @ ?b) xs"
      by (simp add: list_ex_iff)
    moreover from False have "set_add_all (=) b [y \<leftarrow> x # xs. y \<notin> set a] =
        set_add_all (=) ?b [y \<leftarrow> xs. y \<notin> set a]"
      by (simp add: list_ex_iff)
    ultimately show ?thesis using Cons.IH [of ?b] by simp
  qed
qed

lemma dedup_Cons: "dedup (x # xs) = x # dedup [y \<leftarrow> xs. y \<noteq> x]"
  using set_add_all_append [of "[x]" "[]" xs] by (simp add: dedup_by_def)

lemma dedup_distinct_id: "distinct xs \<Longrightarrow> dedup xs = xs"
proof (induction xs)
  case Nil
  then show ?case by (simp add: dedup_by_def)
next
  case (Cons x xs)
  then have "[y \<leftarrow> xs. y \<noteq> x] = xs" by (auto intro: filter_True)
  with Cons show ?case by (simp add: dedup_Cons)
qed

lemma length_dedup_le: "length (dedup xs) \<le> length xs"
proof -
  have "length (dedup xs) = card (set xs)"
    using distinct_card [OF distinct_dedup [of xs]] by simp
  then show ?thesis using card_length [of xs] by simp
qed

lemma dedup_by_distinct_on:
  assumes "\<And>a b. eq a b \<longleftrightarrow> P a \<and> a = b"
  shows "distinct (filter P (dedup_by eq xs))"
proof -
  have "sorted_wrt (\<lambda>a b. \<not> eq b a) (dedup_by eq xs)"
    unfolding dedup_by_def by (rule set_add_all_unrelated) simp
  then have "sorted_wrt (\<lambda>a b. \<not> eq b a) (filter P (dedup_by eq xs))"
    by (simp add: sorted_wrt_filter)
  then have "sorted_wrt (\<lambda>a b. \<not> b = a) (filter P (dedup_by eq xs))"
    by (rule sorted_wrt_mono_rel [rotated]) (auto simp: assms)
  then show ?thesis by (simp add: sorted_wrt_neq_distinct)
qed

lemma set_add_all_append_list:
  "set_add_all eq seen (xs @ ys) = set_add_all eq (set_add_all eq seen xs) ys"
  by (induction xs arbitrary: seen) simp_all

lemma set_add_all_id:
  "(\<And>a b. eq a b \<Longrightarrow> a = b) \<Longrightarrow> distinct (seen @ xs) \<Longrightarrow> set_add_all eq seen xs = seen @ xs"
proof (induction xs arbitrary: seen)
  case Nil
  then show ?case by simp
next
  case (Cons x xs)
  have "\<not> list_ex (eq x) seen" using Cons.prems by (auto simp: list_ex_iff)
  then show ?case using Cons.IH [of "seen @ [x]"] Cons.prems by simp
qed

lemma dedup_by_prefix:
  "(\<And>a b. eq a b \<Longrightarrow> a = b) \<Longrightarrow> distinct xs \<Longrightarrow> prefix xs (dedup_by eq (xs @ ys))"
  using set_add_all_id [of eq "[]" xs] set_add_all_prefix [of "xs" eq ys]
  by (simp add: dedup_by_def set_add_all_append_list)


lemma distinct_filter_take: "distinct (filter P xs) \<Longrightarrow> distinct (filter P (take n xs))"
  by (metis append_take_drop_id distinct_append filter_append)
end
