(* ===== verification/Rule_Score.thy ===== *)
theory Rule_Score
  imports Prelude
begin

text \<open>
  The shape shared by the rule-based scorers of the URL and e-mail analyzers
  (\<open>calculateRiskScore\<close>, \<open>calculateEmailRiskScore\<close>): a sequence of blocks
  \<open>if (cond) { score += pts; threats.push(msg); }\<close> starting from
  \<open>score = 0, threats = []\<close>. A block is a rule (condition, points, message) and the
  sequence is a left fold of \<open>apply_rule\<close> over the rules in source order. The
  lemmas give the closed form of the fold: the score is the sum of the points of the
  fired rules, the threats are their messages in order.
\<close>

section \<open>Rule evaluation\<close>

type_synonym rule = "bool \<times> real \<times> string"

definition apply_rule :: "real \<times> string list \<Rightarrow> rule \<Rightarrow> real \<times> string list" where
  "apply_rule acc r = (case (acc, r) of ((score, threats), (c, pts, msg)) \<Rightarrow>
     if c then (score + pts, threats @ [msg]) else (score, threats))"

definition apply_rules :: "rule list \<Rightarrow> real \<times> string list" where
  "apply_rules rs = foldl apply_rule (0, []) rs"

definition fired :: "rule list \<Rightarrow> rule list" where
  "fired rs = filter fst rs"

lemma foldl_apply_rule:
  "foldl apply_rule (s, ts) rs = (s + sum_list (map (fst \<circ> snd) (fired rs)), ts @ map (snd \<circ> snd) (fired rs))"
  by (induction rs arbitrary: s ts) (auto simp: apply_rule_def fired_def algebra_simps)

lemma apply_rules_eq:
  "apply_rules rs = (sum_list (map (fst \<circ> snd) (fired rs)), map (snd \<circ> snd) (fired rs))"
  by (simp add: apply_rules_def foldl_apply_rule)

lemma apply_rules_nonneg:
  "(\<And>c p m. (c, p, m) \<in> set rs \<Longrightarrow> c \<Longrightarrow> 0 \<le> p) \<Longrightarrow> 0 \<le> fst (apply_rules rs)"
  by (auto simp: apply_rules_eq fired_def intro!: sum_list_nonneg)

lemma apply_rules_threats_sub: "set (snd (apply_rules rs)) \<subseteq> snd ` snd ` set rs"
  by (auto simp: apply_rules_eq fired_def)

lemma distinct_fired_messages:
  "distinct (map (snd \<circ> snd) rs) \<Longrightarrow> distinct (snd (apply_rules rs))"
  by (simp add: apply_rules_eq fired_def distinct_map_filter)


end
