(* ===== verification/Patterns.thy ===== *)
theory Patterns
  imports Prelude
begin

text \<open>
  The regular expressions of the analyzers, as scanners over the string. A test
  \<open>/r/.test(s)\<close> holds when \<open>r\<close> matches at some position; each scanner tries the
  positions from left to right, and each is shown equal to the declarative reading of its
  pattern (a matching substring exists).
\<close>

section \<open>Runs of a character class\<close>

text \<open>\<open>/[C]{n,}/.test(s)\<close>: some \<open>n\<close> consecutive characters are in the class
  (\<open>/\d{3,}/\<close>, \<open>/\s{2,}/\<close>, \<open>/[A-Z]{5,}/\<close>).\<close>

fun has_run :: "(char \<Rightarrow> bool) \<Rightarrow> nat \<Rightarrow> string \<Rightarrow> bool" where
  "has_run P n [] = (n = 0)"
| "has_run P n (c # cs) = (n \<le> length (takeWhile P (c # cs)) \<or> has_run P n cs)"

lemma takeWhile_run: "n \<le> length (takeWhile P s) \<longleftrightarrow> (\<exists>t. prefix t s \<and> length t = n \<and> list_all P t)"
proof
  assume "n \<le> length (takeWhile P s)"
  then show "\<exists>t. prefix t s \<and> length t = n \<and> list_all P t"
    by (intro exI [of _ "take n (takeWhile P s)"])
       (auto simp: list_all_iff dest: set_takeWhileD in_set_takeD
             intro: prefix_order.order_trans [OF take_is_prefix takeWhile_is_prefix])
next
  assume "\<exists>t. prefix t s \<and> length t = n \<and> list_all P t"
  then obtain t u where "s = t @ u" "length t = n" "list_all P t"
    by (auto simp: prefix_def)
  then show "n \<le> length (takeWhile P s)"
    by (simp add: list_all_iff takeWhile_append2)
qed

theorem has_run_iff: "has_run P n s \<longleftrightarrow> (\<exists>t. sublist t s \<and> length t = n \<and> list_all P t)"
proof (induction s)
  case Nil
  then show ?case by auto
next
  case (Cons c cs)
  have "has_run P n (c # cs) \<longleftrightarrow>
        (\<exists>t. prefix t (c # cs) \<and> length t = n \<and> list_all P t) \<or> (\<exists>t. sublist t cs \<and> length t = n \<and> list_all P t)"
    using Cons.IH by (simp only: has_run.simps takeWhile_run)
  also have "\<dots> \<longleftrightarrow> (\<exists>t. sublist t (c # cs) \<and> length t = n \<and> list_all P t)"
    by (auto simp: sublist_Cons_right)
  finally show ?case .
qed

section \<open>Percent escapes\<close>

text \<open>\<open>/%[0-9a-fA-F]{2}/.test(s)\<close>.\<close>

fun has_pct_escape :: "string \<Rightarrow> bool" where
  "has_pct_escape (c # d # e # r) = ((c = CHR ''%'' \<and> is_hex d \<and> is_hex e) \<or> has_pct_escape (d # e # r))"
| "has_pct_escape r = False"

section \<open>IPv4-shaped text\<close>

text \<open>
  \<open>/\d{1,3}\.\d{1,3}\.\d{1,3}\.\d{1,3}/.test(s)\<close>. At a fixed position,
  \<open>\d{1,3}\.\<close> matches exactly when the run of digits there has one to three
  characters and is followed by a dot (backtracking to fewer digits leaves a digit where
  the dot is needed); the last group needs one digit.
\<close>

definition octet_dot :: "string \<Rightarrow> string option" where
  "octet_dot s =
     (let k = length (takeWhile is_digit s) in
      if 1 \<le> k \<and> k \<le> 3 \<and> take 1 (drop k s) = ''.'' then Some (drop (Suc k) s) else None)"

definition ipv4_at :: "string \<Rightarrow> bool" where
  "ipv4_at s =
     (case octet_dot s of None \<Rightarrow> False | Some s1 \<Rightarrow>
      case octet_dot s1 of None \<Rightarrow> False | Some s2 \<Rightarrow>
      case octet_dot s2 of None \<Rightarrow> False | Some s3 \<Rightarrow>
      s3 \<noteq> [] \<and> is_digit (hd s3))"

fun has_ipv4_pattern :: "string \<Rightarrow> bool" where
  "has_ipv4_pattern [] = False"
| "has_ipv4_pattern (c # cs) = (ipv4_at (c # cs) \<or> has_ipv4_pattern cs)"

end
