(* ===== verification/Entropy.thy ===== *)
theory Entropy
  imports Prelude
begin

text \<open>
  \<open>calculateEntropy\<close> of the URL analyzer: the Shannon entropy, in bits, of the
  character distribution of a string. \<open>Math.log2\<close> makes it a real number that HOL
  cannot compute, and the scorer only asks whether it exceeds \<open>4.5\<close>; the lemma
  \<open>entropy_gt_exact\<close> turns that question into a comparison of natural numbers, so that
  the threshold is decided exactly on a concrete string (over \<open>int\<close>, which the
  kernel evaluates quickly).
\<close>

definition calculateEntropy :: "string \<Rightarrow> real" where
  "calculateEntropy str =
     (let len = real (length str)
      in - (\<Sum>c \<in> set str. let p = real (count_list str c) / len in p * log 2 p))"

definition high_entropy_exact :: "string \<Rightarrow> bool" where
  "high_entropy_exact str =
     (let n = length str in
      str \<noteq> [] \<and>
      2 ^ (9 * n) * prod_list (map (\<lambda>c. int (count_list str c) ^ (2 * count_list str c)) (remdups str))
        < int n ^ (2 * n))"

lemma count_list_pos: "c \<in> set s \<Longrightarrow> 0 < count_list s c"
  by (induction s) auto

lemma log_prod_pos:
  "finite I \<Longrightarrow> (\<And>i. i \<in> I \<Longrightarrow> 0 < f i) \<Longrightarrow> log b (\<Prod>i\<in>I. f i) = (\<Sum>i\<in>I. log b (f i))"
proof (induction I rule: finite_induct)
  case empty
  then show ?case by simp
next
  case (insert x F)
  then have "0 < (\<Prod>i\<in>F. f i)" by (simp add: prod_pos)
  with insert show ?case by (simp add: log_mult_pos)
qed

lemma int_prod_list: "int (prod_list (map f xs)) = prod_list (map (\<lambda>x. int (f x)) xs)"
  by (induction xs) simp_all

lemma calculateEntropy_Nil [simp]: "calculateEntropy [] = 0"
  by (simp add: calculateEntropy_def)

text \<open>With \<open>n\<close> characters of which \<open>k c\<close> are \<open>c\<close>, the entropy is
  \<open>log n - (\<Sum>c. k c * log (k c)) / n\<close>.\<close>

lemma calculateEntropy_alt:
  assumes "s \<noteq> []"
  shows "calculateEntropy s =
    log 2 (length s) - (\<Sum>c \<in> set s. real (count_list s c) * log 2 (count_list s c)) / length s"
proof -
  let ?n = "real (length s)" and ?k = "\<lambda>c. real (count_list s c)"
  have n: "0 < ?n" using assms by simp
  have step: "?k c / ?n * log 2 (?k c / ?n) = ?k c * log 2 (?k c) / ?n - ?k c / ?n * log 2 ?n"
    if "c \<in> set s" for c
  proof -
    have "0 < ?k c" using count_list_pos [OF that] by simp
    then have e: "log 2 (?k c / ?n) = log 2 (?k c) - log 2 ?n" using n by (simp add: log_divide)
    show ?thesis by (subst e) (simp add: right_diff_distrib)
  qed
  have sumk: "(\<Sum>c \<in> set s. ?k c) = ?n"
    using sum_count_set [of s "set s"] by (simp flip: of_nat_sum)
  have "calculateEntropy s = - (\<Sum>c \<in> set s. ?k c / ?n * log 2 (?k c / ?n))"
    unfolding calculateEntropy_def Let_def ..
  also have "\<dots> = - (\<Sum>c \<in> set s. ?k c * log 2 (?k c) / ?n - ?k c / ?n * log 2 ?n)"
    by (simp only: sum.cong [OF refl step])
  also have "\<dots> = (\<Sum>c \<in> set s. ?k c) / ?n * log 2 ?n - (\<Sum>c \<in> set s. ?k c * log 2 (?k c)) / ?n"
    by (simp add: sum_subtractf sum_divide_distrib sum_distrib_right)
  also have "\<dots> = log 2 ?n - (\<Sum>c \<in> set s. ?k c * log 2 (?k c)) / ?n"
    using n by (simp add: sumk)
  finally show ?thesis .
qed

lemma entropy_gt_exact [js_eval]: "9/2 < calculateEntropy s \<longleftrightarrow> high_entropy_exact s"
proof (cases "s = []")
  case True
  then show ?thesis by (simp add: high_entropy_exact_def)
next
  case False
  let ?n = "length s" and ?k = "\<lambda>c. count_list s c"
  let ?S = "\<Sum>c \<in> set s. real (?k c) * log 2 (?k c)"
  let ?P = "\<Prod>c \<in> set s. ?k c ^ (2 * ?k c)"
  have n: "0 < real ?n" using False by simp
  have kpos: "\<And>c. c \<in> set s \<Longrightarrow> 0 < ?k c" by (rule count_list_pos)
  have Ppos: "0 < real ?P" using kpos by (simp add: prod_pos)
  have logP: "log 2 (real ?P) = 2 * ?S"
  proof -
    have "log 2 (real ?P) = (\<Sum>c \<in> set s. log 2 (real (?k c) ^ (2 * ?k c)))"
      using kpos by (simp add: of_nat_prod log_prod_pos)
    also have "\<dots> = (\<Sum>c \<in> set s. 2 * (real (?k c) * log 2 (?k c)))"
      by (simp add: log_nat_power mult.assoc)
    finally show ?thesis by (simp add: sum_distrib_left)
  qed
  have logN: "log 2 (real (?n ^ (2 * ?n))) = 2 * ?n * log 2 ?n"
    by (simp add: log_nat_power)
  have log9: "log 2 (real (2 ^ (9 * ?n) :: nat)) = 9 * ?n"
    by simp
  have "9/2 < calculateEntropy s \<longleftrightarrow> 9/2 < log 2 ?n - ?S / ?n"
    using False by (simp add: calculateEntropy_alt)
  also have "\<dots> \<longleftrightarrow> 9 * ?n + 2 * ?S < 2 * ?n * log 2 ?n"
    using n by (simp add: field_simps)
  also have "\<dots> \<longleftrightarrow> log 2 (real (2 ^ (9 * ?n) * ?P)) < log 2 (real (?n ^ (2 * ?n)))"
  proof -
    have p2: "0 < real (2 ^ (9 * ?n) :: nat)" by simp
    have "log 2 (real (2 ^ (9 * ?n) * ?P)) = log 2 (real (2 ^ (9 * ?n) :: nat)) + log 2 (real ?P)"
      by (simp only: of_nat_mult log_mult_pos [OF p2 Ppos])
    then have "log 2 (real (2 ^ (9 * ?n) * ?P)) = 9 * ?n + 2 * ?S"
      by (simp only: log9 logP)
    then show ?thesis by (simp only: logN)
  qed
  also have "\<dots> \<longleftrightarrow> real (2 ^ (9 * ?n) * ?P) < real (?n ^ (2 * ?n))"
    by (rule log_less_cancel_iff) (use Ppos n in simp_all)
  also have "\<dots> \<longleftrightarrow> int (2 ^ (9 * ?n) * ?P) < int (?n ^ (2 * ?n))"
    by (simp only: of_nat_less_iff)
  also have "\<dots> \<longleftrightarrow> high_entropy_exact s"
    using False by (simp add: high_entropy_exact_def prod.set_conv_list int_prod_list Let_def)
  finally show ?thesis .
qed

end
