(* ===== verification/Url_Parser.thy ===== *)
theory Url_Parser
  imports Prelude
begin

text \<open>
  The part of the WHATWG URL parser (\<open>new URL(s)\<close> without a base) that
  \<open>extractUrlFeatures\<close> reads: \<open>protocol\<close>, \<open>hostname\<close>, \<open>port\<close>, \<open>pathname\<close>
  and \<open>search\<close>. \<open>None\<close> is the \<open>TypeError\<close> the constructor throws. Modelled: input
  trimming and tab/newline removal, the scheme, the authority with user info, the host
  of the special schemes \<open>http\<close>/\<open>https\<close> (percent-decoding, forbidden code points,
  ASCII lower-casing, the IPv4 parser with hexadecimal and octal parts), bracketed IPv6
  hosts (kept as written, lower-cased, not validated), the opaque hosts of other schemes,
  the port (digits, at most 65535, the scheme's default port dropped). Not modelled:
  IDNA processing of non-ASCII hosts, percent-encoding and dot-segment removal in the
  path and query, which change only \<open>pathname\<close> and \<open>search\<close>.
\<close>

record parsed_url =
  protocol :: string
  hostname :: string
  port :: string
  pathname :: string
  search :: string

section \<open>Scheme\<close>

definition is_scheme_char :: "char \<Rightarrow> bool" where
  "is_scheme_char c \<longleftrightarrow> is_alpha c \<or> is_digit c \<or> c \<in> set ''+-.''"

definition strip_input :: "string \<Rightarrow> string" where
  "strip_input s =
     filter (\<lambda>c. (of_char c :: nat) \<notin> {9, 10, 13})
       (rev (dropWhile (\<lambda>c. (of_char c :: nat) \<le> 32) (rev (dropWhile (\<lambda>c. (of_char c :: nat) \<le> 32) s))))"

definition split_scheme :: "string \<Rightarrow> (string \<times> string) option" where
  "split_scheme s =
     (case s of
        [] \<Rightarrow> None
      | c # _ \<Rightarrow>
          if \<not> is_alpha c then None
          else (case dropWhile is_scheme_char s of
                  d # rest \<Rightarrow> if d = CHR '':'' then Some (to_lower (takeWhile is_scheme_char s), rest) else None
                | [] \<Rightarrow> None))"

definition is_special :: "string \<Rightarrow> bool" where
  "is_special sc \<longleftrightarrow> sc = ''http'' \<or> sc = ''https''"

definition default_port :: "string \<Rightarrow> nat option" where
  "default_port sc = (if sc = ''http'' then Some 80 else if sc = ''https'' then Some 443 else None)"

section \<open>Host\<close>

definition hex_val :: "char \<Rightarrow> nat" where
  "hex_val c = (let n = (of_char c :: nat) in
     if is_digit c then n - 48 else if is_upper c then n - 55 else n - 87)"

fun percent_decode :: "string \<Rightarrow> string" where
  "percent_decode (c # d # e # r) =
     (if c = CHR ''%'' \<and> is_hex d \<and> is_hex e then char_of (16 * hex_val d + hex_val e) # percent_decode r
      else c # percent_decode (d # e # r))"
| "percent_decode r = r"

definition forbidden_host_char :: "char \<Rightarrow> bool" where
  "forbidden_host_char c \<longleftrightarrow>
     (of_char c :: nat) \<in> {0, 9, 10, 13, 32} \<or> c \<in> set ''#/:<>?@[]^|'' \<or> c = CHR 0x5C"

definition forbidden_domain_char :: "char \<Rightarrow> bool" where
  "forbidden_domain_char c \<longleftrightarrow>
     forbidden_host_char c \<or> (of_char c :: nat) \<le> 31 \<or> c = CHR ''%'' \<or> (of_char c :: nat) = 127"

definition radix_value :: "nat \<Rightarrow> string \<Rightarrow> nat option" where
  "radix_value b ds =
     (if list_all (\<lambda>c. is_hex c \<and> hex_val c < b) ds
      then Some (foldl (\<lambda>acc c. b * acc + hex_val c) 0 ds) else None)"

text \<open>The IPv4 number parser: \<open>0x\<close> selects hexadecimal, a leading \<open>0\<close> octal.\<close>

definition ipv4_number :: "string \<Rightarrow> nat option" where
  "ipv4_number s =
     (if s = [] then None
      else if take 2 s \<in> {''0x'', ''0X''} then radix_value 16 (drop 2 s)
      else if 2 \<le> length s \<and> hd s = CHR ''0'' then radix_value 8 (tl s)
      else radix_value 10 s)"

definition drop_last_empty :: "string list \<Rightarrow> string list" where
  "drop_last_empty ps = (if 1 < length ps \<and> last ps = [] then butlast ps else ps)"

definition ends_in_number :: "string \<Rightarrow> bool" where
  "ends_in_number h =
     (let ps = split_on CHR ''.'' h in
      if last ps = [] \<and> length ps = 1 then False
      else let l = last (drop_last_empty ps) in
           (l \<noteq> [] \<and> list_all is_digit l) \<or> ipv4_number l \<noteq> None)"

definition serialize_ipv4 :: "nat \<Rightarrow> string" where
  "serialize_ipv4 a =
     nat_to_dec (a div 256 ^ 3) @ ''.'' @ nat_to_dec (a div 256 ^ 2 mod 256) @ ''.'' @
     nat_to_dec (a div 256 mod 256) @ ''.'' @ nat_to_dec (a mod 256)"

definition parse_ipv4 :: "string \<Rightarrow> string option" where
  "parse_ipv4 h =
     (let ps = drop_last_empty (split_on CHR ''.'' h) in
      if 4 < length ps then None
      else let ns = map ipv4_number ps in
        if None \<in> set ns then None
        else let vs = map the ns in
          if list_ex (\<lambda>v. 255 < v) (butlast vs) \<or> 256 ^ (5 - length vs) \<le> last vs then None
          else Some (serialize_ipv4
                 (last vs + sum_list (map (\<lambda>i. vs ! i * 256 ^ (3 - i)) [0..<length vs - 1]))))"

text \<open>Host parsing of a special URL: percent-decode, lower-case, reject forbidden
  code points, then read a host that ends in a number as IPv4.\<close>

definition parse_special_host :: "string \<Rightarrow> string option" where
  "parse_special_host h =
     (if h \<noteq> [] \<and> hd h = CHR ''['' then
        (if last h = CHR '']'' then Some (to_lower h) else None)
      else
        let d = to_lower (percent_decode h) in
        if d = [] \<or> list_ex forbidden_domain_char d then None
        else if ends_in_number d then parse_ipv4 d
        else Some d)"

definition parse_opaque_host :: "string \<Rightarrow> string option" where
  "parse_opaque_host h = (if list_ex forbidden_host_char h then None else Some h)"

section \<open>Authority, path and query\<close>

definition parse_port :: "string \<Rightarrow> string \<Rightarrow> string option" where
  "parse_port sc p =
     (if p = [] then Some []
      else if \<not> list_all is_digit p then None
      else let v = radix_value 10 p in
        if v = None \<or> 65535 < the v then None
        else if default_port sc = v then Some []
        else Some (nat_to_dec (the v)))"

text \<open>Split \<open>host:port\<close>; a bracketed IPv6 host keeps its colons.\<close>

definition split_host_port :: "string \<Rightarrow> string \<times> string option" where
  "split_host_port hp =
     (let h = (if hp \<noteq> [] \<and> hd hp = CHR ''['' then takeWhile (\<lambda>c. c \<noteq> CHR '']'') hp @ take 1 (dropWhile (\<lambda>c. c \<noteq> CHR '']'') hp)
               else takeWhile (\<lambda>c. c \<noteq> CHR '':'') hp);
          r = drop (length h) hp
      in (h, case r of c # p \<Rightarrow> if c = CHR '':'' then Some p else None | [] \<Rightarrow> None))"

definition path_and_search :: "bool \<Rightarrow> string \<Rightarrow> string \<times> string" where
  "path_and_search special r =
     (let r' = takeWhile (\<lambda>c. c \<noteq> CHR ''#'') r;
          p = takeWhile (\<lambda>c. c \<noteq> CHR ''?'') r';
          q = drop (Suc (length p)) r';
          p' = (if special then map (\<lambda>c. if c = CHR 0x5C then CHR ''/'' else c) p else p)
      in (if special \<and> p' = [] then ''/'' else p', if q = [] then [] else CHR ''?'' # q))"

definition parse_authority :: "string \<Rightarrow> bool \<Rightarrow> string \<Rightarrow> (string \<times> string \<times> string) option" where
  "parse_authority sc special rest =
     (let stop = (\<lambda>c. c \<in> set ''/?#'' \<or> (special \<and> c = CHR 0x5C));
          auth = takeWhile (\<lambda>c. \<not> stop c) rest;
          after = dropWhile (\<lambda>c. \<not> stop c) rest;
          hp = rev (takeWhile (\<lambda>c. c \<noteq> CHR ''@'') (rev auth));
          (h, pt) = split_host_port hp;
          host = (if special then (if h = [] then None else parse_special_host h)
                  else parse_opaque_host h);
          prt = (case pt of None \<Rightarrow> Some [] | Some p \<Rightarrow> parse_port sc p)
      in case (host, prt) of
           (Some hn, Some pn) \<Rightarrow> Some (hn, pn, after)
         | _ \<Rightarrow> None)"

definition parse_url :: "string \<Rightarrow> parsed_url option" where
  "parse_url input =
     (case split_scheme (strip_input input) of
        None \<Rightarrow> None
      | Some (sc, rest) \<Rightarrow>
          let special = is_special sc in
          if special then
            (case parse_authority sc True (dropWhile (\<lambda>c. c = CHR ''/'' \<or> c = CHR 0x5C) rest) of
               None \<Rightarrow> None
             | Some (hn, pn, after) \<Rightarrow>
                 let (p, q) = path_and_search True after in
                 Some \<lparr>protocol = sc @ '':'', hostname = hn, port = pn, pathname = p, search = q\<rparr>)
          else if take 2 rest = ''//'' then
            (case parse_authority sc False (drop 2 rest) of
               None \<Rightarrow> None
             | Some (hn, pn, after) \<Rightarrow>
                 let (p, q) = path_and_search False after in
                 Some \<lparr>protocol = sc @ '':'', hostname = hn, port = pn, pathname = p, search = q\<rparr>)
          else
            let (p, q) = path_and_search False rest in
            Some \<lparr>protocol = sc @ '':'', hostname = [], port = [], pathname = p, search = q\<rparr>)"

end
