(* ===== verification/Url_Analyzer.thy ===== *)
theory Url_Analyzer
  imports Rule_Score Patterns Entropy Url_Parser
begin

text \<open>
  Feature extraction and rule-based scoring of the URL analyzer
  (\<open>src/supabase/functions/analyze-logo/index.ts\<close>, second module, lines 148-348):
  the record \<open>UrlFeatures\<close>, \<open>extractUrlFeatures\<close> with its fallback when
  \<open>new URL\<close> throws, \<open>calculateConsonantRatio\<close> and \<open>calculateRiskScore\<close>.
  The scorer's sequence of \<open>if\<close> blocks is a list of rules (condition, points, message)
  folded in source order by \<open>apply_rules\<close> of \<open>Rule_Score\<close>.
\<close>

section \<open>Features\<close>

record url_features =
  urlLength :: nat
  numDots :: nat
  numHyphens :: nat
  numUnderscores :: nat
  numSlashes :: nat
  numDigits :: nat
  numAtSymbols :: nat
  hasHttps :: bool
  hasIpAddress :: bool
  hasSuspiciousTld :: bool
  hasSuspiciousKeywords :: bool
  hasEncodedChars :: bool
  domainLength :: nat
  pathLength :: nat
  queryLength :: nat
  numSubdomains :: nat
  hasPortNumber :: bool
  suspiciousKeywords :: "string list"
  entropy :: real
  consonantRatio :: real
  digitRatio :: real

text \<open>The dictionaries of \<open>extractUrlFeatures\<close>, in source order; \<open>verify\<close> is listed twice.\<close>

definition url_suspicious_keywords :: "string list" where
  "url_suspicious_keywords =
    [''login'', ''signin'', ''verify'', ''secure'', ''account'', ''update'', ''confirm'',
     ''banking'', ''password'', ''credential'', ''suspended'', ''unusual'', ''alert'',
     ''verify'', ''wallet'', ''paypal'', ''apple'', ''microsoft'', ''google'', ''facebook'',
     ''amazon'', ''netflix'', ''support'', ''help'', ''service'', ''billing'', ''payment'',
     ''authenticate'', ''validation'', ''security'', ''urgent'', ''immediately'', ''action'',
     ''required'', ''expire'', ''limited'', ''restore'', ''unlock'', ''reactivate'']"

definition url_suspicious_tlds :: "string list" where
  "url_suspicious_tlds =
    [''.xyz'', ''.top'', ''.tk'', ''.ml'', ''.ga'', ''.cf'', ''.gq'', ''.pw'', ''.cc'',
     ''.club'', ''.online'', ''.site'', ''.website'', ''.space'', ''.icu'', ''.buzz'']"

definition is_consonant :: "char \<Rightarrow> bool" where
  "is_consonant c \<longleftrightarrow> lower_char c \<in> set ''bcdfghjklmnpqrstvwxyz''"

definition calculateConsonantRatio :: "string \<Rightarrow> real" where
  "calculateConsonantRatio str =
     (let consonants = length (filter is_consonant str); letters = length (filter is_alpha str)
      in if 0 < letters then real consonants / real letters else 0)"

definition count_digits :: "string \<Rightarrow> nat" where
  "count_digits s = length (filter is_digit s)"

text \<open>
  \<open>digitRatio\<close> divides by the length of the URL; the handler only passes non-empty
  URLs, and for the empty string HOL's \<open>0 / 0 = 0\<close> and JavaScript's \<open>NaN\<close> both fail
  the test \<open>> 0.3\<close>.
\<close>

definition fallback_features :: "real \<Rightarrow> string \<Rightarrow> url_features" where
  "fallback_features e url =
     (let lower = to_lower url; found = filter (str_includes lower) url_suspicious_keywords in
      \<lparr>urlLength = length url,
       numDots = count_list url CHR ''.'', numHyphens = count_list url CHR ''-'',
       numUnderscores = count_list url CHR ''_'', numSlashes = count_list url CHR ''/'',
       numDigits = count_digits url, numAtSymbols = count_list url CHR ''@'',
       hasHttps = False,
       hasIpAddress = has_ipv4_pattern url,
       hasSuspiciousTld = list_ex (str_includes lower) url_suspicious_tlds,
       hasSuspiciousKeywords = list_ex (str_includes lower) url_suspicious_keywords,
       hasEncodedChars = has_pct_escape url,
       domainLength = 0, pathLength = 0, queryLength = 0, numSubdomains = 0,
       hasPortNumber = False,
       suspiciousKeywords = found,
       entropy = e,
       consonantRatio = calculateConsonantRatio url,
       digitRatio = real (count_digits url) / real (length url)\<rparr>)"

definition parsed_features :: "real \<Rightarrow> string \<Rightarrow> parsed_url \<Rightarrow> url_features" where
  "parsed_features e url u =
     (let h = hostname u; found = filter (str_includes (to_lower url)) url_suspicious_keywords;
          subdomains = int (length (split_on CHR ''.'' h)) - 2 in
      \<lparr>urlLength = length url,
       numDots = count_list url CHR ''.'', numHyphens = count_list url CHR ''-'',
       numUnderscores = count_list url CHR ''_'', numSlashes = count_list url CHR ''/'',
       numDigits = count_digits url, numAtSymbols = count_list url CHR ''@'',
       hasHttps = (protocol u = ''https:''),
       hasIpAddress = has_ipv4_pattern h,
       hasSuspiciousTld = list_ex (ends_with (to_lower h)) url_suspicious_tlds,
       hasSuspiciousKeywords = (found \<noteq> []),
       hasEncodedChars = has_pct_escape url,
       domainLength = length h, pathLength = length (pathname u), queryLength = length (search u),
       numSubdomains = nat (max 0 subdomains),
       hasPortNumber = (port u \<noteq> []),
       suspiciousKeywords = found,
       entropy = e,
       consonantRatio = calculateConsonantRatio h,
       digitRatio = real (count_digits url) / real (length url)\<rparr>)"

text \<open>
  A URL that does not start with \<open>http\<close> is parsed as \<open>https://\<close> followed by it.
  Both branches of the source store \<open>calculateEntropy(url)\<close>; the model computes it
  once and passes it to the branch (\<open>extract_features_with\<close>).
\<close>

definition extract_features_with :: "real \<Rightarrow> string \<Rightarrow> url_features" where
  "extract_features_with e url =
     (case parse_url (if starts_with url ''http'' then url else ''https://'' @ url) of
        None \<Rightarrow> fallback_features e url
      | Some u \<Rightarrow> parsed_features e url u)"

definition extractUrlFeatures :: "string \<Rightarrow> url_features" where
  "extractUrlFeatures url = extract_features_with (calculateEntropy url) url"

section \<open>Risk score\<close>

definition url_rules :: "url_features \<Rightarrow> rule list" where
  "url_rules f =
    [(hasIpAddress f, 25, ''IP address used instead of domain name''),
     (\<not> hasHttps f, 10, ''Insecure HTTP connection''),
     (hasSuspiciousTld f, 20, ''Suspicious top-level domain detected''),
     (hasSuspiciousKeywords f, min 25 (real (length (suspiciousKeywords f)) * 8),
        ''Phishing keywords detected: '' @ join_with '', '' (take 3 (suspiciousKeywords f))),
     (100 < urlLength f, min 15 ((real (urlLength f) - 100) / 20 * 5), ''Abnormally long URL''),
     (3 < numSubdomains f, min 15 ((real (numSubdomains f) - 3) * 5), ''Multiple subdomain levels detected''),
     (3 < numHyphens f, min 10 ((real (numHyphens f) - 3) * 3), ''Excessive hyphens in URL''),
     (0 < numAtSymbols f, 20, ''URL contains @ symbol (potential redirect attack)''),
     (hasEncodedChars f, 10, ''URL contains encoded characters''),
     (hasPortNumber f, 15, ''Non-standard port number in URL''),
     (4.5 < entropy f, 10, ''High entropy domain (potentially auto-generated)''),
     (0.3 < digitRatio f, 10, ''High ratio of digits in URL'')]"

definition calculateRiskScore :: "url_features \<Rightarrow> real \<times> string list" where
  "calculateRiskScore f = (let (score, threats) = apply_rules (url_rules f) in (min 100 score, threats))"

section \<open>Evaluation\<close>

text \<open>The score reads the entropy only through \<open>entropy > 4.5\<close>, so any value on the
  same side of the threshold gives the same result; with \<open>entropy_gt_exact\<close> the
  score of a concrete URL is computed without logarithms.\<close>

lemma extractUrlFeatures_entropy:
  "extractUrlFeatures url = (extract_features_with 0 url)\<lparr>entropy := calculateEntropy url\<rparr>"
  by (simp add: extractUrlFeatures_def extract_features_with_def fallback_features_def
      parsed_features_def Let_def split: option.split)

lemma risk_score_entropy_cong:
  "(9/2 < e \<longleftrightarrow> 9/2 < e') \<Longrightarrow>
   calculateRiskScore (extract_features_with e url) = calculateRiskScore (extract_features_with e' url)"
  by (simp add: extract_features_with_def fallback_features_def parsed_features_def
      calculateRiskScore_def url_rules_def Let_def split: option.split)

lemma risk_score_exec [js_eval]:
  "calculateRiskScore (extractUrlFeatures url) =
   calculateRiskScore (extract_features_with (if high_entropy_exact url then 5 else 0) url)"
  unfolding extractUrlFeatures_def
  using entropy_gt_exact [of url] by (intro risk_score_entropy_cong) auto

section \<open>Properties of the score\<close>

lemma url_rules_nonneg: "(c, p, m) \<in> set (url_rules f) \<Longrightarrow> c \<Longrightarrow> 0 \<le> p"
  by (auto simp: url_rules_def)

lemma url_rules_messages_distinct: "distinct (map (snd \<circ> snd) (url_rules f))"
  by (simp add: url_rules_def)

lemma url_rules_score_nonneg: "0 \<le> fst (apply_rules (url_rules f))"
  by (rule apply_rules_nonneg) (rule url_rules_nonneg)

lemma url_score_range: "calculateRiskScore f = (score, threats) \<Longrightarrow> 0 \<le> score \<and> score \<le> 100"
  using url_rules_score_nonneg [of f] by (auto simp: calculateRiskScore_def min_def case_prod_beta)

lemma calculateRiskScore_split:
  "calculateRiskScore f = (min 100 (fst (apply_rules (url_rules f))), snd (apply_rules (url_rules f)))"
  by (simp add: calculateRiskScore_def case_prod_beta)

lemma url_threats_distinct: "calculateRiskScore f = (s, ts) \<Longrightarrow> distinct ts"
  using distinct_fired_messages [OF url_rules_messages_distinct [of f]] by (simp add: calculateRiskScore_split)


text \<open>C1: the rule-based URL score lies between 0 and 100, for every feature record.\<close>

theorem calculateRiskScore_bounds:
  "0 \<le> fst (calculateRiskScore f) \<and> fst (calculateRiskScore f) \<le> 100"
  using url_rules_score_nonneg [of f] by (simp add: calculateRiskScore_split)

text \<open>C2: the threat list of the URL scorer never holds the same message twice.\<close>

theorem calculateRiskScore_threats_distinct: "distinct (snd (calculateRiskScore f))"
  using distinct_fired_messages [OF url_rules_messages_distinct [of f]]
  by (simp add: calculateRiskScore_split)

end
