(* ===== verification/Js_Value.thy ===== *)
theory Js_Value
  imports Prelude
begin

text \<open>
  The JavaScript values the edge functions exchange with the AI gateway: a parsed JSON
  value (\<open>jval\<close>), property access on a parsed object, truthiness (what \<open>if (x)\<close>,
  \<open>x || d\<close> and \<open>!x\<close> test), the conversion \<open>ToNumber\<close> applied by \<open>x / 2\<close>, and
  numbers with \<open>NaN\<close>: a JavaScript number is \<open>real option\<close>, \<open>None\<close> being \<open>NaN\<close>.
  Numbers are exact reals: the rounding of IEEE doubles and the infinities are not
  modelled (a JSON number is finite and its value is taken exactly).
\<close>

datatype jval =
    JNull
  | JBool bool
  | JNum real
  | JStr string
  | JArr "jval list"
  | JObj "(string \<times> jval) list"

type_synonym jobj = "(string \<times> jval) list"

type_synonym jsnum = "real option"

section \<open>Property access and truthiness\<close>

text \<open>\<open>obj.k\<close> on a parsed object; \<open>JSON.parse\<close> keeps the last of duplicate keys.\<close>

definition get_field :: "jobj \<Rightarrow> string \<Rightarrow> jval option" where
  "get_field obj k = map_of (rev obj) k"

fun truthy :: "jval \<Rightarrow> bool" where
  "truthy JNull = False"
| "truthy (JBool b) = b"
| "truthy (JNum r) = (r \<noteq> 0)"
| "truthy (JStr s) = (s \<noteq> [])"
| "truthy (JArr xs) = True"
| "truthy (JObj kvs) = True"

text \<open>Truthiness of a property that may be \<open>undefined\<close> (\<open>None\<close>).\<close>

definition truthy_opt :: "jval option \<Rightarrow> bool" where
  "truthy_opt v = (case v of None \<Rightarrow> False | Some x \<Rightarrow> truthy x)"

text \<open>\<open>a || d\<close>: \<open>a\<close> when it is truthy, otherwise \<open>d\<close>.\<close>

definition js_or :: "jval option \<Rightarrow> jval \<Rightarrow> jval" where
  "js_or a d = (if truthy_opt a then the a else d)"

lemma truthy_opt_simps [simp]:
  "truthy_opt None = False" "truthy_opt (Some x) = truthy x"
  by (simp_all add: truthy_opt_def)

lemma js_or_simps [simp]:
  "js_or None d = d" "js_or (Some x) d = (if truthy x then x else d)"
  by (simp_all add: js_or_def)

lemma get_field_Nil [simp]: "get_field [] k = None"
  by (simp add: get_field_def)

lemma get_field_Cons [simp]:
  "get_field (kv # kvs) k = (case get_field kvs k of None \<Rightarrow> (if fst kv = k then Some (snd kv) else None) | Some v \<Rightarrow> Some v)"
  by (cases kv) (simp add: get_field_def map_of_append map_add_def split: option.split)

text \<open>
  Property access \<open>v.k\<close> and \<open>v[i]\<close> on a value that is not \<open>null\<close> (on \<open>null\<close> it
  throws, which the callers model). Arrays and strings have \<open>length\<close> and indices;
  numbers and booleans have none of the properties the analyzers read. The analyzers read
  no name of \<open>Object.prototype\<close>, so only own properties are modelled.
\<close>

fun get_prop :: "jval \<Rightarrow> string \<Rightarrow> jval option" where
  "get_prop (JObj kvs) k = get_field kvs k"
| "get_prop (JArr xs) k = (if k = ''length'' then Some (JNum (real (length xs))) else None)"
| "get_prop (JStr s) k = (if k = ''length'' then Some (JNum (real (length s))) else None)"
| "get_prop v k = None"

fun get_index :: "jval \<Rightarrow> nat \<Rightarrow> jval option" where
  "get_index (JObj kvs) i = get_field kvs (nat_to_dec i)"
| "get_index (JArr xs) i = (if i < length xs then Some (xs ! i) else None)"
| "get_index (JStr s) i = (if i < length s then Some (JStr [s ! i]) else None)"
| "get_index v i = None"

text \<open>Optional chaining \<open>v?.k\<close> and \<open>v?.[i]\<close>: \<open>undefined\<close> on \<open>null\<close> or \<open>undefined\<close>.\<close>

definition opt_prop :: "jval option \<Rightarrow> string \<Rightarrow> jval option" where
  "opt_prop v k = (case v of None \<Rightarrow> None | Some JNull \<Rightarrow> None | Some x \<Rightarrow> get_prop x k)"

definition opt_index :: "jval option \<Rightarrow> nat \<Rightarrow> jval option" where
  "opt_index v i = (case v of None \<Rightarrow> None | Some JNull \<Rightarrow> None | Some x \<Rightarrow> get_index x i)"

section \<open>ToNumber\<close>

text \<open>
  \<open>StringToNumber\<close> on decimal literals: surrounding white space is ignored, the empty
  string is \<open>0\<close>, then an optional sign, digits with an optional fraction, and an
  optional exponent. Hexadecimal, octal and binary literals and \<open>Infinity\<close> are not
  modelled and read as \<open>NaN\<close>.
\<close>

definition digits_value :: "string \<Rightarrow> nat" where
  "digits_value ds = foldl (\<lambda>acc d. 10 * acc + ((of_char d :: nat) - 48)) 0 ds"

definition trim_space :: "string \<Rightarrow> string" where
  "trim_space s = rev (dropWhile is_space (rev (dropWhile is_space s)))"

definition scale10 :: "real \<Rightarrow> int \<Rightarrow> real" where
  "scale10 v e = (if 0 \<le> e then v * 10 ^ nat e else v / 10 ^ nat (- e))"

definition sign_of :: "string \<Rightarrow> int \<times> string" where
  "sign_of s = (case s of c # r \<Rightarrow> if c = CHR ''-'' then (-1, r) else if c = CHR ''+'' then (1, r)
                                  else (1, s) | [] \<Rightarrow> (1, []))"

definition exponent_of :: "string \<Rightarrow> int option" where
  "exponent_of s = (case s of [] \<Rightarrow> Some 0
     | c # r \<Rightarrow> if c \<in> set ''eE'' then
         (let (sg, ds) = sign_of r in
          if ds \<noteq> [] \<and> list_all is_digit ds then Some (sg * int (digits_value ds)) else None)
       else None)"

definition str_to_number :: "string \<Rightarrow> jsnum" where
  "str_to_number s =
     (let t = trim_space s in
      if t = [] then Some 0 else
      let (sg, r) = sign_of t;
          ip = takeWhile is_digit r; r1 = dropWhile is_digit r;
          (fp, r2) = (case r1 of c # r' \<Rightarrow> if c = CHR ''.'' then (takeWhile is_digit r', dropWhile is_digit r')
                                          else ([], r1) | [] \<Rightarrow> ([], []))
      in if ip = [] \<and> fp = [] then None else
         case exponent_of r2 of
           None \<Rightarrow> None
         | Some e \<Rightarrow> Some (of_int sg * scale10 (real (digits_value (ip @ fp))) (e - int (length fp))))"

text \<open>
  \<open>ToNumber\<close> of a JSON value. An array converts through its string form: \<open>[]\<close> and
  \<open>[null]\<close> are \<open>""\<close>, hence \<open>0\<close>; a one-element array converts as its element; a
  longer array or an object is \<open>NaN\<close>.
\<close>

fun to_number :: "jval \<Rightarrow> jsnum" where
  "to_number JNull = Some 0"
| "to_number (JBool b) = Some (if b then 1 else 0)"
| "to_number (JNum r) = Some r"
| "to_number (JStr s) = str_to_number s"
| "to_number (JArr []) = Some 0"
| "to_number (JArr [JBool b]) = None"
| "to_number (JArr [JObj kvs]) = None"
| "to_number (JArr [x]) = to_number x"
| "to_number (JArr (x # y # zs)) = None"
| "to_number (JObj kvs) = None"

section \<open>String conversion\<close>

text \<open>
  \<open>String(v)\<close>, used by template literals. Arrays convert by \<open>join(",")\<close>, with
  \<open>null\<close> elements as the empty string; objects are \<open>"[object Object]"\<close>. Numbers: an
  integer prints in decimal, another number with at most 20 decimals prints them all;
  the shortest-round-trip printing of IEEE doubles and the exponent forms (below
  \<open>1e-6\<close> and from \<open>1e21\<close>) are not modelled.
\<close>

definition int_to_dec :: "int \<Rightarrow> string" where
  "int_to_dec i = (if i < 0 then CHR ''-'' # nat_to_dec (nat (- i)) else nat_to_dec (nat i))"

definition num_to_string :: "real \<Rightarrow> string" where
  "num_to_string r =
     (let k = (case find (\<lambda>k. of_int \<lfloor>\<bar>r\<bar> * 10 ^ k\<rfloor> = \<bar>r\<bar> * 10 ^ k) [0..<21] of Some k \<Rightarrow> k | None \<Rightarrow> 20);
          m = nat \<lfloor>\<bar>r\<bar> * 10 ^ k\<rfloor>;
          ds = nat_to_dec m;
          ds' = replicate (Suc k - length ds) CHR ''0'' @ ds;
          body = (if k = 0 then ds else take (length ds' - k) ds' @ ''.'' @ drop (length ds' - k) ds')
      in if r < 0 then CHR ''-'' # body else body)"

fun js_to_string :: "jval \<Rightarrow> string" where
  "js_to_string JNull = ''null''"
| "js_to_string (JBool b) = (if b then ''true'' else ''false'')"
| "js_to_string (JNum r) = num_to_string r"
| "js_to_string (JStr s) = s"
| "js_to_string (JArr xs) = join_with '','' (map (\<lambda>x. if x = JNull then [] else js_to_string x) xs)"
| "js_to_string (JObj kvs) = ''[object Object]''"

section \<open>Arithmetic with NaN\<close>

definition num_add :: "jsnum \<Rightarrow> jsnum \<Rightarrow> jsnum" where
  "num_add a b = (case (a, b) of (Some x, Some y) \<Rightarrow> Some (x + y) | _ \<Rightarrow> None)"

definition num_sub :: "jsnum \<Rightarrow> jsnum \<Rightarrow> jsnum" where
  "num_sub a b = (case (a, b) of (Some x, Some y) \<Rightarrow> Some (x - y) | _ \<Rightarrow> None)"

definition num_ge :: "jsnum \<Rightarrow> real \<Rightarrow> bool" where
  "num_ge a c = (case a of Some x \<Rightarrow> c \<le> x | None \<Rightarrow> False)"

text \<open>\<open>Math.max\<close> and \<open>Math.min\<close> of two numbers: \<open>NaN\<close> if either is.\<close>

definition num_max :: "jsnum \<Rightarrow> jsnum \<Rightarrow> jsnum" where
  "num_max a b = (case (a, b) of (Some x, Some y) \<Rightarrow> Some (max x y) | _ \<Rightarrow> None)"

definition num_min :: "jsnum \<Rightarrow> jsnum \<Rightarrow> jsnum" where
  "num_min a b = (case (a, b) of (Some x, Some y) \<Rightarrow> Some (min x y) | _ \<Rightarrow> None)"

text \<open>\<open>Math.round\<close> rounds half-way cases up: \<open>\<lfloor>x + 1/2\<rfloor>\<close>, which is HOL's \<open>round\<close>.\<close>

definition js_round :: "real \<Rightarrow> real" where
  "js_round x = of_int (round x)"

definition num_round :: "jsnum \<Rightarrow> jsnum" where
  "num_round a = map_option js_round a"

lemma num_simps [simp]:
  "num_add (Some x) (Some y) = Some (x + y)" "num_add None b = None" "num_add a None = None"
  "num_sub (Some x) (Some y) = Some (x - y)" "num_sub None b = None" "num_sub a None = None"
  "num_ge (Some x) c = (c \<le> x)" "num_ge None c = False"
  "num_max (Some x) (Some y) = Some (max x y)" "num_max None b = None" "num_max a None = None"
  "num_min (Some x) (Some y) = Some (min x y)" "num_min None b = None" "num_min a None = None"
  "num_round (Some x) = Some (js_round x)" "num_round None = None"
  by (simp_all add: num_add_def num_sub_def num_ge_def num_max_def num_min_def num_round_def split: option.split)

lemma js_round_bounds: "x - 1/2 < js_round x" "js_round x \<le> x + 1/2"
proof -
  have a: "of_int \<lfloor>x + 1/2\<rfloor> \<le> x + 1/2" by (rule of_int_floor_le)
  have b: "x + 1/2 < of_int \<lfloor>x + 1/2\<rfloor> + 1" by (rule real_of_int_floor_add_one_gt)
  show "x - 1/2 < js_round x" unfolding js_round_def round_def using b by linarith
  show "js_round x \<le> x + 1/2" unfolding js_round_def round_def using a by linarith
qed

lemma js_round_mono: "x \<le> y \<Longrightarrow> js_round x \<le> js_round y"
  by (simp add: js_round_def round_mono)

lemma js_round_numeral [simp]: "js_round (numeral n) = numeral n" "js_round 0 = 0"
  by (simp_all add: js_round_def)

lemma js_round_between: "a \<le> x \<Longrightarrow> x \<le> b \<Longrightarrow> js_round a \<le> js_round x \<and> js_round x \<le> js_round b"
  by (simp add: js_round_mono)

lemma js_round_int [simp]: "js_round (of_int k) = of_int k"
  by (simp add: js_round_def)

section \<open>Spread and Set equality on values\<close>

text \<open>\<open>xs.push(...v)\<close>: arrays and strings are iterable, anything else raises a
  \<open>TypeError\<close> (\<open>None\<close>).\<close>

fun spread :: "jval \<Rightarrow> jval list option" where
  "spread (JArr xs) = Some xs"
| "spread (JStr s) = Some (map (\<lambda>c. JStr [c]) s)"
| "spread v = None"

text \<open>
  \<open>Set\<close> compares primitives by value and objects by reference; every array or object
  taken from a parsed reply is a fresh reference, so two of them are never the same.
\<close>

fun is_primitive :: "jval \<Rightarrow> bool" where
  "is_primitive (JArr xs) = False"
| "is_primitive (JObj kvs) = False"
| "is_primitive v = True"

definition same_value_zero :: "jval \<Rightarrow> jval \<Rightarrow> bool" where
  "same_value_zero a b \<longleftrightarrow> is_primitive a \<and> a = b"

lemma same_value_zero_strings [simp]: "same_value_zero (JStr s) (JStr t) \<longleftrightarrow> s = t"
  by (simp add: same_value_zero_def)

lemma dedup_same_value_zero_distinct: "distinct (filter is_primitive (dedup_by same_value_zero xs))"
  by (rule dedup_by_distinct_on) (simp add: same_value_zero_def)

lemma same_value_zero_eq: "same_value_zero a b \<Longrightarrow> a = b"
  by (simp add: same_value_zero_def)

end
