(* ===== verification/Report.thy ===== *)
theory Report
  imports Js_Value
begin

text \<open>
  What every analyzer answers: a verdict (the strings \<open>"safe"\<close>, \<open>"suspicious"\<close>,
  \<open>"phishing"\<close>, \<open>"unknown"\<close>), a confidence and a list of threat indicators, inside an
  HTTP response. The handlers differ in the details they add; each component extends
  the record \<open>report\<close> with its own fields. A handler's outcome is a value of
  \<open>'a response\<close>: the CORS preflight answer, a 400 answer with its message, a 500
  answer with the cause of the exception the \<open>catch\<close> turned into it, or a 200 answer.
  The confidence is a JavaScript number, so it may be \<open>NaN\<close> (\<open>None\<close>), which
  \<open>JSON.stringify\<close> writes as \<open>null\<close>.
\<close>

datatype verdict = Safe | Suspicious | Phishing | Unknown

record report =
  result :: verdict
  confidence :: jsnum
  threatIndicators :: "jval list"

text \<open>The exceptions a handler's \<open>try\<close> block can raise, each turned into a 500 answer.\<close>

datatype server_error =
    Request_Not_Json
  | Request_Null
  | Api_Key_Missing
  | Gateway_Unreachable
  | Gateway_Reply_Not_Json
  | Gateway_Reply_Null
  | Spread_Not_Iterable
  | Length_Of_Null
  | Not_A_Function

datatype 'a response =
    Preflight
  | Bad_Request string
  | Server_Error server_error
  | Ok 'a

record request =
  req_method :: string
  req_body :: "jval option"

definition http_status :: "'a response \<Rightarrow> nat" where
  "http_status r = (case r of Bad_Request m \<Rightarrow> 400 | Server_Error e \<Rightarrow> 500 | _ \<Rightarrow> 200)"

text \<open>\<open>const { a, b } = await req.json()\<close>: \<open>None\<close> when the body is not JSON or is
  \<open>null\<close> (both throw), otherwise the values of the named properties.\<close>

definition destructure :: "jval option \<Rightarrow> string list \<Rightarrow> (server_error + jval option list)" where
  "destructure b ks =
     (case b of None \<Rightarrow> Inl Request_Not_Json
      | Some JNull \<Rightarrow> Inl Request_Null
      | Some v \<Rightarrow> Inr (map (get_prop v) ks))"

text \<open>The score thresholds shared by the URL and e-mail analyzers:
  \<open>s >= 50 ? "phishing" : s >= 25 ? "suspicious" : "safe"\<close>; \<open>NaN\<close> fails both tests.\<close>

definition verdict_of :: "jsnum \<Rightarrow> verdict" where
  "verdict_of s = (if num_ge s 50 then Phishing else if num_ge s 25 then Suspicious else Safe)"

lemma http_status_simps [simp]:
  "http_status Preflight = 200" "http_status (Bad_Request m) = 400"
  "http_status (Server_Error e) = 500" "http_status (Ok x) = 200"
  by (simp_all add: http_status_def)

lemma destructure_simps [simp]:
  "destructure None ks = Inl Request_Not_Json"
  "destructure (Some JNull) ks = Inl Request_Null"
  "v \<noteq> JNull \<Longrightarrow> destructure (Some v) ks = Inr (map (get_prop v) ks)"
  by (simp_all add: destructure_def split: jval.split)

lemma verdict_of_NaN [simp]: "verdict_of None = Safe"
  by (simp add: verdict_of_def)

lemma verdict_of_Some:
  "verdict_of (Some x) = (if 50 \<le> x then Phishing else if 25 \<le> x then Suspicious else Safe)"
  by (simp add: verdict_of_def)

lemma verdict_of_mono:
  assumes "x \<le> y"
  shows "verdict_of (Some x) = Phishing \<Longrightarrow> verdict_of (Some y) = Phishing"
    and "verdict_of (Some y) = Safe \<Longrightarrow> verdict_of (Some x) = Safe"
  using assms by (auto simp: verdict_of_Some split: if_splits)

lemma verdict_of_not_unknown [simp]: "verdict_of s \<noteq> Unknown"
  by (simp add: verdict_of_def)


lemma response_map_Ok: "map_response g x = Ok y \<Longrightarrow> \<exists>r. x = Ok r \<and> g r = y"
  by (cases x) auto
end
