(* ===== verification/Ai_Gateway.thy ===== *)
theory Ai_Gateway
  imports Report
begin

text \<open>
  The adapter to the AI gateway that the three hybrid handlers (URL, e-mail and logo)
  share, written three times in the sources with the same statements. The gateway is an
  oracle: its answer is an input of the model, \<open>ai_reply\<close>, either a rejected \<open>fetch\<close>
  or an HTTP status with a body that \<open>aiResponse.json()\<close> parsed (\<open>None\<close>: not JSON,
  which throws). The handlers read \<open>aiData.choices?.[0]?.message?.content || "{}"\<close>,
  cut the text from its first \<open>{\<close> to its last \<open>}\<close> (the greedy regular expression
  \<open>/\{[\s\S]*\}/\<close>) and give it to \<open>JSON.parse\<close>. \<open>JSON.parse\<close> is a parameter
  \<open>jparse\<close> of every lemma: the cut text starts with \<open>{\<close>, so a successful parse is an
  object, and \<open>jparse\<close> returns the object or \<open>None\<close> for the \<open>SyntaxError\<close>.
  \<open>ai_score\<close> and \<open>combined_score\<close> are the combination of the URL and e-mail handlers.
\<close>

datatype ai_reply = Ai_Unreachable | Ai_Reply nat "jval option"

definition reply_ok :: "nat \<Rightarrow> bool" where
  "reply_ok st \<longleftrightarrow> 200 \<le> st \<and> st \<le> 299"

text \<open>\<open>aiData.choices?.[0]?.message?.content || "{}"\<close>; \<open>None\<close> when \<open>aiData\<close> is
  \<open>null\<close>, where \<open>aiData.choices\<close> throws.\<close>

definition ai_content :: "jval \<Rightarrow> jval option" where
  "ai_content d =
     (if d = JNull then None
      else Some (js_or (opt_prop (opt_prop (opt_index (get_prop d ''choices'') 0) ''message'') ''content'')
                       (JStr ''{}'')))"

text \<open>The leftmost, longest match of \<open>/\{[\s\S]*\}/\<close>: from the first \<open>{\<close> to the last
  \<open>}\<close> after it.\<close>

definition brace_match :: "string \<Rightarrow> string option" where
  "brace_match s =
     (let t = dropWhile (\<lambda>c. c \<noteq> CHR ''{'') s;
          u = rev (dropWhile (\<lambda>c. c \<noteq> CHR ''}'') (rev t))
      in if u = [] then None else Some u)"

text \<open>The outcome of the \<open>try\<close> block around the match and the parse: the block threw
  (\<open>content.match\<close> on a value that is not a string, or a \<open>SyntaxError\<close>), found no
  braces, or parsed an object.\<close>

datatype ai_extract = Extract_Threw | Extract_No_Match | Extract_Obj jobj

definition ai_extract :: "(string \<Rightarrow> jobj option) \<Rightarrow> jval \<Rightarrow> ai_extract" where
  "ai_extract jparse content =
     (case content of
        JStr s \<Rightarrow> (case brace_match s of
                     None \<Rightarrow> Extract_No_Match
                   | Some m \<Rightarrow> (case jparse m of None \<Rightarrow> Extract_Threw | Some obj \<Rightarrow> Extract_Obj obj))
      | _ \<Rightarrow> Extract_Threw)"

text \<open>\<open>aiScore = isPhishing ? 50 + (confidence || 50) / 2 : 50 - (confidence || 50) / 2\<close>.\<close>

definition ai_score :: "jobj \<Rightarrow> jsnum" where
  "ai_score a =
     (let half = map_option (\<lambda>x. x / 2) (to_number (js_or (get_field a ''confidence'') (JNum 50)))
      in if truthy_opt (get_field a ''isPhishing'') then num_add (Some 50) half else num_sub (Some 50) half)"

text \<open>\<open>combinedScore = ruleBasedScore * 0.4 + aiScore * 0.6\<close>.\<close>

definition combined_score :: "real \<Rightarrow> jsnum \<Rightarrow> jsnum" where
  "combined_score rule ai = map_option (\<lambda>a. rule * 0.4 + a * 0.6) ai"

text \<open>An oracle confidence the prompts ask for: a number in \<open>[0, 100]\<close>, or absent.\<close>

definition valid_confidence :: "jobj \<Rightarrow> bool" where
  "valid_confidence a =
     (case get_field a ''confidence'' of
        None \<Rightarrow> True
      | Some (JNum x) \<Rightarrow> 0 \<le> x \<and> x \<le> 100
      | Some JNull \<Rightarrow> True
      | Some v \<Rightarrow> False)"

section \<open>The combiner of the specification\<close>

text \<open>
  The combination the specification prescribes (section 4.4): an oracle signal
  \<open>(isPositive, confidence)\<close> maps to \<open>50 +/- confidence/2\<close>, the combined score is
  \<open>ruleScore * 0.4 + oracleScaled * 0.6\<close> and the thresholds are 50 and 25. The neutral
  fallback signal is \<open>(False, 50)\<close>. These definitions state the contract; the lemmas
  below relate the handlers' \<open>ai_score\<close> and \<open>combined_score\<close> to them.
\<close>

definition spec_oracle_scaled :: "bool \<Rightarrow> real \<Rightarrow> real" where
  "spec_oracle_scaled p c = (if p then 50 + c / 2 else 50 - c / 2)"

definition spec_combined :: "real \<Rightarrow> bool \<Rightarrow> real \<Rightarrow> real" where
  "spec_combined rule p c = rule * 0.4 + spec_oracle_scaled p c * 0.6"

definition spec_verdict :: "real \<Rightarrow> verdict" where
  "spec_verdict x = (if 50 \<le> x then Phishing else if 25 \<le> x then Suspicious else Safe)"

lemma brace_match_None_iff: "brace_match s = None \<longleftrightarrow> CHR ''}'' \<notin> set (dropWhile (\<lambda>c. c \<noteq> CHR ''{'') s)"
  by (auto simp: brace_match_def Let_def dropWhile_eq_Nil_conv)

lemma brace_match_Some:
  assumes "brace_match s = Some m"
  shows "hd m = CHR ''{'' \<and> last m = CHR ''}'' \<and> sublist m s"
proof -
  let ?t = "dropWhile (\<lambda>c. c \<noteq> CHR ''{'') s"
  have m: "m = rev (dropWhile (\<lambda>c. c \<noteq> CHR ''}'') (rev ?t))" and ne: "m \<noteq> []"
    using assms by (auto simp: brace_match_def Let_def split: if_splits)
  have pm: "prefix m ?t"
    unfolding m by (metis prefix_def rev_append takeWhile_dropWhile_id rev_rev_ident)
  have st: "suffix ?t s" by (metis suffix_def takeWhile_dropWhile_id)
  have tne: "?t \<noteq> []" using pm ne by (metis prefix_Nil)
  have "hd ?t = CHR ''{''" using hd_dropWhile [OF tne] by simp
  then have "hd m = CHR ''{''" using pm ne by (auto simp: prefix_def)
  moreover have "last m = CHR ''}''"
  proof -
    let ?d = "dropWhile (\<lambda>c. c \<noteq> CHR ''}'') (rev ?t)"
    have "?d \<noteq> []" using ne m by auto
    then have "hd ?d = CHR ''}''" using hd_dropWhile by blast
    then show ?thesis using m \<open>?d \<noteq> []\<close> by (simp add: last_rev)
  qed
  moreover have "sublist m s" using pm st by (auto simp: prefix_def suffix_def sublist_def) blast
  ultimately show ?thesis by blast
qed

lemma valid_confidence_or:
  assumes "valid_confidence a" "0 < d" "d \<le> 100"
  shows "\<exists>k. to_number (js_or (get_field a ''confidence'') (JNum d)) = Some k \<and> 0 < k \<and> k \<le> 100"
  using assms by (auto simp: valid_confidence_def split: option.splits jval.splits)

lemma ai_score_valid:
  assumes "valid_confidence a"
  shows "\<exists>x. ai_score a = Some x \<and> 0 \<le> x \<and> x \<le> 100"
proof -
  obtain c where "to_number (js_or (get_field a ''confidence'') (JNum 50)) = Some c" and "0 < c" "c \<le> 100"
    using valid_confidence_or [OF assms, of 50] by auto
  then show ?thesis by (auto simp: ai_score_def Let_def)
qed

lemma combined_score_bounds:
  assumes "0 \<le> r" "r \<le> 100" "0 \<le> x" "x \<le> 100"
  shows "\<exists>y. combined_score r (Some x) = Some y \<and> 0 \<le> y \<and> y \<le> 100"
  using assms by (simp add: combined_score_def)

lemma combined_score_refines:
  assumes "get_field a ''isPhishing'' = Some (JBool p)" "get_field a ''confidence'' = Some (JNum c)" "c \<noteq> 0"
  shows "combined_score rule (ai_score a) = Some (spec_combined rule p c)"
    "verdict_of (combined_score rule (ai_score a)) = spec_verdict (spec_combined rule p c)"
  using assms by (simp_all add: ai_score_def combined_score_def spec_combined_def spec_oracle_scaled_def
      verdict_of_Some spec_verdict_def Let_def)

end
