(* ===== verification/Url_Handler.thy ===== *)
theory Url_Handler
  imports Url_Analyzer Ai_Gateway
begin

text \<open>
  The request handler of the URL analyzer (\<open>serve\<close> in lines 350-510 of
  \<open>src/supabase/functions/analyze-logo/index.ts\<close>). \<open>analyze_url jparse key reply req\<close>
  is the whole handler: \<open>key\<close> is \<open>Deno.env.get("LOVABLE_API_KEY")\<close>, \<open>reply\<close> the
  gateway's answer, \<open>jparse\<close> \<open>JSON.parse\<close> on the cut reply text. A gateway status
  outside 200-299 gives the rule-based report; otherwise the reply is combined with the
  rule score into the hybrid report. The report leaves out \<open>analysisDetails.features\<close>
  (the record \<open>extractUrlFeatures(url)\<close>, echoed unchanged), the random
  \<open>blockchainHash\<close> and the timestamp.
\<close>

datatype url_details = Rule_Based | Hybrid_Ai jsnum jsnum jobj

record url_report = report +
  url :: string
  ruleBasedScore :: real
  details :: url_details

text \<open>The object the \<open>catch\<close> around \<open>JSON.parse\<close> substitutes; \<open>{}\<close> when no braces
  were found.\<close>

definition url_ai_fallback :: jobj where
  "url_ai_fallback =
     [(''isPhishing'', JBool False), (''confidence'', JNum 50),
      (''reasoning'', JStr ''Unable to parse AI response'')]"

definition url_ai_analysis :: "ai_extract \<Rightarrow> jobj" where
  "url_ai_analysis x = (case x of Extract_Threw \<Rightarrow> url_ai_fallback | Extract_No_Match \<Rightarrow> [] | Extract_Obj obj \<Rightarrow> obj)"

text \<open>\<open>finalConfidence\<close>, and the confidence the response reports:
  \<open>result === "safe" ? finalConfidence : 100 - finalConfidence + 50\<close>.\<close>

definition url_final_confidence :: "real \<Rightarrow> jobj \<Rightarrow> jsnum \<Rightarrow> jsnum" where
  "url_final_confidence rule a comb =
     num_round (if 20 < rule \<or> truthy_opt (get_field a ''isPhishing'')
                then num_max comb (to_number (js_or (get_field a ''confidence'') (JNum 70)))
                else num_min (num_sub (Some 100) comb) (Some 95))"

definition url_reported_confidence :: "verdict \<Rightarrow> jsnum \<Rightarrow> jsnum" where
  "url_reported_confidence v fc = (if v = Safe then fc else num_add (num_sub (Some 100) fc) (Some 50))"

text \<open>\<open>allThreats\<close>: the rule threats, the spread \<open>additionalThreats\<close> (\<open>None\<close>: the
  spread threw), and the reasoning when the verdict is not safe.\<close>

definition url_all_threats :: "string list \<Rightarrow> jobj \<Rightarrow> verdict \<Rightarrow> jval list option" where
  "url_all_threats threats a v =
     (let add = get_field a ''additionalThreats''; r = get_field a ''reasoning'';
          extra = (if truthy_opt add then spread (the add) else Some [])
      in map_option (\<lambda>e. map JStr threats @ e @ (if truthy_opt r \<and> v \<noteq> Safe then [the r] else [])) extra)"

definition url_rule_based_report :: "string \<Rightarrow> real \<Rightarrow> string list \<Rightarrow> url_report" where
  "url_rule_based_report u score threats =
     \<lparr>result = verdict_of (Some score), confidence = Some (100 - \<bar>50 - score\<bar>),
      threatIndicators = map JStr threats, url = u, ruleBasedScore = score, details = Rule_Based\<rparr>"

definition url_hybrid_report ::
  "(string \<Rightarrow> jobj option) \<Rightarrow> string \<Rightarrow> real \<Rightarrow> string list \<Rightarrow> jval \<Rightarrow> server_error + url_report" where
  "url_hybrid_report jparse u score threats aiData =
     (case ai_content aiData of
        None \<Rightarrow> Inl Gateway_Reply_Null
      | Some content \<Rightarrow>
          let a = url_ai_analysis (ai_extract jparse content);
              ai = ai_score a;
              comb = combined_score score ai;
              v = verdict_of comb;
              fc = url_final_confidence score a comb
          in case url_all_threats threats a v of
               None \<Rightarrow> Inl Spread_Not_Iterable
             | Some ts \<Rightarrow> Inr \<lparr>result = v, confidence = url_reported_confidence v fc,
                               threatIndicators = dedup_by same_value_zero ts, url = u,
                               ruleBasedScore = score,
                               details = Hybrid_Ai (num_round ai) (num_round comb) a\<rparr>)"

definition analyze_url ::
  "(string \<Rightarrow> jobj option) \<Rightarrow> string option \<Rightarrow> ai_reply \<Rightarrow> request \<Rightarrow> url_report response" where
  "analyze_url jparse key reply req =
     (if req_method req = ''OPTIONS'' then Preflight else
      case destructure (req_body req) [''url''] of
        Inl e \<Rightarrow> Server_Error e
      | Inr vs \<Rightarrow>
          (case hd vs of
             Some (JStr u) \<Rightarrow>
               if u = [] then Bad_Request ''URL is required''
               else if key = None \<or> key = Some [] then Server_Error Api_Key_Missing
               else
                 (let (score, threats) = calculateRiskScore (extractUrlFeatures u) in
                  case reply of
                    Ai_Unreachable \<Rightarrow> Server_Error Gateway_Unreachable
                  | Ai_Reply st body \<Rightarrow>
                      if \<not> reply_ok st then Ok (url_rule_based_report u score threats)
                      else (case body of
                              None \<Rightarrow> Server_Error Gateway_Reply_Not_Json
                            | Some d \<Rightarrow> (case url_hybrid_report jparse u score threats d of
                                           Inl e \<Rightarrow> Server_Error e
                                         | Inr r \<Rightarrow> Ok r)))
           | _ \<Rightarrow> Bad_Request ''URL is required''))"

section \<open>Properties of the handler\<close>

lemma url_hybrid_confidence:
  assumes s: "0 \<le> score" "score \<le> 100" and va: "valid_confidence a"
    and v: "v = verdict_of (combined_score score (ai_score a))"
  shows "\<exists>x. url_reported_confidence v (url_final_confidence score a (combined_score score (ai_score a))) = Some x
           \<and> 0 \<le> x \<and> x \<le> (if v = Suspicious then 125 else 100)"
proof -
  let ?P = "truthy_opt (get_field a ''isPhishing'')"
  obtain k5 where k5: "to_number (js_or (get_field a ''confidence'') (JNum 50)) = Some k5" "0 < k5" "k5 \<le> 100"
    using valid_confidence_or [OF va, of 50] by auto
  obtain k7 where k7: "to_number (js_or (get_field a ''confidence'') (JNum 70)) = Some k7" "0 < k7" "k7 \<le> 100"
    using valid_confidence_or [OF va, of 70] by auto
  define c where "c = score * 0.4 + (if ?P then 50 + k5 / 2 else 50 - k5 / 2) * 0.6"
  have comb: "combined_score score (ai_score a) = Some c"
    using k5 by (simp add: ai_score_def combined_score_def c_def Let_def)
  have c: "0 \<le> c" "c \<le> 100" using s k5 by (auto simp: c_def field_simps)
  have vc: "v = (if 50 \<le> c then Phishing else if 25 \<le> c then Suspicious else Safe)"
    using v comb by (simp add: verdict_of_Some)
  show ?thesis
  proof (cases "20 < score \<or> ?P")
    case True
    let ?f = "js_round (max c k7)"
    have fc: "url_final_confidence score a (Some c) = Some ?f"
      using True k7 by (simp add: url_final_confidence_def)
    have f: "0 \<le> ?f" "?f \<le> 100" using js_round_between [of 0 "max c k7" 100] c k7 by auto
    have f50: "50 \<le> c \<Longrightarrow> 50 \<le> ?f" and f25: "25 \<le> c \<Longrightarrow> 25 \<le> ?f"
      using js_round_between [of 50 "max c k7" 100] js_round_between [of 25 "max c k7" 100] c k7 by auto
    show ?thesis using f f50 f25 by (auto simp: comb fc vc url_reported_confidence_def)
  next
    case False
    let ?f = "js_round (min (100 - c) 95)"
    have fc: "url_final_confidence score a (Some c) = Some ?f"
      using False by (simp add: url_final_confidence_def)
    have c50: "c < 50" using False s k5 by (simp add: c_def field_simps)
    have f: "50 \<le> ?f" "?f \<le> 95" using js_round_between [of 50 "min (100 - c) 95" 95] c50 by auto
    show ?thesis using f c50 by (auto simp: comb fc vc url_reported_confidence_def)
  qed
qed

lemma analyze_url_Ok:
  assumes "analyze_url jparse key reply req = Ok r"
  obtains u score threats where "calculateRiskScore (extractUrlFeatures u) = (score, threats)"
    "r = url_rule_based_report u score threats"
  | u score threats d where "calculateRiskScore (extractUrlFeatures u) = (score, threats)"
    "url_hybrid_report jparse u score threats d = Inr r"
  using assms
  by (auto simp: analyze_url_def Let_def split: if_splits sum.splits option.splits jval.splits
        ai_reply.splits prod.splits)

lemma url_hybrid_report_Inr:
  assumes "url_hybrid_report jparse u score threats d = Inr r"
  obtains a ts where "details r = Hybrid_Ai (num_round (ai_score a)) (num_round (combined_score score (ai_score a))) a"
    "result r = verdict_of (combined_score score (ai_score a))"
    "confidence r = url_reported_confidence (result r) (url_final_confidence score a (combined_score score (ai_score a)))"
    "url_all_threats threats a (result r) = Some ts" "threatIndicators r = dedup_by same_value_zero ts"
    "ruleBasedScore r = score" "url r = u"
  using assms by (auto simp: url_hybrid_report_def Let_def split: option.splits)

lemma url_hybrid_NaN:
  assumes "to_number (js_or (get_field a ''confidence'') (JNum 50)) = None"
  shows "ai_score a = None" "verdict_of (combined_score score (ai_score a)) = Safe"
    "url_final_confidence score a (combined_score score (ai_score a)) = None"
  using assms by (simp_all add: ai_score_def Let_def combined_score_def url_final_confidence_def)


lemma url_all_threats_Some: "url_all_threats threats a v = Some ts \<Longrightarrow> \<exists>e. ts = map JStr threats @ e"
  by (auto simp: url_all_threats_def Let_def split: if_splits)


text \<open>
  C6: the confidence of every report of the URL handler is a number between 0 and 100, except for the verdict suspicious, where it is at most 125, whenever the AI confidence is a number in [0, 100] or absent; the rule-based report always lies in [50, 100].
\<close>

theorem analyze_url_confidence_bounds:
  assumes "analyze_url jparse key reply req = Ok r"
    and "\<forall>s c a. details r = Hybrid_Ai s c a \<longrightarrow> valid_confidence a"
  shows "\<exists>x. confidence r = Some x \<and> 0 \<le> x \<and> x \<le> (if result r = Suspicious then 125 else 100)"
  using assms(1)
proof (cases rule: analyze_url_Ok)
  case (1 u score threats)
  then show ?thesis using url_score_range [OF 1(1)] by (auto simp: url_rule_based_report_def abs_if)
next
  case (2 u score threats d)
  from 2(2) show ?thesis
  proof (cases rule: url_hybrid_report_Inr)
    case (1 a ts)
    then have "valid_confidence a" using assms(2) by simp
    with 1 show ?thesis using url_hybrid_confidence url_score_range [OF 2(1)] by metis
  qed
qed

theorem analyze_url_confidence_bounds_witness:
  "analyze_url (\<lambda>_. Some [(''isPhishing'', JBool True), (''confidence'', JNum 90)]) (Some ''key'')
     (Ai_Reply 200 (Some (JObj [(''choices'', JArr [JObj [(''message'',
        JObj [(''content'', JStr ''Result: {isPhishing: true, confidence: 90}'')])]])])))
     \<lparr>req_method = ''POST'', req_body = Some (JObj [(''url'', JStr ''http://192.168.1.5/paypal-login-verify'')])\<rparr>
   = Ok \<lparr>result = Phishing, confidence = Some 60,
         threatIndicators = [JStr ''IP address used instead of domain name'', JStr ''Insecure HTTP connection'',
                             JStr ''Phishing keywords detected: login, verify, verify''],
         url = ''http://192.168.1.5/paypal-login-verify'', ruleBasedScore = 60,
         details = Hybrid_Ai (Some 95) (Some 81) [(''isPhishing'', JBool True), (''confidence'', JNum 90)]\<rparr>
   \<and> (\<exists>x. Some (60::real) = Some x \<and> 0 \<le> x \<and> x \<le> 100)"
proof -
  have e: "analyze_url (\<lambda>_. Some [(''isPhishing'', JBool True), (''confidence'', JNum 90)]) (Some ''key'')
     (Ai_Reply 200 (Some (JObj [(''choices'', JArr [JObj [(''message'',
        JObj [(''content'', JStr ''Result: {isPhishing: true, confidence: 90}'')])]])])))
     \<lparr>req_method = ''POST'', req_body = Some (JObj [(''url'', JStr ''http://192.168.1.5/paypal-login-verify'')])\<rparr>
   = Ok \<lparr>result = Phishing, confidence = Some 60,
         threatIndicators = [JStr ''IP address used instead of domain name'', JStr ''Insecure HTTP connection'',
                             JStr ''Phishing keywords detected: login, verify, verify''],
         url = ''http://192.168.1.5/paypal-login-verify'', ruleBasedScore = 60,
         details = Hybrid_Ai (Some 95) (Some 81) [(''isPhishing'', JBool True), (''confidence'', JNum 90)]\<rparr>"
    unfolding analyze_url_def by (simp only: risk_score_exec) code_simp
  show ?thesis using e analyze_url_confidence_bounds [OF e] by (simp add: valid_confidence_def)
qed



text \<open>
  C8: an AI confidence that is not a number (for instance the string \<open>"high"\<close>) makes the AI score, the combined score and the confidence \<open>NaN\<close>; both threshold tests fail, so the verdict is safe whatever the rule score, and the confidence is \<open>null\<close>.
\<close>

theorem url_nan_confidence_safe:
  assumes "analyze_url jparse key reply req = Ok r" "details r = Hybrid_Ai s c a"
    and "to_number (js_or (get_field a ''confidence'') (JNum 50)) = None"
  shows "result r = Safe \<and> confidence r = None \<and> s = None \<and> c = None"
  using assms(1)
proof (cases rule: analyze_url_Ok)
  case (1 u score threats)
  then show ?thesis using assms(2) by (simp add: url_rule_based_report_def)
next
  case (2 u score threats d)
  from 2(2) show ?thesis
  proof (cases rule: url_hybrid_report_Inr)
    case (1 a' ts)
    from 1(1) assms(2) have "a' = a" "s = num_round (ai_score a)" "c = num_round (combined_score score (ai_score a))"
      by auto
    with 1 url_hybrid_NaN [OF assms(3)] show ?thesis
      by (simp add: url_reported_confidence_def combined_score_def)
  qed
qed

theorem url_nan_confidence_safe_witness:
  "analyze_url (\<lambda>_. Some [(''isPhishing'', JBool True), (''confidence'', JStr ''high'')]) (Some ''key'')
     (Ai_Reply 200 (Some (JObj [(''choices'', JArr [JObj [(''message'',
        JObj [(''content'', JStr ''{isPhishing: true, confidence: high}'')])]])])))
     \<lparr>req_method = ''POST'', req_body = Some (JObj [(''url'', JStr ''http://192.168.1.5/paypal-login-verify'')])\<rparr>
   = Ok \<lparr>result = Safe, confidence = None,
         threatIndicators = [JStr ''IP address used instead of domain name'', JStr ''Insecure HTTP connection'',
                             JStr ''Phishing keywords detected: login, verify, verify''],
         url = ''http://192.168.1.5/paypal-login-verify'', ruleBasedScore = 60,
         details = Hybrid_Ai None None [(''isPhishing'', JBool True), (''confidence'', JStr ''high'')]\<rparr>
   \<and> Safe = Safe \<and> (None :: jsnum) = None"
proof -
  have e: "analyze_url (\<lambda>_. Some [(''isPhishing'', JBool True), (''confidence'', JStr ''high'')]) (Some ''key'')
     (Ai_Reply 200 (Some (JObj [(''choices'', JArr [JObj [(''message'',
        JObj [(''content'', JStr ''{isPhishing: true, confidence: high}'')])]])])))
     \<lparr>req_method = ''POST'', req_body = Some (JObj [(''url'', JStr ''http://192.168.1.5/paypal-login-verify'')])\<rparr>
   = Ok \<lparr>result = Safe, confidence = None,
         threatIndicators = [JStr ''IP address used instead of domain name'', JStr ''Insecure HTTP connection'',
                             JStr ''Phishing keywords detected: login, verify, verify''],
         url = ''http://192.168.1.5/paypal-login-verify'', ruleBasedScore = 60,
         details = Hybrid_Ai None None [(''isPhishing'', JBool True), (''confidence'', JStr ''high'')]\<rparr>"
    unfolding analyze_url_def by (simp only: risk_score_exec) code_simp
  have "to_number (js_or (get_field [(''isPhishing'', JBool True), (''confidence'', JStr ''high'')] ''confidence'') (JNum 50)) = None"
    by code_simp
  then show ?thesis using e url_nan_confidence_safe [OF e] by simp
qed


text \<open>
  C9: when the gateway answers with a status outside 200-299, a valid request gets the rule-based report: the verdict from the rule score alone with the thresholds 50 and 25, the confidence \<open>100 - |50 - score|\<close> and the rule threats.
\<close>

theorem url_gateway_status_fallback:
  assumes "req_method req \<noteq> ''OPTIONS''" "req_body req = Some b" "b \<noteq> JNull"
    "get_prop b ''url'' = Some (JStr u)" "u \<noteq> []" "key = Some k" "k \<noteq> []" "\<not> reply_ok st"
  shows "analyze_url jparse key (Ai_Reply st body) req =
         Ok (url_rule_based_report u (fst (calculateRiskScore (extractUrlFeatures u)))
                                     (snd (calculateRiskScore (extractUrlFeatures u))))"
  using assms by (simp add: analyze_url_def case_prod_beta)

theorem url_gateway_status_fallback_witness:
  "analyze_url (\<lambda>_. None) (Some ''key'') (Ai_Reply 503 None) \<lparr>req_method = ''POST'', req_body = Some (JObj [(''url'', JStr ''http://192.168.1.5/paypal-login-verify'')])\<rparr> =
   Ok (url_rule_based_report ''http://192.168.1.5/paypal-login-verify'' 60 [''IP address used instead of domain name'', ''Insecure HTTP connection'', ''Phishing keywords detected: login, verify, verify''])"
proof -
  have "analyze_url (\<lambda>_. None) (Some ''key'') (Ai_Reply 503 None) \<lparr>req_method = ''POST'', req_body = Some (JObj [(''url'', JStr ''http://192.168.1.5/paypal-login-verify'')])\<rparr> =
      Ok (url_rule_based_report ''http://192.168.1.5/paypal-login-verify'' (fst (calculateRiskScore (extractUrlFeatures ''http://192.168.1.5/paypal-login-verify'')))
                                     (snd (calculateRiskScore (extractUrlFeatures ''http://192.168.1.5/paypal-login-verify''))))"
    by (rule url_gateway_status_fallback [where b = "JObj [(''url'', JStr ''http://192.168.1.5/paypal-login-verify'')]" and k = "''key''"])
       (simp_all add: reply_ok_def)
  also have "\<dots> = Ok (url_rule_based_report ''http://192.168.1.5/paypal-login-verify'' 60 [''IP address used instead of domain name'', ''Insecure HTTP connection'', ''Phishing keywords detected: login, verify, verify''])"
    by (simp only: risk_score_exec) code_simp
  finally show ?thesis .
qed

text \<open>
  Two failures of the oracle lead to different verdicts for the same URL: a 503 answer gives the rule-based verdict phishing (confidence 90), an answer whose text has no JSON object gives the hybrid verdict suspicious (confidence 80), the empty object counting as a negative AI call with confidence 50.
\<close>

theorem url_failure_modes_disagree:
  "analyze_url (\<lambda>_. None) (Some ''key'') (Ai_Reply 503 None) \<lparr>req_method = ''POST'', req_body = Some (JObj [(''url'', JStr ''http://192.168.1.5/paypal-login-verify'')])\<rparr> =
     Ok \<lparr>result = Phishing, confidence = Some 90, threatIndicators = [JStr ''IP address used instead of domain name'', JStr ''Insecure HTTP connection'',
                             JStr ''Phishing keywords detected: login, verify, verify''],
         url = ''http://192.168.1.5/paypal-login-verify'', ruleBasedScore = 60, details = Rule_Based\<rparr> \<and>
   analyze_url (\<lambda>_. None) (Some ''key'') (Ai_Reply 200 (Some (JObj [(''choices'', JArr [JObj [(''message'',
        JObj [(''content'', JStr ''I cannot analyze this link.'')])]])]))) \<lparr>req_method = ''POST'', req_body = Some (JObj [(''url'', JStr ''http://192.168.1.5/paypal-login-verify'')])\<rparr> =
     Ok \<lparr>result = Suspicious, confidence = Some 80, threatIndicators = [JStr ''IP address used instead of domain name'', JStr ''Insecure HTTP connection'',
                             JStr ''Phishing keywords detected: login, verify, verify''],
         url = ''http://192.168.1.5/paypal-login-verify'', ruleBasedScore = 60, details = Hybrid_Ai (Some 25) (Some 39) []\<rparr>"
  unfolding analyze_url_def by (simp only: risk_score_exec) code_simp

text \<open>
  C11: when the gateway cannot be reached (\<open>fetch\<close> rejects) the URL handler never answers with a report: the exception reaches the outer \<open>catch\<close> and becomes a 500 answer.
\<close>

theorem url_gateway_unreachable_no_result: "analyze_url jparse key Ai_Unreachable req \<noteq> Ok r"
  by (auto simp: analyze_url_def Let_def split: sum.splits option.splits jval.splits prod.splits)

text \<open>
  C12: a report is produced only for a request that is not a preflight, whose body has a non-empty string \<open>url\<close>, echoed in the report, and only when the API key is configured.
\<close>

theorem analyze_url_Ok_request:
  assumes "analyze_url jparse key reply req = Ok r"
  shows "req_method req \<noteq> ''OPTIONS'' \<and> (\<exists>b. req_body req = Some b \<and> get_prop b ''url'' = Some (JStr (url r)))
         \<and> url r \<noteq> [] \<and> (\<exists>k. key = Some k \<and> k \<noteq> [])"
  using assms
  by (auto simp: analyze_url_def Let_def url_rule_based_report_def url_hybrid_report_def destructure_def
      split: if_splits sum.splits option.splits jval.splits ai_reply.splits prod.splits)


theorem analyze_url_Ok_request_witness:
  "analyze_url (\<lambda>_. None) (Some ''key'') (Ai_Reply 503 None) \<lparr>req_method = ''POST'', req_body = Some (JObj [(''url'', JStr ''http://192.168.1.5/paypal-login-verify'')])\<rparr> = Ok (url_rule_based_report ''http://192.168.1.5/paypal-login-verify'' 60 [''IP address used instead of domain name'', ''Insecure HTTP connection'', ''Phishing keywords detected: login, verify, verify'']) \<and>
   url (url_rule_based_report ''http://192.168.1.5/paypal-login-verify'' 60 [''IP address used instead of domain name'', ''Insecure HTTP connection'', ''Phishing keywords detected: login, verify, verify'']) = ''http://192.168.1.5/paypal-login-verify'' \<and> ''http://192.168.1.5/paypal-login-verify'' \<noteq> []"
proof -
  have e: "analyze_url (\<lambda>_. None) (Some ''key'') (Ai_Reply 503 None) \<lparr>req_method = ''POST'', req_body = Some (JObj [(''url'', JStr ''http://192.168.1.5/paypal-login-verify'')])\<rparr> = Ok (url_rule_based_report ''http://192.168.1.5/paypal-login-verify'' 60 [''IP address used instead of domain name'', ''Insecure HTTP connection'', ''Phishing keywords detected: login, verify, verify''])"
    unfolding analyze_url_def by (simp only: risk_score_exec) code_simp
  show ?thesis using e analyze_url_Ok_request [OF e] by simp
qed

text \<open>
  C13: the threat indicators of every report hold no primitive value (in particular no string) twice; only objects, which \<open>Set\<close> compares by reference, may repeat.
\<close>

theorem analyze_url_threats_distinct:
  assumes "analyze_url jparse key reply req = Ok r"
  shows "distinct (filter is_primitive (threatIndicators r))"
  using assms
proof (cases rule: analyze_url_Ok)
  case (1 u score threats)
  then show ?thesis using url_threats_distinct [OF 1(1)]
    by (simp add: url_rule_based_report_def filter_map comp_def distinct_map inj_on_def)
next
  case (2 u score threats d)
  from 2(2) show ?thesis
    by (cases rule: url_hybrid_report_Inr) (simp add: dedup_same_value_zero_distinct)
qed

theorem analyze_url_threats_distinct_witness:
  "analyze_url (\<lambda>_. Some [(''isPhishing'', JBool True), (''confidence'', JNum 100), (''additionalThreats'', JArr [JStr ''Insecure HTTP connection'', JStr ''Brand impersonation'', JStr ''Brand impersonation''])]) (Some ''key'') (Ai_Reply 200 (Some (JObj [(''choices'', JArr [JObj [(''message'',
        JObj [(''content'', JStr ''{...}'')])]])]))) \<lparr>req_method = ''POST'', req_body = Some (JObj [(''url'', JStr ''http://192.168.1.5/paypal-login-verify'')])\<rparr>
   = Ok \<lparr>result = Phishing, confidence = Some 50,
         threatIndicators = [JStr ''IP address used instead of domain name'', JStr ''Insecure HTTP connection'',
                             JStr ''Phishing keywords detected: login, verify, verify''] @ [JStr ''Brand impersonation''],
         url = ''http://192.168.1.5/paypal-login-verify'', ruleBasedScore = 60, details = Hybrid_Ai (Some 100) (Some 84) [(''isPhishing'', JBool True), (''confidence'', JNum 100), (''additionalThreats'', JArr [JStr ''Insecure HTTP connection'', JStr ''Brand impersonation'', JStr ''Brand impersonation''])]\<rparr> \<and>
   distinct (filter is_primitive ([JStr ''IP address used instead of domain name'', JStr ''Insecure HTTP connection'',
                             JStr ''Phishing keywords detected: login, verify, verify''] @ [JStr ''Brand impersonation'']))"
proof -
  have e: "analyze_url (\<lambda>_. Some [(''isPhishing'', JBool True), (''confidence'', JNum 100), (''additionalThreats'', JArr [JStr ''Insecure HTTP connection'', JStr ''Brand impersonation'', JStr ''Brand impersonation''])]) (Some ''key'') (Ai_Reply 200 (Some (JObj [(''choices'', JArr [JObj [(''message'',
        JObj [(''content'', JStr ''{...}'')])]])]))) \<lparr>req_method = ''POST'', req_body = Some (JObj [(''url'', JStr ''http://192.168.1.5/paypal-login-verify'')])\<rparr>
   = Ok \<lparr>result = Phishing, confidence = Some 50,
         threatIndicators = [JStr ''IP address used instead of domain name'', JStr ''Insecure HTTP connection'',
                             JStr ''Phishing keywords detected: login, verify, verify''] @ [JStr ''Brand impersonation''],
         url = ''http://192.168.1.5/paypal-login-verify'', ruleBasedScore = 60, details = Hybrid_Ai (Some 100) (Some 84) [(''isPhishing'', JBool True), (''confidence'', JNum 100), (''additionalThreats'', JArr [JStr ''Insecure HTTP connection'', JStr ''Brand impersonation'', JStr ''Brand impersonation''])]\<rparr>"
    unfolding analyze_url_def by (simp only: risk_score_exec) code_simp
  show ?thesis using e analyze_url_threats_distinct [OF e] by simp
qed

text \<open>
  An AI answer whose \<open>additionalThreats\<close> is a string is spread character by character: \<open>"none"\<close> adds the indicators \<open>n\<close>, \<open>o\<close>, \<open>e\<close>.
\<close>

theorem url_additional_threats_string:
  "analyze_url (\<lambda>_. Some [(''isPhishing'', JBool True), (''confidence'', JNum 90), (''additionalThreats'', JStr ''none'')])
     (Some ''key'') (Ai_Reply 200 (Some (JObj [(''choices'', JArr [JObj [(''message'',
        JObj [(''content'', JStr ''{...}'')])]])]))) \<lparr>req_method = ''POST'', req_body = Some (JObj [(''url'', JStr ''http://192.168.1.5/paypal-login-verify'')])\<rparr>
   = Ok \<lparr>result = Phishing, confidence = Some 60,
         threatIndicators = [JStr ''IP address used instead of domain name'', JStr ''Insecure HTTP connection'',
                             JStr ''Phishing keywords detected: login, verify, verify''] @ [JStr ''n'', JStr ''o'', JStr ''e''],
         url = ''http://192.168.1.5/paypal-login-verify'', ruleBasedScore = 60,
         details = Hybrid_Ai (Some 95) (Some 81) [(''isPhishing'', JBool True), (''confidence'', JNum 90), (''additionalThreats'', JStr ''none'')]\<rparr>"
  unfolding analyze_url_def by (simp only: risk_score_exec) code_simp

text \<open>
  The rule-based threats of the URL come first in the threat indicators of every report, in their order: the de-duplication keeps first occurrences and the rule threats are distinct.
\<close>

theorem analyze_url_rule_threats_first:
  assumes "analyze_url jparse key reply req = Ok r"
  shows "prefix (map JStr (snd (calculateRiskScore (extractUrlFeatures (url r))))) (threatIndicators r)"
  using assms
proof (cases rule: analyze_url_Ok)
  case (1 u score threats)
  then show ?thesis by (simp add: url_rule_based_report_def)
next
  case (2 u score threats d)
  from 2(2) show ?thesis
  proof (cases rule: url_hybrid_report_Inr)
    case (1 a ts)
    obtain e where ts: "ts = map JStr threats @ e" using url_all_threats_Some [OF 1(4)] by blast
    have "distinct (map JStr threats)"
      using url_threats_distinct [OF 2(1)] by (simp add: distinct_map inj_on_def)
    then have "prefix (map JStr threats) (dedup_by same_value_zero ts)"
      unfolding ts using dedup_by_prefix [of same_value_zero] same_value_zero_eq by blast
    with 1 2(1) show ?thesis by simp
  qed
qed

theorem analyze_url_rule_threats_first_witness:
  "analyze_url (\<lambda>_. Some [(''isPhishing'', JBool True), (''confidence'', JNum 100), (''additionalThreats'', JArr [JStr ''Insecure HTTP connection'', JStr ''Brand impersonation'', JStr ''Brand impersonation''])]) (Some ''key'') (Ai_Reply 200 (Some (JObj [(''choices'', JArr [JObj [(''message'',
        JObj [(''content'', JStr ''{...}'')])]])]))) \<lparr>req_method = ''POST'', req_body = Some (JObj [(''url'', JStr ''http://192.168.1.5/paypal-login-verify'')])\<rparr>
   = Ok \<lparr>result = Phishing, confidence = Some 50,
         threatIndicators = [JStr ''IP address used instead of domain name'', JStr ''Insecure HTTP connection'',
                             JStr ''Phishing keywords detected: login, verify, verify''] @ [JStr ''Brand impersonation''],
         url = ''http://192.168.1.5/paypal-login-verify'', ruleBasedScore = 60, details = Hybrid_Ai (Some 100) (Some 84) [(''isPhishing'', JBool True), (''confidence'', JNum 100), (''additionalThreats'', JArr [JStr ''Insecure HTTP connection'', JStr ''Brand impersonation'', JStr ''Brand impersonation''])]\<rparr> \<and>
   prefix (map JStr [''IP address used instead of domain name'', ''Insecure HTTP connection'', ''Phishing keywords detected: login, verify, verify'']) ([JStr ''IP address used instead of domain name'', JStr ''Insecure HTTP connection'',
                             JStr ''Phishing keywords detected: login, verify, verify''] @ [JStr ''Brand impersonation''])"
proof -
  have e: "analyze_url (\<lambda>_. Some [(''isPhishing'', JBool True), (''confidence'', JNum 100), (''additionalThreats'', JArr [JStr ''Insecure HTTP connection'', JStr ''Brand impersonation'', JStr ''Brand impersonation''])]) (Some ''key'') (Ai_Reply 200 (Some (JObj [(''choices'', JArr [JObj [(''message'',
        JObj [(''content'', JStr ''{...}'')])]])]))) \<lparr>req_method = ''POST'', req_body = Some (JObj [(''url'', JStr ''http://192.168.1.5/paypal-login-verify'')])\<rparr>
   = Ok \<lparr>result = Phishing, confidence = Some 50,
         threatIndicators = [JStr ''IP address used instead of domain name'', JStr ''Insecure HTTP connection'',
                             JStr ''Phishing keywords detected: login, verify, verify''] @ [JStr ''Brand impersonation''],
         url = ''http://192.168.1.5/paypal-login-verify'', ruleBasedScore = 60, details = Hybrid_Ai (Some 100) (Some 84) [(''isPhishing'', JBool True), (''confidence'', JNum 100), (''additionalThreats'', JArr [JStr ''Insecure HTTP connection'', JStr ''Brand impersonation'', JStr ''Brand impersonation''])]\<rparr>"
    unfolding analyze_url_def by (simp only: risk_score_exec) code_simp
  have "calculateRiskScore (extractUrlFeatures ''http://192.168.1.5/paypal-login-verify'') = (60, [''IP address used instead of domain name'', ''Insecure HTTP connection'', ''Phishing keywords detected: login, verify, verify''])"
    by (simp only: risk_score_exec) code_simp
  then show ?thesis using e analyze_url_rule_threats_first [OF e] by simp
qed

end
