(* ===== verification/Email_Analyzer.thy ===== *)
theory Email_Analyzer
  imports Rule_Score Patterns Js_Value
begin

text \<open>
  Feature extraction and rule-based scoring of the hybrid e-mail analyzer
  (\<open>src/unnamed/part_001\<close>, lines 8-200): the record \<open>EmailFeatures\<close>, the keyword
  dictionaries, \<open>extractEmailFeatures\<close> and \<open>calculateEmailRiskScore\<close>. The
  function receives the values of the request as they are: \<open>subject\<close> and \<open>body\<close>
  enter the lower-cased text through a template literal (\<open>String(v)\<close>), while
  \<open>sender.toLowerCase()\<close> and \<open>body.match(...)\<close> throw a \<open>TypeError\<close> on a value
  that is not a string, which is \<open>None\<close> here. The regular expressions are scanners:
  \<open>sender_domain_match\<close> for \<open>/@([a-zA-Z0-9.-]+)/\<close>, \<open>find_links\<close> for the global
  link pattern, \<open>has_run\<close> and \<open>has_ipv4_pattern\<close> of \<open>Patterns\<close> for the others.
\<close>

section \<open>Dictionaries\<close>

definition urgencyKeywords :: "string list" where
  "urgencyKeywords =
    [''urgent'', ''immediately'', ''asap'', ''right away'', ''right now'', ''hurry'',
     ''time sensitive'', ''act now'', ''limited time'', ''expires'', ''deadline'',
     ''last chance'', ''don't delay'', ''must act'', ''final notice'', ''warning'',
     ''immediate action'', ''24 hours'', ''48 hours'', ''today only'', ''now'']"

definition verificationKeywords :: "string list" where
  "verificationKeywords =
    [''verify'', ''confirm'', ''validate'', ''authenticate'', ''update your'',
     ''review your'', ''check your'', ''secure your'', ''protect your'']"

definition threateningKeywords :: "string list" where
  "threateningKeywords =
    [''suspended'', ''disabled'', ''blocked'', ''locked'', ''terminated'',
     ''closed'', ''restricted'', ''limited'', ''compromised'', ''unauthorized'',
     ''violation'', ''penalty'', ''legal action'', ''prosecution'', ''arrest'']"

definition moneyKeywords :: "string list" where
  "moneyKeywords =
    [''payment'', ''invoice'', ''bill'', ''charge'', ''refund'', ''credit'',
     ''bank'', ''transfer'', ''wire'', ''bitcoin'', ''crypto'', ''prize'',
     ''winner'', ''lottery'', ''inheritance'', ''million'', ''dollar'']"

definition knownBrands :: "string list" where
  "knownBrands =
    [''paypal'', ''amazon'', ''apple'', ''microsoft'', ''google'', ''facebook'',
     ''netflix'', ''spotify'', ''instagram'', ''twitter'', ''linkedin'', ''bank'',
     ''wells fargo'', ''chase'', ''citi'', ''hsbc'', ''barclays'', ''irs'', ''dhl'',
     ''fedex'', ''ups'', ''usps'', ''dropbox'', ''adobe'', ''zoom'', ''slack'']"

text \<open>\<open>legitimateDomains[brand]\<close>: \<open>None\<close> is \<open>undefined\<close> for a brand without entry.\<close>

definition legitimateDomains :: "(string \<times> string list) list" where
  "legitimateDomains =
    [(''paypal'', [''paypal.com'', ''paypal.co.uk'']),
     (''amazon'', [''amazon.com'', ''amazon.co.uk'', ''amazon.in'', ''amazon.de'']),
     (''apple'', [''apple.com'', ''icloud.com'']),
     (''microsoft'', [''microsoft.com'', ''outlook.com'', ''live.com'', ''hotmail.com'']),
     (''google'', [''google.com'', ''gmail.com'']),
     (''netflix'', [''netflix.com'']),
     (''facebook'', [''facebook.com'', ''fb.com''])]"

section \<open>Features\<close>

record email_features =
  senderDomain :: string
  senderUser :: string
  isSpoofedDomain :: bool
  hasUrgencyKeywords :: bool
  urgencyCount :: nat
  hasVerificationKeywords :: bool
  hasThreateningLanguage :: bool
  hasSuspiciousLinks :: bool
  linkCount :: nat
  suspiciousLinks :: "string list"
  hasAttachmentMentions :: bool
  hasMoneyRelatedContent :: bool
  hasBrandImpersonation :: bool
  impersonatedBrands :: "string list"
  grammarScore :: int
  sentimentScore :: real

text \<open>\<open>senderLower.match(/@([a-zA-Z0-9.-]+)/)\<close>: the first \<open>@\<close> followed by a
  character of the class, and the longest run of the class after it.\<close>

definition is_domain_char :: "char \<Rightarrow> bool" where
  "is_domain_char c \<longleftrightarrow> is_alpha c \<or> is_digit c \<or> c = CHR ''.'' \<or> c = CHR ''-''"

fun sender_domain_match :: "string \<Rightarrow> string option" where
  "sender_domain_match [] = None"
| "sender_domain_match (c # cs) =
     (if c = CHR ''@'' \<and> cs \<noteq> [] \<and> is_domain_char (hd cs) then Some (takeWhile is_domain_char cs)
      else sender_domain_match cs)"

text \<open>One iteration of the brand loop: a brand named in the text or the sender, with an
  entry in \<open>legitimateDomains\<close>, none of whose domains ends the sender domain, and
  named in the sender domain, marks the domain spoofed and is recorded.\<close>

definition brand_step :: "string \<Rightarrow> string \<Rightarrow> string \<Rightarrow> bool \<times> string list \<Rightarrow> string \<Rightarrow> bool \<times> string list" where
  "brand_step fullText senderLower sdom acc brand =
     (if str_includes fullText brand \<or> str_includes senderLower brand then
        (case map_of legitimateDomains brand of
           Some legit \<Rightarrow>
             if \<not> list_ex (ends_with sdom) legit \<and> str_includes sdom brand
             then (True, snd acc @ [brand]) else acc
         | None \<Rightarrow> acc)
      else acc)"

text \<open>The link pattern \<open>/(https?:\/\/[^\s<>"{}|\\^`\[\]]+)/gi\<close>, matched globally:
  a match is the scheme prefix in any case and the longest run of allowed characters;
  the scan resumes after it.\<close>

definition is_url_char :: "char \<Rightarrow> bool" where
  "is_url_char c \<longleftrightarrow>
     \<not> is_space c \<and> c \<notin> set ''<>{}|^`[]'' \<and> c \<noteq> CHR 0x22 \<and> c \<noteq> CHR 0x5C"

definition url_at :: "string \<Rightarrow> string option" where
  "url_at s =
     (let p = (if to_lower (take 8 s) = ''https://'' then 8
               else if to_lower (take 7 s) = ''http://'' then 7 else 0);
          run = takeWhile is_url_char (drop p s)
      in if p \<noteq> 0 \<and> run \<noteq> [] then Some (take p s @ run) else None)"

function find_links :: "string \<Rightarrow> string list" where
  "find_links [] = []"
| "find_links (c # cs) =
     (case url_at (c # cs) of
        Some m \<Rightarrow> m # find_links (drop (length m - 1) cs)
      | None \<Rightarrow> find_links cs)"
  by pat_completeness auto
termination
  by (relation "measure length") auto

definition is_suspicious_link :: "string \<Rightarrow> bool" where
  "is_suspicious_link link =
     (let l = to_lower link in
      has_ipv4_pattern link \<or> str_includes l ''bit.ly'' \<or> str_includes l ''tinyurl'' \<or>
      str_includes l ''click'' \<or> str_includes l ''verify'' \<or> str_includes l ''secure'' \<or>
      CHR ''@'' \<in> set link \<or> 100 < length link)"

definition grammar_score :: "string \<Rightarrow> int" where
  "grammar_score body =
     max 0 (100 - (if has_run is_space 2 body then 10 else 0)
                - (if has_run is_upper 5 body then 15 else 0)
                - (if str_includes body ''!!!'' then 10 else 0)
                - (if list_ex (str_includes (to_lower body)) [''dear customer'', ''dear user'', ''dear valued'']
                   then 20 else 0))"

definition extractEmailFeatures :: "jval \<Rightarrow> jval \<Rightarrow> jval \<Rightarrow> email_features option" where
  "extractEmailFeatures sender subject body =
     (case (sender, body) of
        (JStr snd0, JStr bd) \<Rightarrow>
          let fullText = to_lower (js_to_string subject @ '' '' @ bd);
              senderLower = to_lower snd0;
              sdom = (case sender_domain_match senderLower of Some d \<Rightarrow> d | None \<Rightarrow> []);
              user = takeWhile (\<lambda>c. c \<noteq> CHR ''@'') senderLower;
              (spoofed, brands) = foldl (brand_step fullText senderLower sdom) (False, []) knownBrands;
              spoofed' = spoofed \<or> (str_includes sdom ''-'' \<and> 2 < length (split_on CHR ''-'' sdom))
                                 \<or> has_run is_digit 3 sdom;
              uc = length (filter (str_includes fullText) urgencyKeywords);
              links = find_links bd;
              sus = filter is_suspicious_link links
          in Some \<lparr>senderDomain = sdom, senderUser = user, isSpoofedDomain = spoofed',
                   hasUrgencyKeywords = 0 < uc, urgencyCount = uc,
                   hasVerificationKeywords = list_ex (str_includes fullText) verificationKeywords,
                   hasThreateningLanguage = list_ex (str_includes fullText) threateningKeywords,
                   hasSuspiciousLinks = sus \<noteq> [], linkCount = length links, suspiciousLinks = sus,
                   hasAttachmentMentions =
                     list_ex (str_includes fullText) [''attach'', ''download'', ''open the file'', ''see attached''],
                   hasMoneyRelatedContent = list_ex (str_includes fullText) moneyKeywords,
                   hasBrandImpersonation = brands \<noteq> [], impersonatedBrands = brands,
                   grammarScore = grammar_score bd, sentimentScore = 50\<rparr>
      | _ \<Rightarrow> None)"

section \<open>Risk score\<close>

definition email_rules :: "email_features \<Rightarrow> rule list" where
  "email_rules f =
    [(isSpoofedDomain f, 30, ''Spoofed sender domain detected: '' @ senderDomain f),
     (hasBrandImpersonation f, 25, ''Brand impersonation attempt: '' @ join_with '', '' (impersonatedBrands f)),
     (hasUrgencyKeywords f, min 20 (real (urgencyCount f) * 5),
        ''Urgency manipulation detected ('' @ nat_to_dec (urgencyCount f) @ '' keywords)''),
     (hasVerificationKeywords f, 15, ''Credential harvesting language detected''),
     (hasThreateningLanguage f, 20, ''Threatening/fear-based language detected''),
     (hasSuspiciousLinks f, 20, ''Suspicious links found: '' @ nat_to_dec (length (suspiciousLinks f))),
     (hasMoneyRelatedContent f \<and> (hasUrgencyKeywords f \<or> hasThreateningLanguage f), 15,
        ''Financial urgency pressure tactics''),
     (grammarScore f < 60, 10, ''Poor grammar quality (common in phishing)'')]"

definition calculateEmailRiskScore :: "email_features \<Rightarrow> real \<times> string list" where
  "calculateEmailRiskScore f = (let (score, threats) = apply_rules (email_rules f) in (min 100 score, threats))"

section \<open>Properties\<close>

lemma email_rules_nonneg: "(c, p, m) \<in> set (email_rules f) \<Longrightarrow> c \<Longrightarrow> 0 \<le> p"
  by (auto simp: email_rules_def)

lemma email_rules_messages_distinct: "distinct (map (snd \<circ> snd) (email_rules f))"
  by (simp add: email_rules_def)

lemma email_score_range:
  "calculateEmailRiskScore f = (score, threats) \<Longrightarrow> 0 \<le> score \<and> score \<le> 100 \<and> distinct threats"
  using apply_rules_nonneg [of "email_rules f", OF email_rules_nonneg] distinct_fired_messages [OF email_rules_messages_distinct [of f]]
  by (auto simp: calculateEmailRiskScore_def case_prod_beta min_def)

text \<open>
  C16: the rule-based e-mail score lies between 0 and 100 and its threat messages are distinct, for every feature record.
\<close>

theorem calculateEmailRiskScore_bounds:
  "0 \<le> fst (calculateEmailRiskScore f) \<and> fst (calculateEmailRiskScore f) \<le> 100 \<and> distinct (snd (calculateEmailRiskScore f))"
  using email_score_range [of f "fst (calculateEmailRiskScore f)" "snd (calculateEmailRiskScore f)"] by simp


end
