(* ===== verification/Email_Handler.thy ===== *)
theory Email_Handler
  imports Email_Analyzer Ai_Gateway
begin

text \<open>
  The request handler of the hybrid e-mail analyzer (\<open>serve\<close> in lines 202-351 of
  \<open>src/unnamed/part_001\<close>). \<open>analyze_email jparse key reply req\<close> is the whole
  handler, with the parameters of \<open>analyze_url\<close>. Unlike the URL handler it never
  falls back to the rule score alone: a failed or unreadable gateway answer leaves the
  default analysis \<open>{isPhishing: false, confidence: 50, reasoning: "", tactics: [],
  redFlags: []}\<close> in place, which the combination reads as a negative AI call with
  confidence 50. The report leaves out the random \<open>blockchainHash\<close> and the timestamp.
\<close>

record email_report = report +
  sender :: jval
  subject :: jval
  emailFeatures :: email_features
  emailRuleScore :: real
  emailAiScore :: jsnum
  emailCombinedScore :: jsnum
  emailAiAnalysis :: jobj

definition email_ai_default :: jobj where
  "email_ai_default =
     [(''isPhishing'', JBool False), (''confidence'', JNum 50), (''reasoning'', JStr ''''),
      (''tactics'', JArr []), (''redFlags'', JArr [])]"

text \<open>\<open>aiAnalysis\<close> after the gateway call: the default unless the status is 2xx and the
  content parses; a rejected \<open>fetch\<close>, a body that is not JSON and \<open>aiData = null\<close>
  throw outside the inner \<open>try\<close>.\<close>

definition email_ai_analysis :: "(string \<Rightarrow> jobj option) \<Rightarrow> ai_reply \<Rightarrow> server_error + jobj" where
  "email_ai_analysis jparse reply =
     (case reply of
        Ai_Unreachable \<Rightarrow> Inl Gateway_Unreachable
      | Ai_Reply st body \<Rightarrow>
          if \<not> reply_ok st then Inr email_ai_default
          else (case body of
                  None \<Rightarrow> Inl Gateway_Reply_Not_Json
                | Some d \<Rightarrow> (case ai_content d of
                              None \<Rightarrow> Inl Gateway_Reply_Null
                            | Some c \<Rightarrow> (case ai_extract jparse c of
                                          Extract_Obj obj \<Rightarrow> Inr obj
                                        | _ \<Rightarrow> Inr email_ai_default))))"

text \<open>\<open>Math.round(result === "safe" ? 100 - combinedScore : Math.min(98, combinedScore + 20))\<close>.\<close>

definition email_confidence :: "verdict \<Rightarrow> jsnum \<Rightarrow> jsnum" where
  "email_confidence v comb =
     num_round (if v = Safe then num_sub (Some 100) comb else num_min (Some 98) (num_add comb (Some 20)))"

text \<open>\<open>allThreats\<close>: the rule threats, the spread \<open>tactics\<close> and \<open>redFlags\<close>
  (\<open>None\<close>: a spread threw), and the reasoning when the verdict is not safe.\<close>

definition email_all_threats :: "string list \<Rightarrow> jobj \<Rightarrow> verdict \<Rightarrow> jval list option" where
  "email_all_threats threats a v =
     (let sp = (\<lambda>k. let x = get_field a k in if truthy_opt x then spread (the x) else Some []);
          r = get_field a ''reasoning''
      in case (sp ''tactics'', sp ''redFlags'') of
           (Some t, Some f) \<Rightarrow> Some (map JStr threats @ t @ f @ (if truthy_opt r \<and> v \<noteq> Safe then [the r] else []))
         | (Some t, None) \<Rightarrow> None
         | (None, _) \<Rightarrow> None)"

definition analyze_email ::
  "(string \<Rightarrow> jobj option) \<Rightarrow> string option \<Rightarrow> ai_reply \<Rightarrow> request \<Rightarrow> email_report response" where
  "analyze_email jparse key reply req =
     (if req_method req = ''OPTIONS'' then Preflight else
      case destructure (req_body req) [''sender'', ''subject'', ''body''] of
        Inl e \<Rightarrow> Server_Error e
      | Inr vs \<Rightarrow>
          let s = vs ! 0; sj = vs ! 1; b = vs ! 2 in
          if \<not> (truthy_opt s \<and> truthy_opt sj \<and> truthy_opt b)
          then Bad_Request ''Sender, subject, and body are required''
          else if key = None \<or> key = Some [] then Server_Error Api_Key_Missing
          else
            (case extractEmailFeatures (the s) (the sj) (the b) of
               None \<Rightarrow> Server_Error Not_A_Function
             | Some f \<Rightarrow>
                 let (score, threats) = calculateEmailRiskScore f in
                 (case email_ai_analysis jparse reply of
                    Inl e \<Rightarrow> Server_Error e
                  | Inr a \<Rightarrow>
                      let ai = ai_score a; comb = combined_score score ai; v = verdict_of comb in
                      (case email_all_threats threats a v of
                         None \<Rightarrow> Server_Error Spread_Not_Iterable
                       | Some ts \<Rightarrow>
                           Ok \<lparr>result = v, confidence = email_confidence v comb,
                               threatIndicators = take 8 (dedup_by same_value_zero ts),
                               sender = the s, subject = the sj, emailFeatures = f,
                               emailRuleScore = score, emailAiScore = num_round ai,
                               emailCombinedScore = num_round comb, emailAiAnalysis = a\<rparr>))))"

section \<open>Properties of the handler\<close>

lemma analyze_email_Ok:
  assumes "analyze_email jparse key reply req = Ok r"
  obtains f score threats a ts where
    "calculateEmailRiskScore f = (score, threats)" "email_ai_analysis jparse reply = Inr a"
    "email_all_threats threats a (verdict_of (combined_score score (ai_score a))) = Some ts"
    "r = \<lparr>result = verdict_of (combined_score score (ai_score a)),
          confidence = email_confidence (verdict_of (combined_score score (ai_score a))) (combined_score score (ai_score a)),
          threatIndicators = take 8 (dedup_by same_value_zero ts),
          sender = the (get_prop (the (req_body req)) ''sender''), subject = the (get_prop (the (req_body req)) ''subject''),
          emailFeatures = f, emailRuleScore = score, emailAiScore = num_round (ai_score a),
          emailCombinedScore = num_round (combined_score score (ai_score a)), emailAiAnalysis = a\<rparr>"
  using assms
  by (auto simp: analyze_email_def Let_def destructure_def split: if_splits sum.splits option.splits jval.splits prod.splits)

lemma email_ai_default_valid: "valid_confidence email_ai_default"
  by (simp add: valid_confidence_def email_ai_default_def)

lemma email_confidence_range:
  assumes "0 \<le> c" "c \<le> 100"
  shows "\<exists>x. email_confidence (verdict_of (Some c)) (Some c) = Some x \<and> 45 \<le> x \<and> x \<le> 100"
proof (cases "c < 25")
  case True
  then have "75 \<le> js_round (100 - c) \<and> js_round (100 - c) \<le> 100"
    using js_round_between [of 75 "100 - c" 100] assms by auto
  then show ?thesis using True by (auto simp: email_confidence_def verdict_of_Some)
next
  case False
  then have "45 \<le> js_round (min 98 (c + 20)) \<and> js_round (min 98 (c + 20)) \<le> 98"
    using js_round_between [of 45 "min 98 (c + 20)" 98] assms by auto
  then show ?thesis using False by (auto simp: email_confidence_def verdict_of_Some)
qed

text \<open>
  C18: every report of the e-mail handler whose AI analysis has a confidence in [0, 100] (or none) has a numeric confidence between 45 and 100: safe verdicts report \<open>100 - combined\<close> above 75, the others \<open>min(98, combined + 20)\<close> at least 45.
\<close>

theorem analyze_email_confidence_bounds:
  assumes "analyze_email jparse key reply req = Ok r" "valid_confidence (emailAiAnalysis r)"
  shows "\<exists>x. confidence r = Some x \<and> 45 \<le> x \<and> x \<le> 100"
  using assms(1)
proof (cases rule: analyze_email_Ok)
  case (1 f score threats a ts)
  have s: "0 \<le> score" "score \<le> 100" using email_score_range [OF 1(1)] by auto
  have "valid_confidence a" using assms(2) 1(4) by simp
  then obtain x where x: "ai_score a = Some x" "0 \<le> x" "x \<le> 100" using ai_score_valid by blast
  then obtain c where c: "combined_score score (ai_score a) = Some c" "0 \<le> c" "c \<le> 100"
    using combined_score_bounds [OF s x(2,3)] by auto
  show ?thesis using email_confidence_range [OF c(2,3)] 1(4) c(1) by simp
qed

theorem analyze_email_confidence_bounds_witness:
  "\<exists>r. analyze_email (\<lambda>_. Some [(''isPhishing'', JBool True), (''confidence'', JNum 80)]) (Some ''key'') (Ai_Reply 200 (Some (JObj [(''choices'', JArr [JObj [(''message'',
        JObj [(''content'', JStr ''Verdict: {...}'')])]])])))
        \<lparr>req_method = ''POST'', req_body = Some (JObj [(''sender'', JStr ''alert@secure-paypal.com''), (''subject'', JStr ''Urgent: account suspended''),
        (''body'', JStr ''Dear customer, verify your account at http://192.168.0.1/login now'')])\<rparr> = Ok r \<and>
      (\<exists>x. confidence r = Some x \<and> 45 \<le> x \<and> x \<le> 100)"
proof -
  have "map_response emailAiAnalysis (analyze_email (\<lambda>_. Some [(''isPhishing'', JBool True), (''confidence'', JNum 80)]) (Some ''key'') (Ai_Reply 200 (Some (JObj [(''choices'', JArr [JObj [(''message'',
        JObj [(''content'', JStr ''Verdict: {...}'')])]])])))
        \<lparr>req_method = ''POST'', req_body = Some (JObj [(''sender'', JStr ''alert@secure-paypal.com''), (''subject'', JStr ''Urgent: account suspended''),
        (''body'', JStr ''Dear customer, verify your account at http://192.168.0.1/login now'')])\<rparr>) = Ok [(''isPhishing'', JBool True), (''confidence'', JNum 80)]"
    by code_simp
  then obtain r where e: "analyze_email (\<lambda>_. Some [(''isPhishing'', JBool True), (''confidence'', JNum 80)]) (Some ''key'') (Ai_Reply 200 (Some (JObj [(''choices'', JArr [JObj [(''message'',
        JObj [(''content'', JStr ''Verdict: {...}'')])]])])))
        \<lparr>req_method = ''POST'', req_body = Some (JObj [(''sender'', JStr ''alert@secure-paypal.com''), (''subject'', JStr ''Urgent: account suspended''),
        (''body'', JStr ''Dear customer, verify your account at http://192.168.0.1/login now'')])\<rparr> = Ok r" and a: "emailAiAnalysis r = [(''isPhishing'', JBool True), (''confidence'', JNum 80)]"
    by (blast dest: response_map_Ok)
  have "valid_confidence (emailAiAnalysis r)" using a by (simp add: valid_confidence_def)
  then show ?thesis using e analyze_email_confidence_bounds [OF e] by blast
qed

text \<open>
  C19: the threat indicators of an e-mail report are at most eight and hold no primitive value twice.
\<close>

theorem analyze_email_threats_capped:
  assumes "analyze_email jparse key reply req = Ok r"
  shows "length (threatIndicators r) \<le> 8 \<and> distinct (filter is_primitive (threatIndicators r))"
  using assms
proof (cases rule: analyze_email_Ok)
  case (1 f score threats a ts)
  have "distinct (filter is_primitive (dedup_by same_value_zero ts))" by (rule dedup_same_value_zero_distinct)
  then have "distinct (filter is_primitive (take 8 (dedup_by same_value_zero ts)))"
    by (rule distinct_filter_take)
  with 1(4) show ?thesis by simp
qed

theorem analyze_email_threats_capped_witness:
  "\<exists>r. analyze_email (\<lambda>_. Some [(''isPhishing'', JBool True), (''confidence'', JNum 90),
        (''tactics'', JArr [JStr ''urgency'', JStr ''fear'', JStr ''authority'']),
        (''redFlags'', JArr [JStr ''lookalike domain'', JStr ''raw IP link'', JStr ''generic greeting''])]) (Some ''key'') (Ai_Reply 200 (Some (JObj [(''choices'', JArr [JObj [(''message'',
        JObj [(''content'', JStr ''Verdict: {...}'')])]])])))
        \<lparr>req_method = ''POST'', req_body = Some (JObj [(''sender'', JStr ''alert@secure-paypal.com''), (''subject'', JStr ''Urgent: account suspended''),
        (''body'', JStr ''Dear customer, verify your account at http://192.168.0.1/login now'')])\<rparr> = Ok r \<and>
      threatIndicators r = [JStr ''Urgency manipulation detected (2 keywords)'', JStr ''Credential harvesting language detected'',
        JStr ''Threatening/fear-based language detected'', JStr ''Suspicious links found: 1'',
        JStr ''urgency'', JStr ''fear'', JStr ''authority'', JStr ''lookalike domain''] \<and>
      length (threatIndicators r) \<le> 8 \<and> distinct (filter is_primitive (threatIndicators r))"
proof -
  have "map_response threatIndicators (analyze_email (\<lambda>_. Some [(''isPhishing'', JBool True), (''confidence'', JNum 90),
        (''tactics'', JArr [JStr ''urgency'', JStr ''fear'', JStr ''authority'']),
        (''redFlags'', JArr [JStr ''lookalike domain'', JStr ''raw IP link'', JStr ''generic greeting''])]) (Some ''key'') (Ai_Reply 200 (Some (JObj [(''choices'', JArr [JObj [(''message'',
        JObj [(''content'', JStr ''Verdict: {...}'')])]])])))
        \<lparr>req_method = ''POST'', req_body = Some (JObj [(''sender'', JStr ''alert@secure-paypal.com''), (''subject'', JStr ''Urgent: account suspended''),
        (''body'', JStr ''Dear customer, verify your account at http://192.168.0.1/login now'')])\<rparr>) = Ok [JStr ''Urgency manipulation detected (2 keywords)'', JStr ''Credential harvesting language detected'',
        JStr ''Threatening/fear-based language detected'', JStr ''Suspicious links found: 1'',
        JStr ''urgency'', JStr ''fear'', JStr ''authority'', JStr ''lookalike domain'']"
    by code_simp
  then obtain r where e: "analyze_email (\<lambda>_. Some [(''isPhishing'', JBool True), (''confidence'', JNum 90),
        (''tactics'', JArr [JStr ''urgency'', JStr ''fear'', JStr ''authority'']),
        (''redFlags'', JArr [JStr ''lookalike domain'', JStr ''raw IP link'', JStr ''generic greeting''])]) (Some ''key'') (Ai_Reply 200 (Some (JObj [(''choices'', JArr [JObj [(''message'',
        JObj [(''content'', JStr ''Verdict: {...}'')])]])])))
        \<lparr>req_method = ''POST'', req_body = Some (JObj [(''sender'', JStr ''alert@secure-paypal.com''), (''subject'', JStr ''Urgent: account suspended''),
        (''body'', JStr ''Dear customer, verify your account at http://192.168.0.1/login now'')])\<rparr> = Ok r" and "threatIndicators r = [JStr ''Urgency manipulation detected (2 keywords)'', JStr ''Credential harvesting language detected'',
        JStr ''Threatening/fear-based language detected'', JStr ''Suspicious links found: 1'',
        JStr ''urgency'', JStr ''fear'', JStr ''authority'', JStr ''lookalike domain'']"
    by (blast dest: response_map_Ok)
  then show ?thesis using analyze_email_threats_capped [OF e] by blast
qed

text \<open>
  C20: the e-mail handler refines the combiner of the specification: when the AI analysis has a boolean \<open>isPhishing\<close> and a non-zero numeric confidence, the verdict is the specification's verdict of \<open>ruleScore * 0.4 + (50 +/- confidence/2) * 0.6\<close>.
\<close>

theorem analyze_email_refines_spec:
  assumes "analyze_email jparse key reply req = Ok r"
    and "get_field (emailAiAnalysis r) ''isPhishing'' = Some (JBool p)"
    and "get_field (emailAiAnalysis r) ''confidence'' = Some (JNum c)" "c \<noteq> 0"
  shows "result r = spec_verdict (spec_combined (emailRuleScore r) p c)"
  using assms(1)
proof (cases rule: analyze_email_Ok)
  case (1 f score threats a ts)
  then show ?thesis using combined_score_refines (2) [of a p c score] assms(2-4) by simp
qed

theorem analyze_email_refines_spec_witness:
  "\<exists>r. analyze_email (\<lambda>_. Some [(''isPhishing'', JBool True), (''confidence'', JNum 80)]) (Some ''key'') (Ai_Reply 200 (Some (JObj [(''choices'', JArr [JObj [(''message'',
        JObj [(''content'', JStr ''Verdict: {...}'')])]])])))
        \<lparr>req_method = ''POST'', req_body = Some (JObj [(''sender'', JStr ''alert@secure-paypal.com''), (''subject'', JStr ''Urgent: account suspended''),
        (''body'', JStr ''Dear customer, verify your account at http://192.168.0.1/login now'')])\<rparr> = Ok r \<and> emailRuleScore r = 65 \<and> result r = spec_verdict (spec_combined 65 True 80)"
proof -
  have "map_response (\<lambda>r. (emailAiAnalysis r, emailRuleScore r)) (analyze_email (\<lambda>_. Some [(''isPhishing'', JBool True), (''confidence'', JNum 80)]) (Some ''key'') (Ai_Reply 200 (Some (JObj [(''choices'', JArr [JObj [(''message'',
        JObj [(''content'', JStr ''Verdict: {...}'')])]])])))
        \<lparr>req_method = ''POST'', req_body = Some (JObj [(''sender'', JStr ''alert@secure-paypal.com''), (''subject'', JStr ''Urgent: account suspended''),
        (''body'', JStr ''Dear customer, verify your account at http://192.168.0.1/login now'')])\<rparr>) = Ok ([(''isPhishing'', JBool True), (''confidence'', JNum 80)], 65)"
    by code_simp
  then obtain r where e: "analyze_email (\<lambda>_. Some [(''isPhishing'', JBool True), (''confidence'', JNum 80)]) (Some ''key'') (Ai_Reply 200 (Some (JObj [(''choices'', JArr [JObj [(''message'',
        JObj [(''content'', JStr ''Verdict: {...}'')])]])])))
        \<lparr>req_method = ''POST'', req_body = Some (JObj [(''sender'', JStr ''alert@secure-paypal.com''), (''subject'', JStr ''Urgent: account suspended''),
        (''body'', JStr ''Dear customer, verify your account at http://192.168.0.1/login now'')])\<rparr> = Ok r" and a: "emailAiAnalysis r = [(''isPhishing'', JBool True), (''confidence'', JNum 80)]" "emailRuleScore r = 65"
    by (blast dest: response_map_Ok)
  show ?thesis using e a analyze_email_refines_spec [OF e, of True 80] by simp
qed

text \<open>
  C21: when the gateway answers with a status outside 200-299 the e-mail handler uses the neutral signal of the specification: the default analysis, an AI score of 25 and the verdict the specification gives for a negative call with confidence 50.
\<close>

theorem analyze_email_gateway_failure_neutral:
  assumes "analyze_email jparse key (Ai_Reply st body) req = Ok r" "\<not> reply_ok st"
  shows "emailAiAnalysis r = email_ai_default \<and> emailAiScore r = Some 25 \<and>
         result r = spec_verdict (spec_combined (emailRuleScore r) False 50)"
  using assms(1)
proof (cases rule: analyze_email_Ok)
  case (1 f score threats a ts)
  have a: "a = email_ai_default" using 1(2) assms(2) by (simp add: email_ai_analysis_def)
  have "get_field email_ai_default ''isPhishing'' = Some (JBool False)"
       "get_field email_ai_default ''confidence'' = Some (JNum 50)"
    by (simp_all add: email_ai_default_def)
  with 1 a show ?thesis using combined_score_refines (2) [of email_ai_default False 50 score]
    by (simp add: ai_score_def email_ai_default_def js_round_def)
qed

theorem analyze_email_gateway_failure_neutral_witness:
  "\<exists>r. analyze_email (\<lambda>_. None) (Some ''key'') (Ai_Reply 503 None) \<lparr>req_method = ''POST'', req_body = Some (JObj [(''sender'', JStr ''alert@secure-paypal.com''), (''subject'', JStr ''Urgent: account suspended''),
        (''body'', JStr ''Dear customer, verify your account at http://192.168.0.1/login now'')])\<rparr> = Ok r \<and>
      emailRuleScore r = 65 \<and> result r = Suspicious \<and> emailAiScore r = Some 25 \<and>
      result r = spec_verdict (spec_combined 65 False 50)"
proof -
  have "map_response (\<lambda>r. (result r, emailRuleScore r)) (analyze_email (\<lambda>_. None) (Some ''key'') (Ai_Reply 503 None) \<lparr>req_method = ''POST'', req_body = Some (JObj [(''sender'', JStr ''alert@secure-paypal.com''), (''subject'', JStr ''Urgent: account suspended''),
        (''body'', JStr ''Dear customer, verify your account at http://192.168.0.1/login now'')])\<rparr>)
        = Ok (Suspicious, 65)"
    by code_simp
  then obtain r where e: "analyze_email (\<lambda>_. None) (Some ''key'') (Ai_Reply 503 None) \<lparr>req_method = ''POST'', req_body = Some (JObj [(''sender'', JStr ''alert@secure-paypal.com''), (''subject'', JStr ''Urgent: account suspended''),
        (''body'', JStr ''Dear customer, verify your account at http://192.168.0.1/login now'')])\<rparr> = Ok r"
      and a: "result r = Suspicious" "emailRuleScore r = 65"
    by (blast dest: response_map_Ok)
  have "\<not> reply_ok 503" by (simp add: reply_ok_def)
  then show ?thesis using e a analyze_email_gateway_failure_neutral [OF e] by auto
qed


end
