(* ===== verification/Email_Heuristic.thy ===== *)
theory Email_Heuristic
  imports Report
begin

text \<open>
  The heuristic e-mail analyzer (\<open>src/unnamed/part_002\<close>, version 2 of the e-mail
  endpoint): \<open>getDomain\<close>, \<open>calcEmailScore\<close> with its per-category breakdown, the
  clamp to \<open>[0, 94]\<close>, the threshold 50 and the hard-coded safe answer of 12 for
  official senders with benign content, and the handler \<open>analyze_email_heuristic\<close>,
  which calls no AI gateway. The case-insensitive tests \<open>/a|b|c/i.test(s)\<close> are
  \<open>list_ex (str_includes (to_lower s))\<close>. \<open>toLowerCase\<close> on a value that is not a
  string throws; \<open>calcEmailScore\<close> returns \<open>None\<close> then.
\<close>

definition OFFICIAL_DOMAINS :: "string list" where
  "OFFICIAL_DOMAINS = [''paypal.com'', ''amazon.com'', ''google.com'']"

text \<open>\<open>getDomain\<close>: the text after the last \<open>@\<close>, trimmed; empty without \<open>@\<close>.\<close>

definition getDomain :: "string \<Rightarrow> string" where
  "getDomain sender =
     (let s = to_lower sender in
      if CHR ''@'' \<in> set s then trim_space (rev (takeWhile (\<lambda>c. c \<noteq> CHR ''@'') (rev s))) else [])"

record bucket =
  points :: int
  matched :: "string list"

record breakdown =
  bd_sender :: bucket
  bd_subject :: bucket
  bd_body :: bucket
  bd_tld :: bucket

record email_flags =
  hasPhishSender :: bool
  hasPhishSubject :: bool
  hasPhishBody :: bool
  isOfficial :: bool

record email_calc =
  calc_senderDomain :: string
  rawScore :: int
  probability :: int
  calc_result :: verdict
  calc_breakdown :: breakdown
  calc_flags :: email_flags

definition test_any :: "string list \<Rightarrow> string \<Rightarrow> bool" where
  "test_any kws s = list_ex (str_includes (to_lower s)) kws"

definition phish_sender :: "string \<Rightarrow> bool" where
  "phish_sender senderLower =
     (str_includes senderLower ''-'' \<or> str_includes senderLower ''update'' \<or> str_includes senderLower ''security'')"

definition phish_subject_kws :: "string list" where
  "phish_subject_kws = [''urgent'', ''verify'', ''suspend'', ''immediate'', ''click'', ''login'']"

definition phish_body_kws :: "string list" where
  "phish_body_kws = [''click'', ''verify'', ''update'', ''account'', ''login'']"

definition bump :: "bool \<Rightarrow> int \<Rightarrow> string \<Rightarrow> bucket \<Rightarrow> bucket" where
  "bump c pts m b = (if c then \<lparr>points = points b + pts, matched = matched b @ [m]\<rparr> else b)"

definition empty_bucket :: bucket where
  "empty_bucket = \<lparr>points = 0, matched = []\<rparr>"

definition calc_email_score :: "string \<Rightarrow> string \<Rightarrow> string \<Rightarrow> email_calc" where
  "calc_email_score snd0 sj bd =
     (let senderLower = to_lower snd0;
          sdom = getDomain snd0;
          c1 = phish_sender senderLower;
          c2 = test_any phish_subject_kws sj;
          c3 = test_any phish_body_kws bd;
          c4 = sdom \<noteq> [] \<and> \<not> ends_with sdom ''.com'';
          c5 = test_any [''receipt'', ''order confirmation''] (to_lower sj);
          score = (if c1 then 40 else 0) + (if c2 then 30 else 0) + (if c3 then 25 else 0)
                  + (if c4 then 20 else 0) - (if c5 then 20 else 0);
          bd0 = \<lparr>bd_sender = bump c1 40 ''hyphen/update/security'' empty_bucket,
                 bd_subject = bump c5 (-20) ''receipt|order confirmation (-20)''
                                (bump c2 30 ''urgent|verify|suspend|immediate|click|login'' empty_bucket),
                 bd_body = bump c3 25 ''click|verify|update|account|login'' empty_bucket,
                 bd_tld = bump c4 20 ''non-.com'' empty_bucket\<rparr>;
          prob = min 94 (max 0 score);
          res = (if 50 < prob then Phishing else Safe);
          official = sdom \<in> set OFFICIAL_DOMAINS;
          force = official \<and> \<not> c1 \<and> \<not> c2 \<and> \<not> c3
      in \<lparr>calc_senderDomain = sdom, rawScore = score,
          probability = (if force then 12 else prob), calc_result = (if force then Safe else res),
          calc_breakdown = bd0,
          calc_flags = \<lparr>hasPhishSender = c1, hasPhishSubject = c2, hasPhishBody = c3, isOfficial = official\<rparr>\<rparr>)"

text \<open>\<open>sender.toLowerCase()\<close>, \<open>subject.toLowerCase()\<close> and \<open>body.toLowerCase()\<close>
  throw on a value that is not a string.\<close>

definition calcEmailScore :: "jval \<Rightarrow> jval \<Rightarrow> jval \<Rightarrow> email_calc option" where
  "calcEmailScore sender subject body =
     (case (sender, subject, body) of
        (JStr snd0, JStr sj, JStr bd) \<Rightarrow> Some (calc_email_score snd0 sj bd)
      | _ \<Rightarrow> None)"

text \<open>The threat indicators of the handler, from the breakdown and the flags.\<close>

definition heuristic_threats :: "email_calc \<Rightarrow> string list" where
  "heuristic_threats c =
     (let b = calc_breakdown c in
      (if 0 < points (bd_sender b) then [''Suspicious sender pattern''] else []) @
      (if 0 < points (bd_subject b) then [''High-risk subject keywords''] else []) @
      (if 0 < points (bd_body b) then [''High-risk body keywords''] else []) @
      (if 0 < points (bd_tld b) then [''Non-.com sender domain''] else []) @
      (if isOfficial (calc_flags c) \<and> calc_result c = Safe then [''Official sender domain''] else []))"

record heuristic_email_report = report +
  h_sender :: jval
  h_subject :: jval
  h_calc :: email_calc

definition analyze_email_heuristic :: "request \<Rightarrow> heuristic_email_report response" where
  "analyze_email_heuristic req =
     (if req_method req = ''OPTIONS'' then Preflight else
      case destructure (req_body req) [''sender'', ''subject'', ''body''] of
        Inl e \<Rightarrow> Server_Error e
      | Inr vs \<Rightarrow>
          let s = vs ! 0; sj = vs ! 1; b = vs ! 2 in
          if \<not> (truthy_opt s \<and> truthy_opt sj \<and> truthy_opt b)
          then Bad_Request ''Sender, subject, and body are required''
          else (case calcEmailScore (the s) (the sj) (the b) of
                  None \<Rightarrow> Server_Error Not_A_Function
                | Some c \<Rightarrow>
                    Ok \<lparr>result = calc_result c, confidence = Some (real_of_int (probability c)),
                        threatIndicators = map JStr (take 8 (dedup (heuristic_threats c))),
                        h_sender = the s, h_subject = the sj, h_calc = c\<rparr>))"

section \<open>Properties\<close>

lemma calc_email_score_fields:
  "probability (calc_email_score x y z) =
     (if isOfficial (calc_flags (calc_email_score x y z)) \<and> \<not> hasPhishSender (calc_flags (calc_email_score x y z))
         \<and> \<not> hasPhishSubject (calc_flags (calc_email_score x y z)) \<and> \<not> hasPhishBody (calc_flags (calc_email_score x y z))
      then 12 else min 94 (max 0 (rawScore (calc_email_score x y z))))"
  "calc_result (calc_email_score x y z) =
     (if isOfficial (calc_flags (calc_email_score x y z)) \<and> \<not> hasPhishSender (calc_flags (calc_email_score x y z))
         \<and> \<not> hasPhishSubject (calc_flags (calc_email_score x y z)) \<and> \<not> hasPhishBody (calc_flags (calc_email_score x y z))
      then Safe else if 50 < min 94 (max 0 (rawScore (calc_email_score x y z))) then Phishing else Safe)"
  by (simp_all add: calc_email_score_def Let_def)

lemma calcEmailScore_range:
  "0 \<le> probability (calc_email_score x y z) \<and> probability (calc_email_score x y z) \<le> 94 \<and>
   (calc_result (calc_email_score x y z) = Phishing \<longleftrightarrow> 50 < probability (calc_email_score x y z)) \<and>
   calc_result (calc_email_score x y z) \<noteq> Suspicious \<and> calc_result (calc_email_score x y z) \<noteq> Unknown"
  unfolding calc_email_score_fields by auto

lemma analyze_email_heuristic_Ok:
  assumes "analyze_email_heuristic req = Ok r"
  obtains x y z where "result r = calc_result (calc_email_score x y z)"
    "confidence r = Some (real_of_int (probability (calc_email_score x y z)))"
    "threatIndicators r = map JStr (take 8 (dedup (heuristic_threats (calc_email_score x y z))))"
  using assms
  by (auto simp: analyze_email_heuristic_def Let_def calcEmailScore_def split: if_splits sum.splits option.splits jval.splits)

text \<open>
  C23: every report of the heuristic e-mail handler has a confidence between 0 and 94, the verdict phishing exactly when the confidence exceeds 50, and otherwise safe: the heuristic analyzer never answers suspicious or unknown.
\<close>

theorem analyze_email_heuristic_verdict:
  assumes "analyze_email_heuristic req = Ok r"
  shows "\<exists>x. confidence r = Some x \<and> 0 \<le> x \<and> x \<le> 94 \<and> (result r = Phishing \<longleftrightarrow> 50 < x)
         \<and> result r \<noteq> Suspicious \<and> result r \<noteq> Unknown"
  using assms
proof (cases rule: analyze_email_heuristic_Ok)
  case (1 x y z)
  then show ?thesis using calcEmailScore_range [of x y z] by auto
qed

theorem analyze_email_heuristic_verdict_witness:
  "\<exists>r. analyze_email_heuristic \<lparr>req_method = ''POST'', req_body = Some (JObj [(''sender'', JStr ''no-reply@paypal.com''), (''subject'', JStr ''Receipt for your payment''),
        (''body'', JStr ''Thanks for your order.'')])\<rparr> = Ok r \<and> result r = Safe \<and>
      (\<exists>x. confidence r = Some x \<and> 0 \<le> x \<and> x \<le> 94 \<and> (result r = Phishing \<longleftrightarrow> 50 < x))"
proof -
  have "map_response result (analyze_email_heuristic \<lparr>req_method = ''POST'', req_body = Some (JObj [(''sender'', JStr ''no-reply@paypal.com''), (''subject'', JStr ''Receipt for your payment''),
        (''body'', JStr ''Thanks for your order.'')])\<rparr>) = Ok Safe" by code_simp
  then obtain r where e: "analyze_email_heuristic \<lparr>req_method = ''POST'', req_body = Some (JObj [(''sender'', JStr ''no-reply@paypal.com''), (''subject'', JStr ''Receipt for your payment''),
        (''body'', JStr ''Thanks for your order.'')])\<rparr> = Ok r" and "result r = Safe" by (blast dest: response_map_Ok)
  then show ?thesis using analyze_email_heuristic_verdict [OF e] by blast
qed



end
