(* ===== verification/Logo_Heuristic.thy ===== *)
theory Logo_Heuristic
  imports Report Url_Parser
begin

text \<open>
  The heuristic logo analyzer (\<open>src/supabase/functions/analyze-logo/index.ts\<close>, first
  module, lines 1-140): \<open>domainFromUrl\<close> (the host that \<open>new URL\<close> gives, empty when
  it throws), \<open>hasSafeDomain\<close>, \<open>calcLogoHeuristic\<close> with its additive score, the
  PayPal override that lifts the score to at least 92, the fixed answers \<open>safe 8\<close>
  and \<open>unknown 45\<close>, and the handler \<open>analyze_logo_heuristic\<close>. The image URL is
  \<open>None\<close> when \<open>imageUrl\<close> is falsy; a truthy \<open>imageUrl\<close> that is not a string makes
  \<open>(imageUrl || "").toLowerCase()\<close> throw.
\<close>

definition SAFE_DOMAINS :: "string list" where
  "SAFE_DOMAINS = [''netflix.com'', ''amazon.com'', ''paypal.com'']"

definition PHISH_KEYWORDS :: "string list" where
  "PHISH_KEYWORDS = [''phish'', ''fake'', ''scam'', ''suspicious'']"

definition domainFromUrl :: "string \<Rightarrow> string" where
  "domainFromUrl u = (case parse_url u of Some p \<Rightarrow> to_lower (hostname p) | None \<Rightarrow> [])"

definition hasSafeDomain :: "string \<Rightarrow> bool" where
  "hasSafeDomain u =
     (let host = domainFromUrl u in list_ex (\<lambda>d. host = d \<or> ends_with host (CHR ''.'' # d)) SAFE_DOMAINS)"

record logo_heuristic =
  lh_verdict :: verdict
  lh_probability :: int
  lh_issues :: "string list"
  lh_detectedBrand :: "string option"

definition brand_of :: "string \<Rightarrow> string list \<Rightarrow> string option" where
  "brand_of url bs = find (str_includes url) bs"

text \<open>The score before the verdict, with the issues in the order they are pushed.\<close>

definition logo_score :: "string option \<Rightarrow> bool \<Rightarrow> int \<times> string list" where
  "logo_score iu b64 =
     (let url = to_lower (case iu of Some u \<Rightarrow> u | None \<Rightarrow> []);
          isLocal = b64 \<or> (case iu of Some u \<Rightarrow> \<not> starts_with u ''http'' | None \<Rightarrow> False);
          s1 = (if iu \<noteq> None \<and> list_ex (str_includes url) PHISH_KEYWORDS
                then (50, [''URL contains phishing keywords'']) else (0, []));
          s2 = (if isLocal then (fst s1 + 30, snd s1 @ [''Local/base64 image (source cannot be verified)'']) else s1);
          s3 = (if iu \<noteq> None \<and> (str_includes url ''blur'' \<or> length (the iu) < 50)
                then (fst s2 + 20, snd s2 @ [''Low-signal / potentially blurred image reference'']) else s2);
          looksLikePaypal = str_includes url ''paypal'';
          hostedOnPaypal = (case iu of Some u \<Rightarrow> str_includes (domainFromUrl u) ''paypal'' \<or> str_includes u ''paypal.com''
                                     | None \<Rightarrow> False)
      in if looksLikePaypal \<and> iu \<noteq> None \<and> \<not> hostedOnPaypal
         then (max (fst s3) 92, snd s3 @ [''PayPal brand on non-official source'']) else s3)"

definition calcLogoHeuristic :: "string option \<Rightarrow> bool \<Rightarrow> logo_heuristic" where
  "calcLogoHeuristic iu b64 =
     (let url = to_lower (case iu of Some u \<Rightarrow> u | None \<Rightarrow> []);
          (score, issues) = logo_score iu b64
      in if iu \<noteq> None \<and> hasSafeDomain (the iu) \<and> score = 0 then
           \<lparr>lh_verdict = Safe, lh_probability = 8, lh_issues = issues,
            lh_detectedBrand = brand_of url [''netflix'', ''amazon'', ''paypal'']\<rparr>
         else if score = 0 then
           \<lparr>lh_verdict = Unknown, lh_probability = 45, lh_issues = [''Unknown logo / insufficient signals''],
            lh_detectedBrand = None\<rparr>
         else
           let p = min 95 score in
           \<lparr>lh_verdict = (if 30 < p then Phishing else Unknown), lh_probability = p, lh_issues = issues,
            lh_detectedBrand = brand_of url [''paypal'', ''netflix'', ''amazon'']\<rparr>)"

record logo_heuristic_report = report +
  lh_imageUrl :: jval
  lh_brand :: "string option"
  isAuthentic :: bool

text \<open>The handler: \<open>imageUrl || base64Image\<close> must be truthy; the image URL is read
  as a string when it is truthy.\<close>

definition analyze_logo_heuristic :: "request \<Rightarrow> logo_heuristic_report response" where
  "analyze_logo_heuristic req =
     (if req_method req = ''OPTIONS'' then Preflight else
      case destructure (req_body req) [''imageUrl'', ''base64Image''] of
        Inl e \<Rightarrow> Server_Error e
      | Inr vs \<Rightarrow>
          let iu = vs ! 0; b = vs ! 1 in
          if \<not> (truthy_opt iu \<or> truthy_opt b) then Bad_Request ''Image URL or base64 image is required''
          else if truthy_opt iu \<and> (case the iu of JStr s \<Rightarrow> False | _ \<Rightarrow> True) then Server_Error Not_A_Function
          else
            let u = (if truthy_opt iu then (case the iu of JStr s \<Rightarrow> Some s | _ \<Rightarrow> None) else None);
                h = calcLogoHeuristic u (truthy_opt b)
            in Ok \<lparr>result = lh_verdict h, confidence = Some (real_of_int (lh_probability h)),
                   threatIndicators = map JStr (dedup (lh_issues h)),
                   lh_imageUrl = (if truthy_opt iu then the iu else JStr ''base64-image''),
                   lh_brand = lh_detectedBrand h, isAuthentic = (lh_verdict h = Safe)\<rparr>)"

section \<open>Properties\<close>

lemma logo_score_nonneg: "0 \<le> fst (logo_score iu b) \<and> (fst (logo_score iu b) = 0 \<longleftrightarrow> snd (logo_score iu b) = [])"
  unfolding logo_score_def Let_def by (simp split: if_split)

lemma calcLogoHeuristic_cases:
  "(lh_verdict (calcLogoHeuristic iu b) = Safe \<and> lh_probability (calcLogoHeuristic iu b) = 8 \<and> lh_issues (calcLogoHeuristic iu b) = []) \<or>
   (lh_verdict (calcLogoHeuristic iu b) = Unknown \<and> lh_probability (calcLogoHeuristic iu b) = 45) \<or>
   (lh_verdict (calcLogoHeuristic iu b) = Unknown \<and> 0 < lh_probability (calcLogoHeuristic iu b) \<and> lh_probability (calcLogoHeuristic iu b) \<le> 30) \<or>
   (lh_verdict (calcLogoHeuristic iu b) = Phishing \<and> 30 < lh_probability (calcLogoHeuristic iu b) \<and> lh_probability (calcLogoHeuristic iu b) \<le> 95)"
  using logo_score_nonneg [of iu b]
  unfolding calcLogoHeuristic_def Let_def by (auto simp: case_prod_beta split: if_split)

lemma analyze_logo_heuristic_Ok:
  assumes "analyze_logo_heuristic req = Ok r"
  obtains u b where "result r = lh_verdict (calcLogoHeuristic u b)"
    "confidence r = Some (real_of_int (lh_probability (calcLogoHeuristic u b)))"
    "threatIndicators r = map JStr (dedup (lh_issues (calcLogoHeuristic u b)))"
  using assms
  by (auto simp: analyze_logo_heuristic_def Let_def split: if_splits sum.splits option.splits jval.splits)

text \<open>
  C26: every report of the heuristic logo handler is one of: safe with confidence 8 and no indicator, unknown with 45, unknown with a confidence in (0, 30], or phishing with a confidence in (30, 95]; it never answers suspicious.
\<close>

theorem analyze_logo_heuristic_verdict:
  assumes "analyze_logo_heuristic req = Ok r"
  shows "(result r = Safe \<and> confidence r = Some 8 \<and> threatIndicators r = []) \<or>
         (result r = Unknown \<and> confidence r = Some 45) \<or>
         (result r = Unknown \<and> (\<exists>x. confidence r = Some x \<and> 0 < x \<and> x \<le> 30)) \<or>
         (result r = Phishing \<and> (\<exists>x. confidence r = Some x \<and> 30 < x \<and> x \<le> 95))"
  using assms
proof (cases rule: analyze_logo_heuristic_Ok)
  case (1 u b)
  then show ?thesis using calcLogoHeuristic_cases [of u b] by (auto simp: dedup_by_def)
qed

theorem analyze_logo_heuristic_verdict_witness:
  "\<exists>r. analyze_logo_heuristic \<lparr>req_method = ''POST'', req_body = Some (JObj [(''imageUrl'', JStr ''https://www.amazon.com/images/G/01/gc/designs/livepreview/amazon_logo.png'')])\<rparr> = Ok r \<and> result r = Safe \<and> confidence r = Some 8 \<and> threatIndicators r = []"
proof -
  have "map_response (\<lambda>r. (result r, confidence r)) (analyze_logo_heuristic \<lparr>req_method = ''POST'', req_body = Some (JObj [(''imageUrl'', JStr ''https://www.amazon.com/images/G/01/gc/designs/livepreview/amazon_logo.png'')])\<rparr>) = Ok (Safe, Some 8)" by code_simp
  then obtain r where e: "analyze_logo_heuristic \<lparr>req_method = ''POST'', req_body = Some (JObj [(''imageUrl'', JStr ''https://www.amazon.com/images/G/01/gc/designs/livepreview/amazon_logo.png'')])\<rparr> = Ok r" and v: "result r = Safe" "confidence r = Some 8"
    by (blast dest: response_map_Ok)
  then show ?thesis using analyze_logo_heuristic_verdict [OF e] by auto
qed



text \<open>
  The override is defeated by a path: \<open>https://evil.com/paypal.com/logo.png\<close> contains \<open>paypal.com\<close>, counts as hosted on PayPal and is only unknown with probability 20.
\<close>

theorem logo_paypal_path_bypass:
  "calcLogoHeuristic (Some ''https://evil.com/paypal.com/logo.png'') False =
   \<lparr>lh_verdict = Unknown, lh_probability = 20,
    lh_issues = [''Low-signal / potentially blurred image reference''], lh_detectedBrand = Some ''paypal''\<rparr>"
  by code_simp

text \<open>
  C29: the content of an uploaded base64 image is never inspected: every request carrying only a non-empty \<open>base64Image\<close> gets the same report, unknown with confidence 30 and the single indicator about the local source.
\<close>

theorem logo_base64_ignored:
  assumes "req_method req \<noteq> ''OPTIONS''" "req_body req = Some (JObj [(''base64Image'', JStr s)])" "s \<noteq> []"
  shows "analyze_logo_heuristic req =
    Ok \<lparr>result = Unknown, confidence = Some 30,
        threatIndicators = [JStr ''Local/base64 image (source cannot be verified)''],
        lh_imageUrl = JStr ''base64-image'', lh_brand = None, isAuthentic = False\<rparr>"
  using assms by (simp add: analyze_logo_heuristic_def calcLogoHeuristic_def logo_score_def Let_def dedup_by_def brand_of_def)

theorem logo_base64_ignored_witness:
  "analyze_logo_heuristic \<lparr>req_method = ''POST'', req_body = Some (JObj [(''base64Image'', JStr ''data:image/png;base64,iVBORw0KGgo='')])\<rparr> =
    Ok \<lparr>result = Unknown, confidence = Some 30,
        threatIndicators = [JStr ''Local/base64 image (source cannot be verified)''],
        lh_imageUrl = JStr ''base64-image'', lh_brand = None, isAuthentic = False\<rparr>"
  by (rule logo_base64_ignored [where s = "''data:image/png;base64,iVBORw0KGgo=''"]) simp_all

text \<open>
  A PayPal logo on the official host \<open>cdn.paypal.com\<close> with a short URL is not safe: the length test (under 50 characters) adds the low-signal issue, the score is no longer 0 and the verdict is unknown with probability 20.
\<close>

theorem logo_official_cdn_unknown:
  "map_response (\<lambda>r. (result r, confidence r, threatIndicators r)) (analyze_logo_heuristic \<lparr>req_method = ''POST'', req_body = Some (JObj [(''imageUrl'', JStr ''https://cdn.paypal.com/logo.png'')])\<rparr>) =
   Ok (Unknown, Some 20, [JStr ''Low-signal / potentially blurred image reference''])"
  by code_simp

end
