(* ===== verification/Logo_Hybrid.thy ===== *)
theory Logo_Hybrid
  imports Ai_Gateway Patterns
begin

text \<open>
  The hybrid logo analyzer (\<open>src/unnamed/part_000\<close>): \<open>analyzeImageUrl\<close>, which names
  the first brand of \<open>knownBrandSignatures\<close> found in the URL and collects suspicions,
  and the handler \<open>analyze_logo_hybrid\<close>, which asks the AI gateway for a vision
  verdict. Unlike the URL and e-mail handlers it combines no scores: the verdict is
  phishing when the AI says the logo is not authentic, when the URL raised two
  suspicions or when the AI listed two issues, and safe otherwise; the confidence is the
  AI's \<open>confidence\<close> value as it came (any JSON value) or 85/75. A failed gateway call
  keeps the default analysis, which declares the logo authentic with confidence 50.
\<close>

record brand_signature =
  colors :: "string list"
  brand_keywords :: "string list"

definition knownBrandSignatures :: "(string \<times> brand_signature) list" where
  "knownBrandSignatures =
    [(''paypal'', \<lparr>colors = [''#003087'', ''#009cde'', ''#012169''], brand_keywords = [''paypal'', ''pay'', ''pal'']\<rparr>),
     (''amazon'', \<lparr>colors = [''#ff9900'', ''#232f3e'', ''#febd69''], brand_keywords = [''amazon'', ''prime'']\<rparr>),
     (''apple'', \<lparr>colors = [''#000000'', ''#555555'', ''#a3aaae''], brand_keywords = [''apple'', ''icloud'']\<rparr>),
     (''google'', \<lparr>colors = [''#4285f4'', ''#ea4335'', ''#fbbc05'', ''#34a853''], brand_keywords = [''google'', ''gmail'']\<rparr>),
     (''microsoft'', \<lparr>colors = [''#00a4ef'', ''#7fba00'', ''#f25022'', ''#ffb900''],
        brand_keywords = [''microsoft'', ''windows'', ''office'']\<rparr>),
     (''facebook'', \<lparr>colors = [''#1877f2'', ''#4267b2''], brand_keywords = [''facebook'', ''meta'', ''fb'']\<rparr>),
     (''netflix'', \<lparr>colors = [''#e50914'', ''#221f1f''], brand_keywords = [''netflix'']\<rparr>),
     (''instagram'', \<lparr>colors = [''#833ab4'', ''#fd1d1d'', ''#fcb045''], brand_keywords = [''instagram'', ''insta'']\<rparr>),
     (''twitter'', \<lparr>colors = [''#1da1f2'', ''#14171a''], brand_keywords = [''twitter'', ''x'']\<rparr>),
     (''linkedin'', \<lparr>colors = [''#0077b5'', ''#0a66c2''], brand_keywords = [''linkedin'']\<rparr>),
     (''whatsapp'', \<lparr>colors = [''#25d366'', ''#128c7e''], brand_keywords = [''whatsapp'']\<rparr>),
     (''spotify'', \<lparr>colors = [''#1db954'', ''#191414''], brand_keywords = [''spotify'']\<rparr>)]"

definition officialDomains :: "(string \<times> string list) list" where
  "officialDomains =
    [(''paypal'', [''paypal.com'', ''paypalobjects.com'']),
     (''amazon'', [''amazon.com'', ''amazonaw.com'', ''media-amazon.com'']),
     (''apple'', [''apple.com'', ''icloud.com'', ''mzstatic.com'']),
     (''google'', [''google.com'', ''gstatic.com'', ''googleapis.com'']),
     (''microsoft'', [''microsoft.com'', ''microsoftonline.com'', ''msftauth.net'']),
     (''facebook'', [''facebook.com'', ''fbcdn.net'', ''fb.com'']),
     (''netflix'', [''netflix.com'', ''nflximg.net''])]"

definition logo_suspicious_tlds :: "string list" where
  "logo_suspicious_tlds = [''.xyz'', ''.tk'', ''.ml'', ''.ga'', ''.cf'', ''.top'', ''.icu'']"

record url_analysis =
  suspicions :: "string list"
  detectedBrand :: "string option"

text \<open>The brand loop stops at the first brand of \<open>Object.keys(knownBrandSignatures)\<close>
  (insertion order) that the lower-cased URL contains.\<close>

definition analyzeImageUrl :: "string \<Rightarrow> url_analysis" where
  "analyzeImageUrl imageUrl =
     (let urlLower = to_lower imageUrl;
          brand = find (str_includes urlLower) (map fst knownBrandSignatures);
          s1 = (case brand of
                  None \<Rightarrow> []
                | Some b \<Rightarrow>
                    let official = (case map_of officialDomains b of Some ds \<Rightarrow> ds | None \<Rightarrow> []) in
                    if \<not> list_ex (str_includes urlLower) official
                    then [b @ '' logo hosted on unofficial domain''] else []);
          s2 = (if has_ipv4_pattern imageUrl then [''Image hosted on IP address''] else []);
          s3 = (if str_includes urlLower ''data:image'' then [''Base64 embedded image (cannot verify source)''] else []);
          s4 = (if list_ex (str_includes urlLower) logo_suspicious_tlds then [''Image hosted on suspicious TLD''] else []);
          s5 = (if str_includes urlLower ''logo'' \<and> str_includes urlLower ''fake''
                then [''URL contains suspicious keywords''] else [])
      in \<lparr>suspicions = s1 @ s2 @ s3 @ s4 @ s5, detectedBrand = brand\<rparr>)"

definition logo_ai_default :: "url_analysis \<Rightarrow> jobj" where
  "logo_ai_default ua =
     [(''brandDetected'', (case detectedBrand ua of Some b \<Rightarrow> JStr b | None \<Rightarrow> JNull)),
      (''isAuthentic'', JBool True), (''confidence'', JNum 50), (''issues'', JArr []),
      (''reasoning'', JStr ''Unable to analyze'')]"

text \<open>\<open>aiAnalysis\<close> after the gateway call; the default survives a non-2xx status, a
  reply without braces and a parse error.\<close>

definition logo_ai_analysis :: "(string \<Rightarrow> jobj option) \<Rightarrow> ai_reply \<Rightarrow> jobj \<Rightarrow> server_error + jobj" where
  "logo_ai_analysis jparse reply dflt =
     (case reply of
        Ai_Unreachable \<Rightarrow> Inl Gateway_Unreachable
      | Ai_Reply st body \<Rightarrow>
          if \<not> reply_ok st then Inr dflt
          else (case body of
                  None \<Rightarrow> Inl Gateway_Reply_Not_Json
                | Some d \<Rightarrow> (case ai_content d of
                              None \<Rightarrow> Inl Gateway_Reply_Null
                            | Some c \<Rightarrow> (case ai_extract jparse c of
                                          Extract_Obj obj \<Rightarrow> Inr obj
                                        | _ \<Rightarrow> Inr dflt))))"

text \<open>\<open>isPhishing = !aiAnalysis.isAuthentic || suspicions.length >= 2 ||
  (aiAnalysis.issues && aiAnalysis.issues.length >= 2)\<close>.\<close>

definition logo_is_phishing :: "url_analysis \<Rightarrow> jobj \<Rightarrow> bool" where
  "logo_is_phishing ua a =
     (\<not> truthy_opt (get_field a ''isAuthentic'') \<or> 2 \<le> length (suspicions ua) \<or>
      (truthy_opt (get_field a ''issues'') \<and>
       num_ge (case get_prop (the (get_field a ''issues'')) ''length'' of
                 Some v \<Rightarrow> to_number v | None \<Rightarrow> None) 2))"

record logo_hybrid_report =
  lg_imageUrl :: jval
  lg_result :: verdict
  lg_confidence :: jval
  lg_detectedBrand :: jval
  lg_threatIndicators :: "jval list"
  lg_urlAnalysis :: url_analysis
  lg_aiAnalysis :: jobj

definition analyze_logo_hybrid ::
  "(string \<Rightarrow> jobj option) \<Rightarrow> string option \<Rightarrow> ai_reply \<Rightarrow> request \<Rightarrow> logo_hybrid_report response" where
  "analyze_logo_hybrid jparse key reply req =
     (if req_method req = ''OPTIONS'' then Preflight else
      case destructure (req_body req) [''imageUrl'', ''base64Image''] of
        Inl e \<Rightarrow> Server_Error e
      | Inr vs \<Rightarrow>
          let iu = vs ! 0; b = vs ! 1 in
          if \<not> (truthy_opt iu \<or> truthy_opt b) then Bad_Request ''Image URL or base64 image is required''
          else if key = None \<or> key = Some [] then Server_Error Api_Key_Missing
          else if truthy_opt iu \<and> (case the iu of JStr s \<Rightarrow> False | _ \<Rightarrow> True) then Server_Error Not_A_Function
          else
            let ua = (if truthy_opt iu then analyzeImageUrl (case the iu of JStr s \<Rightarrow> s | _ \<Rightarrow> [])
                      else \<lparr>suspicions = [], detectedBrand = None\<rparr>)
            in case logo_ai_analysis jparse reply (logo_ai_default ua) of
                 Inl e \<Rightarrow> Server_Error e
               | Inr a \<Rightarrow>
                   let iss = get_field a ''issues'';
                       extra = (if truthy_opt iss then spread (the iss) else Some [])
                   in case extra of
                        None \<Rightarrow> Server_Error Spread_Not_Iterable
                      | Some ex \<Rightarrow>
                          let ph = logo_is_phishing ua a in
                          Ok \<lparr>lg_imageUrl = (if truthy_opt iu then the iu else JStr ''base64-image''),
                              lg_result = (if ph then Phishing else Safe),
                              lg_confidence = js_or (get_field a ''confidence'') (JNum (if ph then 85 else 75)),
                              lg_detectedBrand = js_or (get_field a ''brandDetected'')
                                  (case detectedBrand ua of Some br \<Rightarrow> JStr br | None \<Rightarrow> JNull),
                              lg_threatIndicators = dedup_by same_value_zero (map JStr (suspicions ua) @ ex),
                              lg_urlAnalysis = ua, lg_aiAnalysis = a\<rparr>)"

section \<open>Properties\<close>

lemma analyze_logo_hybrid_Ok:
  assumes "analyze_logo_hybrid jparse key reply req = Ok r"
  shows "lg_result r = (if logo_is_phishing (lg_urlAnalysis r) (lg_aiAnalysis r) then Phishing else Safe)"
  using assms
  by (auto simp: analyze_logo_hybrid_def Let_def split: if_splits sum.splits option.splits)

text \<open>
  C31: every report of the hybrid logo handler is safe or phishing (never suspicious or unknown), and two suspicions raised by the image URL make it phishing whatever the AI answered.
\<close>

theorem analyze_logo_hybrid_verdict:
  assumes "analyze_logo_hybrid jparse key reply req = Ok r"
  shows "(lg_result r = Safe \<or> lg_result r = Phishing) \<and>
         (2 \<le> length (suspicions (lg_urlAnalysis r)) \<longrightarrow> lg_result r = Phishing)"
  using analyze_logo_hybrid_Ok [OF assms] by (simp add: logo_is_phishing_def)

theorem analyze_logo_hybrid_verdict_witness:
  "\<exists>r. analyze_logo_hybrid (\<lambda>_. None) (Some ''key'') (Ai_Reply 503 None)
        \<lparr>req_method = ''POST'', req_body = Some (JObj [(''imageUrl'', JStr ''http://10.0.0.7/paypal/logo-fake.png'')])\<rparr> = Ok r \<and>
      length (suspicions (lg_urlAnalysis r)) = 3 \<and> lg_result r = Phishing"
proof -
  have "map_response (\<lambda>r. length (suspicions (lg_urlAnalysis r))) (analyze_logo_hybrid (\<lambda>_. None) (Some ''key'') (Ai_Reply 503 None)
        \<lparr>req_method = ''POST'', req_body = Some (JObj [(''imageUrl'', JStr ''http://10.0.0.7/paypal/logo-fake.png'')])\<rparr>) = Ok 3"
    by code_simp
  then obtain r where e: "analyze_logo_hybrid (\<lambda>_. None) (Some ''key'') (Ai_Reply 503 None)
        \<lparr>req_method = ''POST'', req_body = Some (JObj [(''imageUrl'', JStr ''http://10.0.0.7/paypal/logo-fake.png'')])\<rparr> = Ok r"
      and l: "length (suspicions (lg_urlAnalysis r)) = 3"
    by (blast dest: response_map_Ok)
  then show ?thesis using analyze_logo_hybrid_verdict [OF e] by auto
qed

text \<open>
  C32: when the gateway answers with a status outside 200-299, every base64 upload is declared safe with confidence 50 and no indicator: the default analysis calls the logo authentic.
\<close>

theorem logo_hybrid_failure_safe:
  assumes "req_method req \<noteq> ''OPTIONS''" "req_body req = Some (JObj [(''base64Image'', JStr s)])" "s \<noteq> []"
    "key = Some k" "k \<noteq> []" "\<not> reply_ok st"
  shows "map_response (\<lambda>r. (lg_result r, lg_confidence r, lg_threatIndicators r))
           (analyze_logo_hybrid jparse key (Ai_Reply st body) req) = Ok (Safe, JNum 50, [])"
  using assms
  by (simp add: analyze_logo_hybrid_def logo_ai_analysis_def logo_ai_default_def logo_is_phishing_def dedup_by_def)

theorem logo_hybrid_failure_safe_witness:
  "map_response (\<lambda>r. (lg_result r, lg_confidence r, lg_threatIndicators r))
     (analyze_logo_hybrid (\<lambda>_. None) (Some ''key'') (Ai_Reply 500 None)
       \<lparr>req_method = ''POST'', req_body = Some (JObj [(''base64Image'', JStr ''data:image/png;base64,AAAA'')])\<rparr>) =
   Ok (Safe, JNum 50, [])"
  by (rule logo_hybrid_failure_safe [where s = "''data:image/png;base64,AAAA''" and k = "''key''"])
     (simp_all add: reply_ok_def)

text \<open>
  The reported confidence is the AI's value unchecked: an answer with confidence 150 is reported as 150.
\<close>

theorem logo_hybrid_confidence_echo:
  "map_response (\<lambda>r. (lg_result r, lg_confidence r))
     (analyze_logo_hybrid (\<lambda>_. Some [(''isAuthentic'', JBool True), (''confidence'', JNum 150)]) (Some ''key'')
       (Ai_Reply 200 (Some (JObj [(''choices'', JArr [JObj [(''message'', JObj [(''content'', JStr ''{...}'')])]])])))
       \<lparr>req_method = ''POST'', req_body = Some (JObj [(''imageUrl'', JStr ''https://www.paypalobjects.com/webstatic/icon/pp258.png'')])\<rparr>) =
   Ok (Safe, JNum 150)"
  by code_simp

text \<open>
  The official-domain test of \<open>analyzeImageUrl\<close> is a substring test on the whole URL: \<open>https://paypal.com.evil.xyz/logo.png\<close> names PayPal yet raises no unofficial-domain suspicion, only the suspicious TLD.
\<close>

theorem analyzeImageUrl_official_substring:
  "analyzeImageUrl ''https://paypal.com.evil.xyz/logo.png'' =
   \<lparr>suspicions = [''Image hosted on suspicious TLD''], detectedBrand = Some ''paypal''\<rparr>"
  by code_simp

end
