(* ===== verification/Scans.thy ===== *)
theory Scans
  imports Url_Handler
begin

text \<open>
  The persistence side of the URL scanner: the \<open>scans\<close>, \<open>user_roles\<close> and
  \<open>profiles\<close> tables of \<open>src/unnamed/part_003\<close> with their CHECK constraints, the
  row-level security policies, the sign-up trigger \<open>handle_new_user\<close>, and the client
  hook \<open>useScans\<close> (\<open>src/unnamed/part_008\<close>, lines 474-623) that reads, inserts and
  deletes scans. The database is a record of tables; a statement runs with the caller's
  \<open>auth.uid()\<close> (\<open>None\<close> for an anonymous caller) and returns \<open>db_error + db\<close>. The
  client session is a record of the hook's state and of the toasts shown. Together
  they form a state machine: \<open>sys_step\<close> applies one user event, \<open>reach\<close> is the set
  of states reachable from the empty system. Row identifiers (\<open>gen_random_uuid\<close>) and
  timestamps (\<open>now()\<close>) are drawn from a counter, which keeps them unique and increasing.
  The hook's calls are run to completion one after the other: \<open>fetchScans()\<close> is not
  awaited in the source, so a real refresh may land later; the random
  \<open>blockchain_hash\<close> is not stored.
\<close>

type_synonym uid = nat

datatype app_role = Admin_Role | User_Role

record scan_row =
  scan_id :: nat
  user_id :: uid
  row_url :: string
  row_result :: string
  row_confidence :: real
  threat_indicators :: "jval list"
  scanned_at :: nat

record profile =
  p_user :: uid
  p_email :: string
  display_name :: string

record db =
  db_scans :: "scan_row list"
  db_roles :: "(uid \<times> app_role) list"
  db_profiles :: "profile list"
  db_clock :: nat

datatype db_error = Rls_Violation | Check_Violation | Not_Null_Violation | Numeric_Overflow | Unique_Violation

section \<open>Policies and constraints\<close>

definition has_role :: "db \<Rightarrow> uid \<Rightarrow> app_role \<Rightarrow> bool" where
  "has_role d u r \<longleftrightarrow> (u, r) \<in> set (db_roles d)"

definition is_admin :: "db \<Rightarrow> uid \<Rightarrow> bool" where
  "is_admin d u = has_role d u Admin_Role"

text \<open>\<open>auth.uid() = user_id OR is_admin(auth.uid())\<close> for \<open>SELECT\<close>; \<open>auth.uid() = user_id\<close>
  for \<open>INSERT\<close>; no policy for \<open>DELETE\<close> and \<open>UPDATE\<close>, so row-level security hides
  every row from them.\<close>

definition scan_select_policy :: "db \<Rightarrow> uid option \<Rightarrow> scan_row \<Rightarrow> bool" where
  "scan_select_policy d auth r \<longleftrightarrow>
     auth = Some (user_id r) \<or> (case auth of Some a \<Rightarrow> is_admin d a | None \<Rightarrow> False)"

definition scan_insert_policy :: "uid option \<Rightarrow> uid \<Rightarrow> bool" where
  "scan_insert_policy auth u \<longleftrightarrow> auth = Some u"

definition scan_delete_policy :: "uid option \<Rightarrow> scan_row \<Rightarrow> bool" where
  "scan_delete_policy auth r = False"

text \<open>\<open>DECIMAL(5,2)\<close>: the value is rounded to two decimals, half away from zero, and
  overflows from 1000 on.\<close>

definition numeric_5_2 :: "real \<Rightarrow> real option" where
  "numeric_5_2 x =
     (let v = sgn x * of_int \<lfloor>\<bar>x\<bar> * 100 + 1/2\<rfloor> / 100 in if 1000 \<le> \<bar>v\<bar> then None else Some v)"

definition result_allowed :: "string \<Rightarrow> bool" where
  "result_allowed s \<longleftrightarrow> s \<in> set [''safe'', ''phishing'', ''suspicious'']"

section \<open>Statements\<close>

text \<open>\<open>INSERT INTO scans\<close> of one row from the client: the policy, the \<open>NOT NULL\<close>
  confidence (a \<open>NaN\<close> is sent as \<open>null\<close>), the numeric cast and the CHECK constraints.\<close>

definition db_insert_scan ::
  "uid option \<Rightarrow> uid \<Rightarrow> string \<Rightarrow> string \<Rightarrow> jsnum \<Rightarrow> jval list \<Rightarrow> db \<Rightarrow> db_error + db" where
  "db_insert_scan auth u lnk res conf threats d =
     (if \<not> scan_insert_policy auth u then Inl Rls_Violation
      else case conf of
        None \<Rightarrow> Inl Not_Null_Violation
      | Some c \<Rightarrow>
          (case numeric_5_2 c of
             None \<Rightarrow> Inl Numeric_Overflow
           | Some v \<Rightarrow>
               if \<not> result_allowed res \<or> v < 0 \<or> 100 < v then Inl Check_Violation
               else Inr (d\<lparr>db_scans := db_scans d @ [\<lparr>scan_id = db_clock d, user_id = u, row_url = lnk,
                              row_result = res, row_confidence = v, threat_indicators = threats,
                              scanned_at = db_clock d\<rparr>],
                           db_clock := Suc (db_clock d)\<rparr>)))"

text \<open>\<open>select("*").eq("user_id", u).order("scanned_at", {ascending: false}).limit(50)\<close>;
  rows are stored in increasing \<open>scanned_at\<close> (lemma \<open>reach_inv\<close>), so the order is the
  reverse of the table.\<close>

definition db_select_scans :: "uid option \<Rightarrow> uid \<Rightarrow> db \<Rightarrow> scan_row list" where
  "db_select_scans auth u d =
     take 50 (rev (filter (\<lambda>r. scan_select_policy d auth r \<and> user_id r = u) (db_scans d)))"

text \<open>\<open>delete().eq("id", i).eq("user_id", u)\<close>: only rows the \<open>DELETE\<close> policy shows
  are removed; the statement reports no error when none is.\<close>

definition db_delete_scan :: "uid option \<Rightarrow> nat \<Rightarrow> uid \<Rightarrow> db \<Rightarrow> db" where
  "db_delete_scan auth i u d =
     d\<lparr>db_scans := filter (\<lambda>r. \<not> (scan_delete_policy auth r \<and> scan_id r = i \<and> user_id r = u)) (db_scans d)\<rparr>"

text \<open>The trigger \<open>handle_new_user\<close> after a sign-up: a profile whose display name is
  \<open>full_name\<close> or the part of the address before \<open>@\<close>, and the role \<open>admin\<close> for the
  address \<open>admin@phishshield.ai\<close>, \<open>user\<close> otherwise.\<close>

definition role_for :: "string \<Rightarrow> app_role" where
  "role_for email = (if email = ''admin@phishshield.ai'' then Admin_Role else User_Role)"

definition handle_new_user :: "uid \<Rightarrow> string \<Rightarrow> string option \<Rightarrow> db \<Rightarrow> db_error + db" where
  "handle_new_user u email full d =
     (if u \<in> p_user ` set (db_profiles d) then Inl Unique_Violation
      else Inr (d\<lparr>db_profiles := db_profiles d @
                    [\<lparr>p_user = u, p_email = email,
                      display_name = (case full of Some n \<Rightarrow> n | None \<Rightarrow> takeWhile (\<lambda>c. c \<noteq> CHR ''@'') email)\<rparr>],
                  db_roles := db_roles d @ [(u, role_for email)]\<rparr>))"

section \<open>The client hook\<close>

datatype toast = Toast_Error string | Toast_Warning string | Toast_Success string | Toast_Info string | Toast_Failure server_error

record session =
  s_user :: "uid option"
  s_scans :: "scan_row list"
  isLoading :: bool
  currentResult :: "url_report option"
  toasts :: "toast list"

record sys =
  sys_db :: db
  sys_session :: session

definition verdict_string :: "verdict \<Rightarrow> string" where
  "verdict_string v = (case v of Safe \<Rightarrow> ''safe'' | Suspicious \<Rightarrow> ''suspicious''
                                | Phishing \<Rightarrow> ''phishing'' | Unknown \<Rightarrow> ''unknown'')"

definition fetchScans :: "sys \<Rightarrow> sys" where
  "fetchScans s =
     (case s_user (sys_session s) of
        None \<Rightarrow> s
      | Some u \<Rightarrow> s\<lparr>sys_session := (sys_session s)\<lparr>s_scans := db_select_scans (Some u) u (sys_db s)\<rparr>\<rparr>)"

definition add_toast :: "toast \<Rightarrow> sys \<Rightarrow> sys" where
  "add_toast t s = s\<lparr>sys_session := (sys_session s)\<lparr>toasts := toasts (sys_session s) @ [t]\<rparr>\<rparr>"

definition result_toast :: "verdict \<Rightarrow> toast" where
  "result_toast v =
     (if v = Phishing then Toast_Error ''Phishing threat detected!''
      else if v = Suspicious then Toast_Warning ''Suspicious activity detected''
      else Toast_Success ''URL verified safe'')"

text \<open>\<open>analyzeUrl\<close> with the answer \<open>resp\<close> of the \<open>analyze-url\<close> function: a failed
  answer becomes an error toast; a report is shown, inserted (an insert error is only
  logged), the list is fetched again and a toast announces the verdict.\<close>

definition analyzeUrl :: "url_report response \<Rightarrow> sys \<Rightarrow> sys" where
  "analyzeUrl resp s =
     (case s_user (sys_session s) of
        None \<Rightarrow> add_toast (Toast_Error ''Please sign in to scan URLs'') s
      | Some u \<Rightarrow>
          (case resp of
             Ok r \<Rightarrow>
               let s1 = s\<lparr>sys_session := (sys_session s)\<lparr>currentResult := Some r\<rparr>\<rparr>;
                   s2 = (case db_insert_scan (Some u) u (url r) (verdict_string (result r)) (confidence r)
                                (threatIndicators r) (sys_db s1) of
                           Inl e \<Rightarrow> s1
                         | Inr d' \<Rightarrow> s1\<lparr>sys_db := d'\<rparr>)
               in add_toast (result_toast (result r)) (fetchScans s2)
           | Bad_Request m \<Rightarrow> add_toast (Toast_Error m) (s\<lparr>sys_session := (sys_session s)\<lparr>currentResult := None\<rparr>\<rparr>)
           | Server_Error e \<Rightarrow> add_toast (Toast_Failure e) (s\<lparr>sys_session := (sys_session s)\<lparr>currentResult := None\<rparr>\<rparr>)
           | Preflight \<Rightarrow> add_toast (Toast_Error ''Analysis failed'') (s\<lparr>sys_session := (sys_session s)\<lparr>currentResult := None\<rparr>\<rparr>)))"

text \<open>\<open>deleteScan\<close>: the statement reports no error, so the row leaves the displayed
  list and a success toast is shown.\<close>

definition deleteScan :: "nat \<Rightarrow> sys \<Rightarrow> sys" where
  "deleteScan i s =
     (let u = s_user (sys_session s);
          s1 = s\<lparr>sys_db := db_delete_scan u i (case u of Some x \<Rightarrow> x | None \<Rightarrow> 0) (sys_db s)\<rparr>
      in add_toast (Toast_Success ''Scan deleted'')
           (s1\<lparr>sys_session := (sys_session s1)\<lparr>s_scans := filter (\<lambda>r. scan_id r \<noteq> i) (s_scans (sys_session s1))\<rparr>\<rparr>))"

datatype event =
    Sign_Up uid string "string option"
  | Sign_In uid
  | Analyze "url_report response"
  | Delete nat
  | Realtime_Change

text \<open>One event. Signing in sets \<open>userId\<close>, whose effect fetches the scans; a change
  notified by the realtime channel fetches them again.\<close>

definition sys_step :: "sys \<Rightarrow> event \<Rightarrow> sys" where
  "sys_step s ev =
     (case ev of
        Sign_Up u email full \<Rightarrow>
          (case handle_new_user u email full (sys_db s) of Inl e \<Rightarrow> s | Inr d \<Rightarrow> s\<lparr>sys_db := d\<rparr>)
      | Sign_In u \<Rightarrow>
          if u \<in> p_user ` set (db_profiles (sys_db s))
          then fetchScans (s\<lparr>sys_session := (sys_session s)\<lparr>s_user := Some u\<rparr>\<rparr>) else s
      | Analyze resp \<Rightarrow> analyzeUrl resp s
      | Delete i \<Rightarrow> deleteScan i s
      | Realtime_Change \<Rightarrow> fetchScans s)"

definition sys_init :: sys where
  "sys_init = \<lparr>sys_db = \<lparr>db_scans = [], db_roles = [], db_profiles = [], db_clock = 0\<rparr>,
               sys_session = \<lparr>s_user = None, s_scans = [], isLoading = False, currentResult = None, toasts = []\<rparr>\<rparr>"

definition run_events :: "event list \<Rightarrow> sys" where
  "run_events evs = foldl sys_step sys_init evs"

inductive_set reach :: "sys set" where
  reach_init: "sys_init \<in> reach"
| reach_step: "s \<in> reach \<Longrightarrow> sys_step s ev \<in> reach"

section \<open>The invariant of the reachable states\<close>

text \<open>A stored row satisfies the CHECK constraints, belongs to a registered user, and its identifier
  and timestamp are the counter value it was inserted at.\<close>

definition scan_row_ok :: "db \<Rightarrow> scan_row \<Rightarrow> bool" where
  "scan_row_ok d r \<longleftrightarrow> result_allowed (row_result r) \<and> 0 \<le> row_confidence r \<and> row_confidence r \<le> 100
     \<and> user_id r \<in> p_user ` set (db_profiles d) \<and> scan_id r = scanned_at r \<and> scanned_at r < db_clock d"

definition sys_inv :: "sys \<Rightarrow> bool" where
  "sys_inv s \<longleftrightarrow>
     (\<forall>r \<in> set (db_scans (sys_db s)). scan_row_ok (sys_db s) r) \<and>
     sorted_wrt (<) (map scanned_at (db_scans (sys_db s))) \<and>
     db_roles (sys_db s) = map (\<lambda>p. (p_user p, role_for (p_email p))) (db_profiles (sys_db s)) \<and>
     distinct (map p_user (db_profiles (sys_db s))) \<and>
     set (s_scans (sys_session s)) \<subseteq> set (db_scans (sys_db s)) \<and>
     (\<forall>r \<in> set (s_scans (sys_session s)). s_user (sys_session s) = Some (user_id r)) \<and>
     (\<forall>u. s_user (sys_session s) = Some u \<longrightarrow> u \<in> p_user ` set (db_profiles (sys_db s)))"

section \<open>Properties\<close>

lemma db_insert_scan_Inr:
  assumes "db_insert_scan auth u lnk res conf ts d = Inr d'"
  obtains v where "auth = Some u" "result_allowed res" "0 \<le> v" "v \<le> 100"
    "d' = d\<lparr>db_scans := db_scans d @ [\<lparr>scan_id = db_clock d, user_id = u, row_url = lnk,
              row_result = res, row_confidence = v, threat_indicators = ts, scanned_at = db_clock d\<rparr>],
            db_clock := Suc (db_clock d)\<rparr>"
proof -
  from assms obtain c v where "conf = Some c" "numeric_5_2 c = Some v" "auth = Some u" "result_allowed res"
      "\<not> v < 0" "\<not> 100 < v"
      "d' = d\<lparr>db_scans := db_scans d @ [\<lparr>scan_id = db_clock d, user_id = u, row_url = lnk,
              row_result = res, row_confidence = v, threat_indicators = ts, scanned_at = db_clock d\<rparr>],
            db_clock := Suc (db_clock d)\<rparr>"
    by (auto simp: db_insert_scan_def scan_insert_policy_def split: if_splits option.splits)
  then show ?thesis by (intro that [of v]) auto
qed

lemma db_delete_scan_noop [simp]: "db_delete_scan a i u d = d"
  by (simp add: db_delete_scan_def scan_delete_policy_def)

lemma deleteScan_eq:
  "deleteScan i s = add_toast (Toast_Success ''Scan deleted'')
     (s\<lparr>sys_session := (sys_session s)\<lparr>s_scans := filter (\<lambda>r. scan_id r \<noteq> i) (s_scans (sys_session s))\<rparr>\<rparr>)"
  by (cases s) (simp add: deleteScan_def Let_def)

lemma select_sub: "set (db_select_scans a u d) \<subseteq> set (db_scans d)"
  by (auto simp: db_select_scans_def dest: in_set_takeD)

lemma select_user: "r \<in> set (db_select_scans a u d) \<Longrightarrow> user_id r = u"
  by (auto simp: db_select_scans_def dest: in_set_takeD)

lemma fetchScans_inv: "sys_inv s \<Longrightarrow> sys_inv (fetchScans s)"
  by (auto simp: fetchScans_def sys_inv_def split: option.splits dest: select_user subsetD [OF select_sub])

lemma add_toast_inv [simp]: "sys_inv (add_toast t s) = sys_inv s"
  by (simp add: add_toast_def sys_inv_def)

lemma insert_inv:
  assumes "sys_inv s" "s_user (sys_session s) = Some u"
    "db_insert_scan (Some u) u lnk res conf ts (sys_db s) = Inr d'"
  shows "sys_inv (s\<lparr>sys_db := d'\<rparr>)"
  using assms(3)
proof (cases rule: db_insert_scan_Inr)
  case (1 v)
  have reg: "u \<in> p_user ` set (db_profiles (sys_db s))" using assms(1,2) by (simp add: sys_inv_def)
  have lt: "\<forall>r \<in> set (db_scans (sys_db s)). scanned_at r < db_clock (sys_db s)"
    using assms(1) by (simp add: sys_inv_def scan_row_ok_def)
  show ?thesis using assms(1) 1 reg lt
    by (auto simp: sys_inv_def scan_row_ok_def sorted_wrt_append less_Suc_eq)
qed

lemma sys_step_inv: "sys_inv s \<Longrightarrow> sys_inv (sys_step s ev)"
proof (cases ev)
  case (Sign_Up u email full)
  assume inv: "sys_inv s"
  show ?thesis
  proof (cases "handle_new_user u email full (sys_db s)")
    case (Inl e)
    then show ?thesis using inv Sign_Up by (simp add: sys_step_def)
  next
    case (Inr d)
    then show ?thesis using inv Sign_Up
      by (auto simp: sys_step_def handle_new_user_def sys_inv_def scan_row_ok_def role_for_def split: if_splits)
  qed
next
  case (Sign_In u)
  assume "sys_inv s"
  then show ?thesis using Sign_In
    by (auto simp: sys_step_def fetchScans_def sys_inv_def dest: select_user subsetD [OF select_sub])
next
  case (Analyze resp)
  assume inv: "sys_inv s"
  show ?thesis
  proof (cases "s_user (sys_session s)")
    case None
    then show ?thesis using inv Analyze by (simp add: sys_step_def analyzeUrl_def)
  next
    case (Some u)
    have base: "sys_inv (s\<lparr>sys_session := (sys_session s)\<lparr>currentResult := c\<rparr>\<rparr>)" for c
      using inv by (simp add: sys_inv_def)
    show ?thesis
    proof (cases resp)
      case (Ok r)
      let ?s1 = "s\<lparr>sys_session := (sys_session s)\<lparr>currentResult := Some r\<rparr>\<rparr>"
      have "sys_inv (case db_insert_scan (Some u) u (url r) (verdict_string (result r)) (confidence r)
                        (threatIndicators r) (sys_db ?s1) of Inl e \<Rightarrow> ?s1 | Inr d' \<Rightarrow> ?s1\<lparr>sys_db := d'\<rparr>)"
        using base [of "Some r"] insert_inv [of ?s1 u] Some by (auto split: sum.split)
      then show ?thesis using Some Ok Analyze by (simp add: sys_step_def analyzeUrl_def Let_def fetchScans_inv)
    qed (use Some Analyze base in \<open>simp_all add: sys_step_def analyzeUrl_def\<close>)
  qed
next
  case (Delete i)
  assume "sys_inv s"
  then show ?thesis using Delete by (simp add: sys_step_def deleteScan_eq) (auto simp: sys_inv_def)
next
  case Realtime_Change
  assume "sys_inv s"
  then show ?thesis using Realtime_Change by (simp add: sys_step_def fetchScans_inv)
qed

lemma reach_sys_inv: "s \<in> reach \<Longrightarrow> sys_inv s"
proof (induction rule: reach.induct)
  case reach_init
  then show ?case by (simp add: sys_init_def sys_inv_def)
next
  case (reach_step s ev)
  from reach_step.IH show ?case by (rule sys_step_inv)
qed


lemma run_events_snoc [simp]: "run_events (evs @ [ev]) = sys_step (run_events evs) ev"
  by (simp add: run_events_def)

lemma run_events_reach: "run_events evs \<in> reach"
proof (induction evs rule: rev_induct)
  case Nil
  then show ?case by (simp add: run_events_def reach_init)
next
  case (snoc ev evs)
  then show ?case by (simp add: reach_step)
qed

lemma numeric_5_2_ge_101:
  assumes "101 \<le> c"
  shows "case numeric_5_2 c of None \<Rightarrow> True | Some v \<Rightarrow> 100 < v"
proof -
  have "10100 \<le> \<lfloor>\<bar>c\<bar> * 100 + 1/2\<rfloor>" using assms by (simp add: le_floor_iff)
  then have "(101::real) \<le> of_int \<lfloor>\<bar>c\<bar> * 100 + 1/2\<rfloor> / 100" by linarith
  moreover have "sgn c = 1" using assms by simp
  ultimately show ?thesis by (auto simp: numeric_5_2_def Let_def)
qed

lemma db_insert_scan_over_100:
  assumes "conf = Some c" "101 \<le> c"
  shows "\<exists>e. db_insert_scan auth u lnk res conf ts d = Inl e"
  using numeric_5_2_ge_101 [OF assms(2)] assms(1)
  by (auto simp: db_insert_scan_def split: option.splits)

text \<open>
  C35: in every state reachable from the empty system by sign-ups, sign-ins, analyses, deletions and realtime refreshes, every stored scan satisfies the CHECK constraints (result among safe/phishing/suspicious, confidence in [0, 100]) and belongs to a registered user, scan identifiers are unique, and the hook lists only stored scans of the signed-in user.
\<close>

theorem reach_inv:
  assumes "s \<in> reach"
  shows "(\<forall>r \<in> set (db_scans (sys_db s)). scan_row_ok (sys_db s) r) \<and>
         distinct (map scan_id (db_scans (sys_db s))) \<and>
         set (s_scans (sys_session s)) \<subseteq> set (db_scans (sys_db s)) \<and>
         (\<forall>r \<in> set (s_scans (sys_session s)). s_user (sys_session s) = Some (user_id r))"
proof -
  have inv: "sys_inv s" using assms by (rule reach_sys_inv)
  then have eq: "map scan_id (db_scans (sys_db s)) = map scanned_at (db_scans (sys_db s))"
    by (intro map_cong) (auto simp: sys_inv_def scan_row_ok_def)
  have "distinct (map scanned_at (db_scans (sys_db s)))"
    using inv by (simp add: sys_inv_def strict_sorted_iff)
  then have "distinct (map scan_id (db_scans (sys_db s)))" by (simp only: eq)
  then show ?thesis using inv by (simp add: sys_inv_def)
qed

theorem reach_inv_witness:
  "list_all (scan_row_ok (sys_db (run_events [Sign_Up 1 ''alice@example.com'' None, Sign_In 1,
      Analyze (Ok \<lparr>result = Phishing, confidence = Some 90,
        threatIndicators = [JStr ''IP address used instead of domain name''],
        url = ''http://192.168.1.5/login'', ruleBasedScore = 60, details = Rule_Based\<rparr>)]))) (db_scans (sys_db (run_events [Sign_Up 1 ''alice@example.com'' None, Sign_In 1,
      Analyze (Ok \<lparr>result = Phishing, confidence = Some 90,
        threatIndicators = [JStr ''IP address used instead of domain name''],
        url = ''http://192.168.1.5/login'', ruleBasedScore = 60, details = Rule_Based\<rparr>)]))) \<and>
   distinct (map scan_id (db_scans (sys_db (run_events [Sign_Up 1 ''alice@example.com'' None, Sign_In 1,
      Analyze (Ok \<lparr>result = Phishing, confidence = Some 90,
        threatIndicators = [JStr ''IP address used instead of domain name''],
        url = ''http://192.168.1.5/login'', ruleBasedScore = 60, details = Rule_Based\<rparr>)])))) \<and>
   map scan_id (s_scans (sys_session (run_events [Sign_Up 1 ''alice@example.com'' None, Sign_In 1,
      Analyze (Ok \<lparr>result = Phishing, confidence = Some 90,
        threatIndicators = [JStr ''IP address used instead of domain name''],
        url = ''http://192.168.1.5/login'', ruleBasedScore = 60, details = Rule_Based\<rparr>)]))) = [0]"
proof -
  have "map scan_id (s_scans (sys_session (run_events [Sign_Up 1 ''alice@example.com'' None, Sign_In 1,
      Analyze (Ok \<lparr>result = Phishing, confidence = Some 90,
        threatIndicators = [JStr ''IP address used instead of domain name''],
        url = ''http://192.168.1.5/login'', ruleBasedScore = 60, details = Rule_Based\<rparr>)]))) = [0]" by code_simp
  then show ?thesis using reach_inv [OF run_events_reach [of "[Sign_Up 1 ''alice@example.com'' None, Sign_In 1,
      Analyze (Ok \<lparr>result = Phishing, confidence = Some 90,
        threatIndicators = [JStr ''IP address used instead of domain name''],
        url = ''http://192.168.1.5/login'', ruleBasedScore = 60, details = Rule_Based\<rparr>)]"]]
    by (simp add: list_all_iff)
qed

text \<open>
  C36: in every reachable state a user is an admin exactly when their profile was created with the address admin@phishshield.ai: the sign-up trigger is the only writer of user_roles.
\<close>

theorem admin_role_iff:
  assumes "s \<in> reach"
  shows "is_admin (sys_db s) u \<longleftrightarrow>
         (\<exists>p \<in> set (db_profiles (sys_db s)). p_user p = u \<and> p_email p = ''admin@phishshield.ai'')"
proof -
  have "db_roles (sys_db s) = map (\<lambda>p. (p_user p, role_for (p_email p))) (db_profiles (sys_db s))"
    using reach_sys_inv [OF assms] by (simp add: sys_inv_def)
  then show ?thesis by (auto simp: is_admin_def has_role_def role_for_def split: if_splits)
qed

theorem admin_role_iff_witness:
  "is_admin (sys_db (run_events [Sign_Up 7 ''admin@phishshield.ai'' None])) 7 \<and>
   \<not> is_admin (sys_db (run_events [Sign_Up 7 ''Admin@phishshield.ai'' None])) 7"
proof -
  have "\<exists>p \<in> set (db_profiles (sys_db (run_events [Sign_Up 7 ''admin@phishshield.ai'' None]))).
          p_user p = 7 \<and> p_email p = ''admin@phishshield.ai''"
    by code_simp
  moreover have "\<not> (\<exists>p \<in> set (db_profiles (sys_db (run_events [Sign_Up 7 ''Admin@phishshield.ai'' None]))).
          p_user p = 7 \<and> p_email p = ''admin@phishshield.ai'')"
    by code_simp
  ultimately show ?thesis
    using admin_role_iff [OF run_events_reach [of "[Sign_Up 7 ''admin@phishshield.ai'' None]"], of 7]
          admin_role_iff [OF run_events_reach [of "[Sign_Up 7 ''Admin@phishshield.ai'' None]"], of 7]
    by blast
qed

text \<open>
  C37: row-level security isolates users: a caller that is not an admin and is not the owner reads no scan of another user.
\<close>

theorem select_isolation:
  assumes "\<not> is_admin d a" "a \<noteq> u"
  shows "db_select_scans (Some a) u d = []"
  using assms by (simp add: db_select_scans_def scan_select_policy_def filter_empty_conv)

theorem select_isolation_witness:
  "db_select_scans (Some 2) 1 (sys_db (run_events ([Sign_Up 1 ''alice@example.com'' None, Sign_In 1,
      Analyze (Ok \<lparr>result = Phishing, confidence = Some 90,
        threatIndicators = [JStr ''IP address used instead of domain name''],
        url = ''http://192.168.1.5/login'', ruleBasedScore = 60, details = Rule_Based\<rparr>)] @ [Sign_Up 2 ''bob@example.com'' None]))) = [] \<and>
   db_select_scans (Some 1) 1 (sys_db (run_events ([Sign_Up 1 ''alice@example.com'' None, Sign_In 1,
      Analyze (Ok \<lparr>result = Phishing, confidence = Some 90,
        threatIndicators = [JStr ''IP address used instead of domain name''],
        url = ''http://192.168.1.5/login'', ruleBasedScore = 60, details = Rule_Based\<rparr>)] @ [Sign_Up 2 ''bob@example.com'' None]))) \<noteq> []"
proof -
  have "\<not> is_admin (sys_db (run_events ([Sign_Up 1 ''alice@example.com'' None, Sign_In 1,
      Analyze (Ok \<lparr>result = Phishing, confidence = Some 90,
        threatIndicators = [JStr ''IP address used instead of domain name''],
        url = ''http://192.168.1.5/login'', ruleBasedScore = 60, details = Rule_Based\<rparr>)] @ [Sign_Up 2 ''bob@example.com'' None]))) 2" by code_simp
  moreover have "db_select_scans (Some 1) 1 (sys_db (run_events ([Sign_Up 1 ''alice@example.com'' None, Sign_In 1,
      Analyze (Ok \<lparr>result = Phishing, confidence = Some 90,
        threatIndicators = [JStr ''IP address used instead of domain name''],
        url = ''http://192.168.1.5/login'', ruleBasedScore = 60, details = Rule_Based\<rparr>)] @ [Sign_Up 2 ''bob@example.com'' None]))) \<noteq> []"
    by code_simp
  ultimately show ?thesis using select_isolation [of _ 2 1] by simp
qed

text \<open>
  C38: no event removes or changes a stored scan: the scans table after any step extends the table before it, since no DELETE policy exists and deleteScan removes nothing.
\<close>

theorem scans_never_removed: "prefix (db_scans (sys_db s)) (db_scans (sys_db (sys_step s ev)))"
proof (cases ev)
  case (Analyze resp)
  have "prefix (db_scans (sys_db s)) (db_scans (sys_db (analyzeUrl resp s)))"
    by (auto simp: analyzeUrl_def Let_def fetchScans_def add_toast_def db_insert_scan_def
        split: option.splits response.splits sum.splits if_splits)
  then show ?thesis using Analyze by (simp add: sys_step_def)
qed (auto simp: sys_step_def fetchScans_def deleteScan_eq add_toast_def handle_new_user_def
      split: option.splits sum.splits if_splits)


end
