(* ===== verification/Csv.thy ===== *)
theory Csv
  imports Prelude
begin

text \<open>
  The CSV text that the dashboards export (\<open>src/unnamed/part_009\<close> lines 67-69,
  \<open>src/unnamed/part_010\<close> lines 148-150): every cell wrapped in double quotes, cells
  joined by commas, rows by line feeds, nothing escaped. \<open>csv_parse\<close> is a reader of
  RFC 4180 (a doubled quote inside a quoted field stands for one quote); it is the
  reference the export is checked against. The reader's functions are defined with
  explicit termination measures: every field consumes a prefix of the input.
\<close>

section \<open>Writing\<close>

definition csv_cell :: "string \<Rightarrow> string" where
  "csv_cell c = CHR ''\"'' # c @ [CHR ''\"'']"

definition csv_line :: "string list \<Rightarrow> string" where
  "csv_line row = join_with '','' (map csv_cell row)"

text \<open>\<open>[headers, ...rows].map(row => row.map(cell => `"${cell}"`).join(",")).join("\n")\<close>.\<close>

definition csvContent :: "string list list \<Rightarrow> string" where
  "csvContent rows = join_with [CHR ''\<newline>''] (map csv_line rows)"

section \<open>A reader of RFC 4180\<close>

text \<open>A quoted field after its opening quote: \<open>""\<close> stands for one quote, a single quote
  closes the field. Text after the closing quote up to the next separator is kept, as
  lenient readers do.\<close>

fun csv_quoted :: "string \<Rightarrow> string \<times> string" where
  "csv_quoted [] = ([], [])"
| "csv_quoted (c # cs) =
     (if c = CHR ''\"'' then
        (case cs of
           d # ds \<Rightarrow> if d = CHR ''\"'' then (let (f, r) = csv_quoted ds in (c # f, r)) else ([], cs)
         | [] \<Rightarrow> ([], []))
      else (let (f, r) = csv_quoted cs in (c # f, r)))"

definition csv_sep :: "char \<Rightarrow> bool" where
  "csv_sep c \<longleftrightarrow> c = CHR '','' \<or> c = CHR ''\<newline>''"

definition csv_unquoted :: "string \<Rightarrow> string \<times> string" where
  "csv_unquoted s = (takeWhile (\<lambda>c. \<not> csv_sep c) s, dropWhile (\<lambda>c. \<not> csv_sep c) s)"

definition csv_field :: "string \<Rightarrow> string \<times> string" where
  "csv_field s =
     (case s of
        c # cs \<Rightarrow> if c = CHR ''\"'' then (let (f, r) = csv_quoted cs; (g, r') = csv_unquoted r in (f @ g, r'))
                  else csv_unquoted s
      | [] \<Rightarrow> ([], []))"

lemma csv_quoted_length: "length (snd (csv_quoted s)) \<le> length s"
proof (induction s rule: csv_quoted.induct)
  case (2 c cs)
  then show ?case
    by (cases cs) (simp_all add: split_beta le_SucI)
qed simp

lemma csv_unquoted_length: "length (snd (csv_unquoted s)) \<le> length s"
  by (simp add: csv_unquoted_def length_dropWhile_le)

lemma csv_field_length: "length (snd (csv_field s)) \<le> length s"
proof (cases s)
  case (Cons c cs)
  show ?thesis
  proof (cases "c = CHR ''\"''")
    case True
    have "length (snd (csv_unquoted (snd (csv_quoted cs)))) \<le> length cs"
      using csv_unquoted_length csv_quoted_length le_trans by blast
    then show ?thesis using Cons True by (simp add: csv_field_def split_beta)
  next
    case False
    then show ?thesis using Cons csv_unquoted_length [of s] by (simp add: csv_field_def)
  qed
qed (simp add: csv_field_def)

text \<open>One record: fields separated by commas, up to a line feed or the end.\<close>

lemma csv_field_shorter: "csv_field s = (f, c # r) \<Longrightarrow> length r < length s"
  using csv_field_length [of s] by simp

function csv_row :: "string \<Rightarrow> string list \<times> string" where
  "csv_row s =
     (case csv_field s of
        (f, c # r) \<Rightarrow> if c = CHR '','' then (let (fs, r') = csv_row r in (f # fs, r')) else ([f], r)
      | (f, []) \<Rightarrow> ([f], []))"
  by pat_completeness auto
termination
  by (relation "measure length") (simp_all, metis csv_field_shorter)

declare csv_row.simps [simp del]

lemma csv_row_field_Nil: "csv_field s = (f, []) \<Longrightarrow> csv_row s = ([f], [])"
  by (simp add: csv_row.simps [of s])

lemma csv_row_field_comma:
  "csv_field s = (f, CHR '','' # r) \<Longrightarrow> csv_row s = (f # fst (csv_row r), snd (csv_row r))"
  by (simp add: csv_row.simps [of s] split_beta)

lemma csv_row_field_other:
  "csv_field s = (f, c # r) \<Longrightarrow> c \<noteq> CHR '','' \<Longrightarrow> csv_row s = ([f], r)"
  by (simp add: csv_row.simps [of s])

lemma csv_row_length: "length (snd (csv_row s)) \<le> length s"
proof (induction s rule: csv_row.induct)
  case (1 s)
  obtain f r where fr: "csv_field s = (f, r)" by fastforce
  show ?case
  proof (cases r)
    case Nil
    then show ?thesis using fr by (simp add: csv_row_field_Nil)
  next
    case (Cons c r0)
    have lt: "length r0 < length s" using fr Cons by (simp add: csv_field_shorter)
    show ?thesis
    proof (cases "c = CHR '',''")
      case True
      then have "length (snd (csv_row r0)) \<le> length r0" using 1 fr Cons by simp
      then show ?thesis using fr Cons True lt by (simp add: csv_row_field_comma)
    next
      case False
      then show ?thesis using fr Cons lt by (simp add: csv_row_field_other)
    qed
  qed
qed

lemma csv_row_shorter: "snd (csv_row s) \<noteq> [] \<Longrightarrow> length (snd (csv_row s)) < length s"
proof -
  assume ne: "snd (csv_row s) \<noteq> []"
  obtain f r where fr: "csv_field s = (f, r)" by fastforce
  show ?thesis
  proof (cases r)
    case Nil
    then show ?thesis using fr ne by (simp add: csv_row_field_Nil)
  next
    case (Cons c r0)
    have lt: "length r0 < length s" using fr Cons by (simp add: csv_field_shorter)
    show ?thesis
    proof (cases "c = CHR '',''")
      case True
      then show ?thesis using fr Cons lt csv_row_length [of r0] by (simp add: csv_row_field_comma)
    next
      case False
      then show ?thesis using fr Cons lt by (simp add: csv_row_field_other)
    qed
  qed
qed

text \<open>The records of a document; a final line feed ends the last record.\<close>

function csv_parse :: "string \<Rightarrow> string list list" where
  "csv_parse s = (case csv_row s of (row, r) \<Rightarrow> if r = [] then [row] else row # csv_parse r)"
  by pat_completeness auto
termination
  by (relation "measure length") (simp_all, metis csv_row_shorter snd_conv)

declare csv_parse.simps [simp del]


section \<open>Reading back what was written\<close>

text \<open>The cells the export can carry unchanged: no double quote inside, and at least one
  cell per row.\<close>

definition csv_plain :: "string list list \<Rightarrow> bool" where
  "csv_plain rows \<longleftrightarrow> list_all (\<lambda>row. row \<noteq> [] \<and> list_all (\<lambda>c. CHR ''\"'' \<notin> set c) row) rows"

definition csv_follow :: "string \<Rightarrow> bool" where
  "csv_follow r \<longleftrightarrow> r = [] \<or> csv_sep (hd r)"

lemma csv_quoted_plain:
  "CHR ''\"'' \<notin> set c \<Longrightarrow> csv_follow r \<Longrightarrow> csv_quoted (c @ CHR ''\"'' # r) = (c, r)"
proof (induction c)
  case Nil
  then show ?case by (cases r) (auto simp: csv_follow_def csv_sep_def)
next
  case (Cons a c)
  then show ?case by (auto simp: split_beta)
qed

lemma csv_unquoted_follow: "csv_follow r \<Longrightarrow> csv_unquoted r = ([], r)"
  by (cases r) (auto simp: csv_follow_def csv_unquoted_def)

lemma csv_field_cell:
  "CHR ''\"'' \<notin> set c \<Longrightarrow> csv_follow r \<Longrightarrow> csv_field (csv_cell c @ r) = (c, r)"
  by (simp add: csv_field_def csv_cell_def csv_quoted_plain csv_unquoted_follow)

lemma csv_line_Cons2: "csv_line (x # y # zs) = csv_cell x @ CHR '','' # csv_line (y # zs)"
  by (simp add: csv_line_def)

lemma csv_line_not_Nil: "row \<noteq> [] \<Longrightarrow> csv_line row \<noteq> []"
  by (cases row rule: remdups_adj.cases) (simp_all add: csv_line_def csv_cell_def)

lemma csv_row_line:
  assumes "row \<noteq> []" "list_all (\<lambda>c. CHR ''\"'' \<notin> set c) row" "r = [] \<or> hd r = CHR ''\<newline>''"
  shows "csv_row (csv_line row @ r) = (row, tl r)"
  using assms
proof (induction row rule: induct_list012)
  case (2 x)
  have "csv_follow r" using 2(3) by (auto simp: csv_follow_def csv_sep_def)
  then have f: "csv_field (csv_cell x @ r) = (x, r)" using 2(2) by (simp add: csv_field_cell)
  show ?case
  proof (cases r)
    case Nil
    then show ?thesis using f by (simp add: csv_line_def csv_row_field_Nil)
  next
    case (Cons c r0)
    then show ?thesis using f 2(3) by (simp add: csv_line_def csv_row_field_other)
  qed
next
  case (3 x y zs)
  have "csv_follow (CHR '','' # csv_line (y # zs) @ r)" by (simp add: csv_follow_def csv_sep_def)
  then have "csv_field (csv_cell x @ CHR '','' # csv_line (y # zs) @ r) = (x, CHR '','' # csv_line (y # zs) @ r)"
    using "3.prems"(2) by (simp add: csv_field_cell)
  moreover have "csv_row (csv_line (y # zs) @ r) = (y # zs, tl r)" using 3 by simp
  ultimately show ?case by (simp add: csv_line_Cons2 csv_row_field_comma)
qed simp

theorem csv_parse_content:
  "rows \<noteq> [] \<Longrightarrow> csv_plain rows \<Longrightarrow> csv_parse (csvContent rows) = rows"
proof (induction rows rule: induct_list012)
  case (2 row)
  then have "csv_row (csv_line row) = (row, [])"
    using csv_row_line [of row "[]"] by (simp add: csv_plain_def)
  then show ?case by (simp add: csvContent_def csv_parse.simps)
next
  case (3 row row' rows)
  have p: "csv_plain (row' # rows)" "row \<noteq> []" "list_all (\<lambda>c. CHR ''\"'' \<notin> set c) row"
    using "3.prems"(2) by (simp_all add: csv_plain_def)
  have c: "csvContent (row # row' # rows) = csv_line row @ CHR ''\<newline>'' # csvContent (row' # rows)"
    by (simp add: csvContent_def)
  have "csv_row (csv_line row @ CHR ''\<newline>'' # csvContent (row' # rows)) = (row, csvContent (row' # rows))"
    using csv_row_line [OF p(2,3)] by simp
  moreover have "csvContent (row' # rows) \<noteq> []"
    using p(1) csv_line_not_Nil [of row'] by (cases rows) (simp_all add: csvContent_def csv_plain_def)
  ultimately show ?case using 3 p(1) c
    by (simp add: csv_parse.simps [of "csv_line row @ CHR ''\<newline>'' # csvContent (row' # rows)"])
qed simp

end
