(* ===== verification/Dashboard.thy ===== *)
theory Dashboard
  imports Scans Csv
begin

text \<open>
  The pages that read the scan history: the user dashboard (\<open>src/unnamed/part_009\<close>)
  with its CSV export \<open>exportToCSV\<close> and its statistics, and the admin dashboard
  (\<open>src/unnamed/part_010\<close>) with \<open>checkAdminAndLoad\<close>, \<open>loadData\<close>, its statistics,
  \<open>getUserEmail\<close> and \<open>exportUsers\<close>. The export wraps every cell in double quotes and
  joins cells with commas and rows with line feeds, without escaping; \<open>csv_parse\<close> is
  the reader of RFC 4180 against which the export is checked. Dates are rendered by a
  parameter \<open>iso_date\<close> (\<open>new Date(..).toISOString()\<close>); profiles are listed newest first,
  which is the reverse of their insertion order.
\<close>

section \<open>CSV export\<close>

definition scan_csv_headers :: "string list" where
  "scan_csv_headers = [''URL'', ''Result'', ''Confidence'', ''Scanned At'']"

definition scan_csv_row :: "(nat \<Rightarrow> string) \<Rightarrow> scan_row \<Rightarrow> string list" where
  "scan_csv_row iso_date s = [row_url s, row_result s, num_to_string (row_confidence s) @ ''%'', iso_date (scanned_at s)]"

text \<open>\<open>exportToCSV\<close>: \<open>None\<close> is the toast "No scans to export"; otherwise the content of the
  downloaded file.\<close>

definition exportToCSV :: "(nat \<Rightarrow> string) \<Rightarrow> scan_row list \<Rightarrow> string option" where
  "exportToCSV iso_date scans =
     (if scans = [] then None else Some (csvContent (scan_csv_headers # map (scan_csv_row iso_date) scans)))"

section \<open>Statistics\<close>

definition count_result :: "string \<Rightarrow> scan_row list \<Rightarrow> nat" where
  "count_result v scans = length (filter (\<lambda>s. row_result s = v) scans)"

record scan_stats =
  totalScans :: nat
  safeCount :: nat
  phishingCount :: nat
  suspiciousCount :: nat

definition dashboard_stats :: "scan_row list \<Rightarrow> scan_stats" where
  "dashboard_stats scans =
     \<lparr>totalScans = length scans, safeCount = count_result ''safe'' scans,
      phishingCount = count_result ''phishing'' scans, suspiciousCount = count_result ''suspicious'' scans\<rparr>"

section \<open>The admin dashboard\<close>

text \<open>Row-level security of \<open>user_roles\<close> and \<open>profiles\<close> for \<open>SELECT\<close>: one's own rows, or
  every row for an admin.\<close>

definition roles_select_policy :: "db \<Rightarrow> uid option \<Rightarrow> uid \<times> app_role \<Rightarrow> bool" where
  "roles_select_policy d auth ur \<longleftrightarrow>
     auth = Some (fst ur) \<or> (case auth of Some a \<Rightarrow> is_admin d a | None \<Rightarrow> False)"

definition profile_select_policy :: "db \<Rightarrow> uid option \<Rightarrow> profile \<Rightarrow> bool" where
  "profile_select_policy d auth p \<longleftrightarrow>
     auth = Some (p_user p) \<or> (case auth of Some a \<Rightarrow> is_admin d a | None \<Rightarrow> False)"

text \<open>\<open>from("user_roles").select("role").eq("user_id", u).single()\<close>: \<open>single()\<close> fails
  unless exactly one row is visible, and then \<open>data\<close> is \<open>null\<close>.\<close>

definition checkAdminAndLoad :: "db \<Rightarrow> uid \<Rightarrow> bool" where
  "checkAdminAndLoad d u =
     (case filter (\<lambda>ur. roles_select_policy d (Some u) ur \<and> fst ur = u) (db_roles d) of
        [ur] \<Rightarrow> snd ur = Admin_Role
      | _ \<Rightarrow> False)"

record admin_view =
  admin_profiles :: "profile list"
  allScans :: "scan_row list"

text \<open>\<open>loadData\<close>: the profiles newest first, and the 100 newest scans, as the caller's
  policies show them.\<close>

definition loadData :: "db \<Rightarrow> uid \<Rightarrow> admin_view" where
  "loadData d u =
     \<lparr>admin_profiles = rev (filter (profile_select_policy d (Some u)) (db_profiles d)),
      allScans = take 100 (rev (filter (scan_select_policy d (Some u)) (db_scans d)))\<rparr>"

text \<open>The page: \<open>None\<close> is "Access denied" and the redirection to the user dashboard.\<close>

definition admin_page :: "db \<Rightarrow> uid \<Rightarrow> admin_view option" where
  "admin_page d u = (if checkAdminAndLoad d u then Some (loadData d u) else None)"

record admin_stats =
  totalUsers :: nat
  admin_totalScans :: nat
  phishingDetected :: nat
  todayScans :: nat

definition admin_page_stats :: "(nat \<Rightarrow> nat) \<Rightarrow> nat \<Rightarrow> admin_view \<Rightarrow> admin_stats" where
  "admin_page_stats day today v =
     \<lparr>totalUsers = length (admin_profiles v), admin_totalScans = length (allScans v),
      phishingDetected = count_result ''phishing'' (allScans v),
      todayScans = length (filter (\<lambda>s. day (scanned_at s) = today) (allScans v))\<rparr>"

text \<open>\<open>profile?.email || userId.slice(0, 8)\<close>; \<open>uid_str\<close> renders a user id.\<close>

definition getUserEmail :: "(uid \<Rightarrow> string) \<Rightarrow> profile list \<Rightarrow> uid \<Rightarrow> string" where
  "getUserEmail uid_str ps u =
     (case find (\<lambda>p. p_user p = u) ps of
        Some p \<Rightarrow> if p_email p \<noteq> [] then p_email p else take 8 (uid_str u)
      | None \<Rightarrow> take 8 (uid_str u))"

definition user_csv_row :: "(uid \<Rightarrow> string) \<Rightarrow> (uid \<Rightarrow> string option) \<Rightarrow> profile \<Rightarrow> string list" where
  "user_csv_row created last_sign p =
     [p_email p, if display_name p = [] then ''N/A'' else display_name p, created (p_user p),
      case last_sign (p_user p) of Some t \<Rightarrow> t | None \<Rightarrow> ''N/A'']"

definition exportUsers :: "(uid \<Rightarrow> string) \<Rightarrow> (uid \<Rightarrow> string option) \<Rightarrow> profile list \<Rightarrow> string" where
  "exportUsers created last_sign ps =
     csvContent ([''Email'', ''Display Name'', ''Created At'', ''Last Sign In''] # map (user_csv_row created last_sign) ps)"

section \<open>A sample history\<close>

text \<open>Alice signs up, signs in and records a phishing verdict; Bob signs up.\<close>

definition sample_events :: "event list" where
  "sample_events =
     [Sign_Up 1 ''alice@example.com'' None, Sign_In 1,
      Analyze (Ok \<lparr>result = Phishing, confidence = Some 90,
        threatIndicators = [JStr ''IP address used instead of domain name''],
        url = ''http://192.168.1.5/login'', ruleBasedScore = 60, details = Rule_Based\<rparr>),
      Sign_Up 2 ''bob@example.com'' None]"

section \<open>Properties\<close>

lemma char_of_digit_not_quote: "(k::nat) < 10 \<Longrightarrow> char_of (48 + k) \<noteq> CHR ''\"''"
proof
  assume "k < 10" "char_of (48 + k) = CHR ''\"''"
  then have "(of_char (char_of (48 + k)) :: nat) = 34" by simp
  moreover have "(of_char (char_of (48 + k)) :: nat) = 48 + k" using \<open>k < 10\<close> by (simp add: of_char_of)
  ultimately show False by simp
qed

lemma nat_to_dec_no_quote: "CHR ''\"'' \<notin> set (nat_to_dec n)"
proof (induction n rule: nat_to_dec.induct)
  case (1 n)
  then show ?case using char_of_digit_not_quote [of n] char_of_digit_not_quote [of "n mod 10"]
    by (subst nat_to_dec.simps) (auto simp del: char_of_nat)
qed

lemma num_to_string_no_quote: "CHR ''\"'' \<notin> set (num_to_string r)"
  using nat_to_dec_no_quote
  by (auto simp: num_to_string_def Let_def dest: in_set_takeD in_set_dropD)

lemma scan_csv_plain:
  assumes "list_all (\<lambda>s. CHR ''\"'' \<notin> set (row_url s) \<and> CHR ''\"'' \<notin> set (row_result s) \<and>
                         CHR ''\"'' \<notin> set (iso_date (scanned_at s))) scans"
  shows "csv_plain (scan_csv_headers # map (scan_csv_row iso_date) scans)"
  using assms num_to_string_no_quote
  by (auto simp: csv_plain_def scan_csv_headers_def scan_csv_row_def list_all_iff)

lemma count_result_partition:
  "list_all (\<lambda>s. result_allowed (row_result s)) xs \<Longrightarrow>
   length xs = count_result ''safe'' xs + count_result ''phishing'' xs + count_result ''suspicious'' xs"
  by (induction xs) (auto simp: count_result_def result_allowed_def)

lemma distinct_filter_fst:
  "distinct (map fst xs) \<Longrightarrow> filter (\<lambda>p. fst p = k) xs = (case map_of xs k of None \<Rightarrow> [] | Some v \<Rightarrow> [(k, v)])"
proof (induction xs)
  case (Cons p xs)
  then show ?case
    by (cases p) (auto simp: filter_empty_conv map_of_eq_None_iff image_iff split: option.split)
qed simp

lemma roles_of_reach:
  assumes "s \<in> reach"
  shows "filter (\<lambda>ur. fst ur = u) (db_roles (sys_db s)) =
           (case map_of (db_roles (sys_db s)) u of None \<Rightarrow> [] | Some v \<Rightarrow> [(u, v)])"
proof -
  have "db_roles (sys_db s) = map (\<lambda>p. (p_user p, role_for (p_email p))) (db_profiles (sys_db s))"
       "distinct (map p_user (db_profiles (sys_db s)))"
    using reach_sys_inv [OF assms] by (simp_all add: sys_inv_def)
  then have "distinct (map fst (db_roles (sys_db s)))" by (simp add: comp_def)
  then show ?thesis by (rule distinct_filter_fst)
qed

text \<open>
  C5: the CSV export of the dashboard reads back, under RFC 4180, as the header row and one row per scan (URL, result, confidence with a percent sign, date), as long as no URL, result or date holds a double quote.
\<close>

theorem scan_export_roundtrip:
  assumes "exportToCSV iso_date scans = Some f"
    and "list_all (\<lambda>s. CHR ''\"'' \<notin> set (row_url s) \<and> CHR ''\"'' \<notin> set (row_result s) \<and>
                        CHR ''\"'' \<notin> set (iso_date (scanned_at s))) scans"
  shows "csv_parse f = scan_csv_headers # map (scan_csv_row iso_date) scans"
proof -
  have "f = csvContent (scan_csv_headers # map (scan_csv_row iso_date) scans)"
    using assms(1) by (simp add: exportToCSV_def split: if_splits)
  then show ?thesis using csv_parse_content scan_csv_plain [OF assms(2)] by simp
qed

theorem scan_export_roundtrip_witness:
  "csv_parse (the (exportToCSV (\<lambda>n. ''2026-02-04T10:00:00.000Z'') (db_scans (sys_db (run_events sample_events))))) =
   scan_csv_headers # map (scan_csv_row (\<lambda>n. ''2026-02-04T10:00:00.000Z'')) (db_scans (sys_db (run_events sample_events)))"
proof -
  have d: "db_scans (sys_db (run_events sample_events)) =
    [\<lparr>scan_id = 0, user_id = 1, row_url = ''http://192.168.1.5/login'', row_result = ''phishing'',
      row_confidence = 90, threat_indicators = [JStr ''IP address used instead of domain name''], scanned_at = 0\<rparr>]"
    unfolding sample_events_def by code_simp
  show ?thesis
    using scan_export_roundtrip [of "\<lambda>n. ''2026-02-04T10:00:00.000Z''" "db_scans (sys_db (run_events sample_events))"]
    unfolding d by (simp add: exportToCSV_def)
qed

text \<open>
  C30: in every reachable state the dashboard's statistics partition the listed scans: the total is the sum of the safe, phishing and suspicious counts, because the CHECK constraint admits no other result.
\<close>

theorem dashboard_stats_partition:
  assumes "s \<in> reach"
  shows "totalScans (dashboard_stats (s_scans (sys_session s))) =
         safeCount (dashboard_stats (s_scans (sys_session s))) + phishingCount (dashboard_stats (s_scans (sys_session s))) +
         suspiciousCount (dashboard_stats (s_scans (sys_session s)))"
proof -
  have "list_all (\<lambda>r. result_allowed (row_result r)) (s_scans (sys_session s))"
    using reach_sys_inv [OF assms] by (auto simp: sys_inv_def scan_row_ok_def list_all_iff)
  then show ?thesis by (simp add: dashboard_stats_def count_result_partition)
qed

theorem dashboard_stats_partition_witness:
  "totalScans (dashboard_stats (s_scans (sys_session (run_events sample_events)))) = 1 \<and>
   phishingCount (dashboard_stats (s_scans (sys_session (run_events sample_events)))) = 1 \<and>
   totalScans (dashboard_stats (s_scans (sys_session (run_events sample_events)))) =
   safeCount (dashboard_stats (s_scans (sys_session (run_events sample_events)))) +
   phishingCount (dashboard_stats (s_scans (sys_session (run_events sample_events)))) +
   suspiciousCount (dashboard_stats (s_scans (sys_session (run_events sample_events))))"
proof -
  have "totalScans (dashboard_stats (s_scans (sys_session (run_events sample_events)))) = 1 \<and>
        phishingCount (dashboard_stats (s_scans (sys_session (run_events sample_events)))) = 1"
    unfolding sample_events_def by code_simp
  then show ?thesis using dashboard_stats_partition [OF run_events_reach [of sample_events]] by simp
qed

text \<open>
  C33: in every reachable state the client-side admin check of the admin dashboard (the single user_roles row visible to the caller is admin) agrees with the database function is_admin used by the row-level security policies.
\<close>

theorem checkAdminAndLoad_iff:
  assumes "s \<in> reach"
  shows "checkAdminAndLoad (sys_db s) u \<longleftrightarrow> is_admin (sys_db s) u"
proof -
  let ?rs = "db_roles (sys_db s)"
  have f: "filter (\<lambda>ur. roles_select_policy (sys_db s) (Some u) ur \<and> fst ur = u) ?rs = filter (\<lambda>ur. fst ur = u) ?rs"
    by (rule filter_cong) (auto simp: roles_select_policy_def)
  have "db_roles (sys_db s) = map (\<lambda>p. (p_user p, role_for (p_email p))) (db_profiles (sys_db s))"
       "distinct (map p_user (db_profiles (sys_db s)))"
    using reach_sys_inv [OF assms] by (simp_all add: sys_inv_def)
  then have dist: "distinct (map fst ?rs)" by (simp add: comp_def)
  have "is_admin (sys_db s) u \<longleftrightarrow> map_of ?rs u = Some Admin_Role"
    using dist by (auto simp: is_admin_def has_role_def intro: map_of_SomeD)
  then show ?thesis
    using roles_of_reach [OF assms, of u] f
    by (simp add: checkAdminAndLoad_def split: option.split)
qed

theorem checkAdminAndLoad_iff_witness:
  "checkAdminAndLoad (sys_db (run_events [Sign_Up 7 ''admin@phishshield.ai'' None])) 7 \<and>
   \<not> checkAdminAndLoad (sys_db (run_events sample_events)) 1"
proof -
  have "is_admin (sys_db (run_events [Sign_Up 7 ''admin@phishshield.ai'' None])) 7 \<and>
        \<not> is_admin (sys_db (run_events sample_events)) 1"
    unfolding sample_events_def by code_simp
  then show ?thesis
    using checkAdminAndLoad_iff [OF run_events_reach [of "[Sign_Up 7 ''admin@phishshield.ai'' None]"], of 7]
          checkAdminAndLoad_iff [OF run_events_reach [of sample_events], of 1]
    by blast
qed

text \<open>
  C34: row-level security backs the admin dashboard: a caller who is not an admin and loads its data anyway gets only their own profile and their own 100 newest scans.
\<close>

theorem admin_load_isolation:
  assumes "\<not> is_admin d u"
  shows "loadData d u =
           \<lparr>admin_profiles = rev (filter (\<lambda>p. p_user p = u) (db_profiles d)),
            allScans = take 100 (rev (filter (\<lambda>r. user_id r = u) (db_scans d)))\<rparr>"
proof -
  have "filter (profile_select_policy d (Some u)) (db_profiles d) = filter (\<lambda>p. p_user p = u) (db_profiles d)"
    using assms by (intro filter_cong) (auto simp: profile_select_policy_def)
  moreover have "filter (scan_select_policy d (Some u)) (db_scans d) = filter (\<lambda>r. user_id r = u) (db_scans d)"
    using assms by (intro filter_cong) (auto simp: scan_select_policy_def)
  ultimately show ?thesis by (simp add: loadData_def)
qed

theorem admin_load_isolation_witness:
  "map p_user (admin_profiles (loadData (sys_db (run_events sample_events)) 2)) = [2] \<and>
   allScans (loadData (sys_db (run_events sample_events)) 2) = []"
proof -
  have "\<not> is_admin (sys_db (run_events sample_events)) 2 \<and>
        map p_user (rev (filter (\<lambda>p. p_user p = 2) (db_profiles (sys_db (run_events sample_events))))) = [2] \<and>
        take 100 (rev (filter (\<lambda>r. user_id r = 2) (db_scans (sys_db (run_events sample_events))))) = []"
    unfolding sample_events_def by code_simp
  then show ?thesis using admin_load_isolation [of "sys_db (run_events sample_events)" 2] by simp
qed

text \<open>The export does not double the quotes of a cell: a URL ending in \<open>","safe\<close>
  shifts the row, and the phishing scan reads back with the result \<open>safe\<close>.\<close>

theorem csv_quote_spoofs_result:
  "csv_parse (the (exportToCSV (\<lambda>n. ''2026-02-04T10:00:00.000Z'')
     [\<lparr>scan_id = 0, user_id = 1, row_url = ''http://evil.example/\",\"safe'', row_result = ''phishing'',
       row_confidence = 90, threat_indicators = [], scanned_at = 0\<rparr>])) =
   [scan_csv_headers, [''http://evil.example/'', ''safe'', ''phishing'', ''90%'', ''2026-02-04T10:00:00.000Z'']]"
  by code_simp

lemma verdict_string_allowed: "v \<noteq> Unknown \<Longrightarrow> result_allowed (verdict_string v)"
  by (cases v) (simp_all add: result_allowed_def verdict_string_def)

lemma select_new_row:
  "db_select_scans (Some u) u (d\<lparr>db_scans := db_scans d @ [row], db_clock := k\<rparr>) =
     (if user_id row = u then row # take 49 (db_select_scans (Some u) u d) else db_select_scans (Some u) u d)"
  by (simp add: db_select_scans_def scan_select_policy_def is_admin_def has_role_def take_Cons')

text \<open>
  C10: progress of a scan: when a signed-in user's analysis returns a report whose verdict the table admits and whose confidence passes DECIMAL(5,2) and the CHECK, the step stores it and the refreshed history shows it first, with the rounded confidence.
\<close>

theorem analysis_recorded:
  assumes "s_user (sys_session s) = Some u" "confidence r = Some c" "numeric_5_2 c = Some v"
    and "0 \<le> v" "v \<le> 100" "result r \<noteq> Unknown"
  shows "hd (s_scans (sys_session (sys_step s (Analyze (Ok r))))) =
           \<lparr>scan_id = db_clock (sys_db s), user_id = u, row_url = url r, row_result = verdict_string (result r),
            row_confidence = v, threat_indicators = threatIndicators r, scanned_at = db_clock (sys_db s)\<rparr>"
proof -
  let ?row = "\<lparr>scan_id = db_clock (sys_db s), user_id = u, row_url = url r, row_result = verdict_string (result r),
            row_confidence = v, threat_indicators = threatIndicators r, scanned_at = db_clock (sys_db s)\<rparr>"
  have "db_insert_scan (Some u) u (url r) (verdict_string (result r)) (confidence r) (threatIndicators r) (sys_db s) =
        Inr ((sys_db s)\<lparr>db_scans := db_scans (sys_db s) @ [?row], db_clock := Suc (db_clock (sys_db s))\<rparr>)"
    using assms(2-6) verdict_string_allowed [OF assms(6)]
    by (simp add: db_insert_scan_def scan_insert_policy_def)
  then show ?thesis using assms(1)
    by (simp add: sys_step_def analyzeUrl_def Let_def fetchScans_def add_toast_def select_new_row)
qed

theorem analysis_recorded_witness:
  "hd (s_scans (sys_session (sys_step (run_events [Sign_Up 1 ''alice@example.com'' None, Sign_In 1])
      (Analyze (Ok \<lparr>result = Suspicious, confidence = Some 72.504,
        threatIndicators = [JStr ''Insecure HTTP connection''],
        url = ''http://example.com/login'', ruleBasedScore = 40, details = Rule_Based\<rparr>))))) =
   \<lparr>scan_id = 0, user_id = 1, row_url = ''http://example.com/login'', row_result = ''suspicious'',
    row_confidence = 72.5, threat_indicators = [JStr ''Insecure HTTP connection''], scanned_at = 0\<rparr>"
proof -
  have s0: "s_user (sys_session (run_events [Sign_Up 1 ''alice@example.com'' None, Sign_In 1])) = Some 1"
    "db_clock (sys_db (run_events [Sign_Up 1 ''alice@example.com'' None, Sign_In 1])) = 0"
    by code_simp+
  have n: "numeric_5_2 72.504 = Some 72.5" by code_simp
  show ?thesis
    using analysis_recorded [OF s0(1), of "\<lparr>result = Suspicious, confidence = Some 72.504,
        threatIndicators = [JStr ''Insecure HTTP connection''],
        url = ''http://example.com/login'', ruleBasedScore = 40, details = Rule_Based\<rparr>" "72.504" "72.5"] n s0(2)
    by (simp add: verdict_string_def)
qed

end
