(* ===== verification/Scan_Forms.thy ===== *)
theory Scan_Forms
  imports Scans Email_Handler Logo_Heuristic Logo_Hybrid
begin

text \<open>
  The forms of the client that send requests to the analyzers: \<open>ScanInput\<close>
  (\<open>src/unnamed/part_004\<close> lines 565-573), which trims the URL; the landing page's
  \<open>handleScan\<close> (\<open>src/src/pages/Index.tsx\<close> lines 35-44), which hands the URL to the
  dashboard for a signed-in user; the request \<open>useScans.analyzeUrl\<close> sends
  (\<open>src/unnamed/part_008\<close> lines 540-550); the e-mail tab \<open>EmailScanTab.handleScan\<close>
  (\<open>src/unnamed/part_004\<close> lines 39-94); the logo tab \<open>LogoScanTab\<close> with its image URL
  and preview state (\<open>src/unnamed/part_008\<close> lines 39-150); and the sign-up form
  \<open>AuthModal.handleSubmit\<close> (\<open>src/src/components/AuthModal.tsx\<close> lines 24-60), whose
  metadata feeds the trigger \<open>handle_new_user\<close>. A request body is the JSON object that
  \<open>JSON.stringify\<close> writes and the handler's \<open>req.json()\<close> reads back. A rejected
  form is \<open>Inl\<close> of the message of its error toast.
\<close>

section \<open>The URL form\<close>

definition scanInput_handleSubmit :: "string \<Rightarrow> string option" where
  "scanInput_handleSubmit lnk = (if trim_space lnk \<noteq> [] then Some (trim_space lnk) else None)"

text \<open>\<open>handleScan\<close> of the landing page: without a user the sign-in dialog opens; with one
  the URL is passed to the dashboard, whose effect calls \<open>analyzeUrl\<close> on it.\<close>

definition landing_handleScan :: "uid option \<Rightarrow> string \<Rightarrow> string + string" where
  "landing_handleScan user lnk =
     (case user of None \<Rightarrow> Inl ''Sign in to analyze URLs and save your scan history'' | Some u \<Rightarrow> Inr lnk)"

definition url_request :: "string \<Rightarrow> request" where
  "url_request lnk = \<lparr>req_method = ''POST'', req_body = Some (JObj [(''url'', JStr lnk)])\<rparr>"

section \<open>The e-mail tab\<close>

definition email_tab_request :: "uid option \<Rightarrow> string \<Rightarrow> string \<Rightarrow> string \<Rightarrow> string + request" where
  "email_tab_request userId sndr subj bdy =
     (if trim_space sndr = [] \<or> trim_space subj = [] \<or> trim_space bdy = [] then Inl ''Please fill in all fields''
      else if userId = None then Inl ''Please sign in to scan emails''
      else Inr \<lparr>req_method = ''POST'',
                req_body = Some (JObj [(''sender'', JStr sndr), (''subject'', JStr subj), (''body'', JStr bdy)])\<rparr>)"

text \<open>The toast of a verdict; an answer that is not 2xx shows its \<open>error\<close> message.\<close>

definition email_result_toast :: "verdict \<Rightarrow> toast" where
  "email_result_toast v =
     (if v = Phishing then Toast_Error ''EMAIL PHISHING DETECTED!''
      else if v = Suspicious then Toast_Warning ''Suspicious email detected''
      else Toast_Success ''Email appears safe'')"

definition response_toast :: "('a \<Rightarrow> toast) \<Rightarrow> 'a response \<Rightarrow> toast" where
  "response_toast ok resp =
     (case resp of Ok r \<Rightarrow> ok r | Bad_Request m \<Rightarrow> Toast_Error m | Server_Error e \<Rightarrow> Toast_Failure e
                 | Preflight \<Rightarrow> Toast_Error ''Analysis failed'')"

definition email_tab_scan ::
  "(request \<Rightarrow> email_report response) \<Rightarrow> uid option \<Rightarrow> string \<Rightarrow> string \<Rightarrow> string \<Rightarrow> toast" where
  "email_tab_scan handler userId sndr subj bdy =
     (case email_tab_request userId sndr subj bdy of
        Inl m \<Rightarrow> Toast_Error m
      | Inr req \<Rightarrow> response_toast (\<lambda>r. email_result_toast (result r)) (handler req))"

section \<open>The logo tab\<close>

record logo_tab =
  imageUrl :: string
  previewImage :: "string option"

definition logo_tab_init :: logo_tab where
  "logo_tab_init = \<lparr>imageUrl = [], previewImage = None\<rparr>"

text \<open>\<open>handleFileUpload\<close> once the \<open>FileReader\<close> has produced the data URL \<open>data\<close> of a
  file of MIME type \<open>mime\<close>.\<close>

definition handleFileUpload :: "string \<Rightarrow> string \<Rightarrow> logo_tab \<Rightarrow> string + logo_tab" where
  "handleFileUpload mime data t =
     (if \<not> starts_with mime ''image/'' then Inl ''Please upload an image file''
      else Inr (t\<lparr>previewImage := Some data, imageUrl := []\<rparr>))"

definition handleUrlChange :: "string \<Rightarrow> logo_tab \<Rightarrow> logo_tab" where
  "handleUrlChange lnk t =
     (let t' = t\<lparr>imageUrl := lnk\<rparr> in if starts_with lnk ''http'' then t'\<lparr>previewImage := Some lnk\<rparr> else t')"

definition preview_truthy :: "logo_tab \<Rightarrow> bool" where
  "preview_truthy t \<longleftrightarrow> previewImage t \<noteq> None \<and> previewImage t \<noteq> Some []"

text \<open>The payload: the typed URL, else a data URL as \<open>base64Image\<close>, else the preview as
  the image URL.\<close>

definition logo_payload :: "logo_tab \<Rightarrow> jobj" where
  "logo_payload t =
     (if imageUrl t \<noteq> [] then [(''imageUrl'', JStr (imageUrl t))]
      else if preview_truthy t \<and> starts_with (the (previewImage t)) ''data:'' then [(''base64Image'', JStr (the (previewImage t)))]
      else if preview_truthy t then [(''imageUrl'', JStr (the (previewImage t)))]
      else [])"

definition logo_tab_request :: "uid option \<Rightarrow> logo_tab \<Rightarrow> string + request" where
  "logo_tab_request userId t =
     (if imageUrl t = [] \<and> \<not> preview_truthy t then Inl ''Please provide an image URL or upload a file''
      else if userId = None then Inl ''Please sign in to scan logos''
      else Inr \<lparr>req_method = ''POST'', req_body = Some (JObj (logo_payload t))\<rparr>)"

definition logo_result_toast :: "verdict \<Rightarrow> toast" where
  "logo_result_toast v =
     (if v = Phishing then Toast_Error ''LOGO PHISHING DETECTED!''
      else if v = Safe then Toast_Success ''Logo appears authentic''
      else Toast_Info ''Logo unknown'')"

definition logo_tab_scan :: "(request \<Rightarrow> 'a response) \<Rightarrow> ('a \<Rightarrow> verdict) \<Rightarrow> uid option \<Rightarrow> logo_tab \<Rightarrow> toast" where
  "logo_tab_scan handler verdict_of_report userId t =
     (case logo_tab_request userId t of
        Inl m \<Rightarrow> Toast_Error m
      | Inr req \<Rightarrow> response_toast (\<lambda>r. logo_result_toast (verdict_of_report r)) (handler req))"

section \<open>The sign-up form\<close>

text \<open>\<open>supabase.auth.signUp\<close> with \<open>options.data.full_name = fullName\<close>: the metadata always
  carries the field, empty when the form's name was left blank.\<close>

definition authModal_signUp :: "uid \<Rightarrow> string \<Rightarrow> string \<Rightarrow> event" where
  "authModal_signUp u email fullName = Sign_Up u email (Some fullName)"

section \<open>Properties\<close>

lemma scanInput_handleSubmit_Some:
  "scanInput_handleSubmit raw = Some u \<Longrightarrow> u = trim_space raw \<and> u \<noteq> []"
  by (simp add: scanInput_handleSubmit_def split: if_splits)

lemma url_request_fields: "destructure (req_body (url_request u)) [''url''] = Inr [Some (JStr u)]"
  by (simp add: url_request_def destructure_simps)

text \<open>
  C3: a URL submitted through the scan form reaches the URL analyzer as a non-empty string, so the analyzer never answers 400, whatever the API key and the gateway do, and every report it returns is about the trimmed URL the user typed.
\<close>

theorem scan_input_request_accepted:
  assumes "scanInput_handleSubmit raw = Some u"
  shows "(\<forall>m. analyze_url jparse key reply (url_request u) \<noteq> Bad_Request m) \<and>
         (\<forall>r. analyze_url jparse key reply (url_request u) = Ok r \<longrightarrow> url r = trim_space raw)"
proof -
  have u: "u = trim_space raw" "u \<noteq> []" using scanInput_handleSubmit_Some [OF assms] by auto
  have "analyze_url jparse key reply (url_request u) = Ok r \<Longrightarrow> url r = u" for r
    using u(2)
    by (auto simp: analyze_url_def url_request_fields Let_def url_rule_based_report_def
        split: if_splits prod.splits ai_reply.splits option.splits sum.splits elim: url_hybrid_report_Inr)
  moreover have "analyze_url jparse key reply (url_request u) \<noteq> Bad_Request m" for m
    using u(2)
    by (auto simp: analyze_url_def url_request_fields Let_def
        split: if_splits prod.splits ai_reply.splits option.splits sum.splits)
  ultimately show ?thesis using u(1) by blast
qed

theorem scan_input_request_accepted_witness:
  "scanInput_handleSubmit ''  http://192.168.1.5/login  '' = Some ''http://192.168.1.5/login'' \<and>
   (\<forall>m. analyze_url (\<lambda>_. None) (Some ''key'') (Ai_Reply 503 None) (url_request ''http://192.168.1.5/login'') \<noteq> Bad_Request m)"
proof -
  have h: "scanInput_handleSubmit ''  http://192.168.1.5/login  '' = Some ''http://192.168.1.5/login''"
    by code_simp
  show ?thesis
    using h scan_input_request_accepted [OF h, of "\<lambda>_. None" "Some ''key''" "Ai_Reply 503 None"] by simp
qed

lemma logo_tab_request_Inr:
  assumes "logo_tab_request userId t = Inr req"
  obtains k v where "req = \<lparr>req_method = ''POST'', req_body = Some (JObj [(k, JStr v)])\<rparr>" "v \<noteq> []"
    "k = ''imageUrl'' \<or> k = ''base64Image''"
  using assms
  by (auto simp: logo_tab_request_def logo_payload_def preview_truthy_def split: if_splits)

text \<open>
  C28: every request the logo tab sends carries one non-empty image field, so the heuristic logo analyzer always answers it with a report and the hybrid one never answers 400.
\<close>

theorem logo_tab_request_accepted:
  assumes "logo_tab_request userId t = Inr req"
  shows "(\<exists>r. analyze_logo_heuristic req = Ok r) \<and> (\<forall>m. analyze_logo_hybrid jparse key reply req \<noteq> Bad_Request m)"
  using assms
proof (cases rule: logo_tab_request_Inr)
  case (1 k v)
  then show ?thesis
    by (auto simp: analyze_logo_heuristic_def analyze_logo_hybrid_def destructure_simps truthy_opt_def Let_def
        split: sum.splits option.splits)
qed

theorem logo_tab_request_accepted_witness:
  "logo_tab_request (Some 1) (handleUrlChange ''https://suspicious-site.xyz/paypal-logo-modified.png'' logo_tab_init) =
     Inr \<lparr>req_method = ''POST'',
          req_body = Some (JObj [(''imageUrl'', JStr ''https://suspicious-site.xyz/paypal-logo-modified.png'')])\<rparr> \<and>
   (\<exists>r. analyze_logo_heuristic \<lparr>req_method = ''POST'',
          req_body = Some (JObj [(''imageUrl'', JStr ''https://suspicious-site.xyz/paypal-logo-modified.png'')])\<rparr> = Ok r)"
proof -
  have h: "logo_tab_request (Some 1) (handleUrlChange ''https://suspicious-site.xyz/paypal-logo-modified.png'' logo_tab_init) =
     Inr \<lparr>req_method = ''POST'',
          req_body = Some (JObj [(''imageUrl'', JStr ''https://suspicious-site.xyz/paypal-logo-modified.png'')])\<rparr>"
    by code_simp
  show ?thesis using h logo_tab_request_accepted [OF h] by blast
qed

text \<open>The preview is not cleared with the field: after typing an address and clearing
  the field, a scan analyzes the address that is no longer shown in it.\<close>

theorem logo_tab_stale_preview:
  "imageUrl (handleUrlChange [] (handleUrlChange ''https://cdn.example.com/old-logo.png'' logo_tab_init)) = [] \<and>
   logo_tab_request (Some 1) (handleUrlChange [] (handleUrlChange ''https://cdn.example.com/old-logo.png'' logo_tab_init)) =
     Inr \<lparr>req_method = ''POST'', req_body = Some (JObj [(''imageUrl'', JStr ''https://cdn.example.com/old-logo.png'')])\<rparr>"
  by code_simp

text \<open>An e-mail form that passes its checks sends three non-empty strings, which the
  hybrid e-mail analyzer never rejects with 400.\<close>

theorem email_tab_request_accepted:
  assumes "email_tab_request userId sndr subj bdy = Inr req"
  shows "analyze_email jparse key reply req \<noteq> Bad_Request m"
proof -
  have "sndr \<noteq> []" "subj \<noteq> []" "bdy \<noteq> []"
    using assms by (auto simp: email_tab_request_def trim_space_def split: if_splits)
  then show ?thesis using assms
    by (auto simp: email_tab_request_def analyze_email_def destructure_simps truthy_opt_def Let_def
        split: if_splits option.splits sum.splits prod.splits)
qed

text \<open>The sign-up form always sends \<open>full_name\<close>, so \<open>COALESCE\<close> in \<open>handle_new_user\<close>
  never falls back to the address: a user who leaves the name blank gets an empty
  display name instead of the part of the address before \<open>@\<close>.\<close>

theorem signup_blank_name_empty_display:
  "map display_name (db_profiles (sys_db (run_events [authModal_signUp 1 ''alice@example.com'' []]))) = [[]] \<and>
   map display_name (db_profiles (sys_db (run_events [Sign_Up 1 ''alice@example.com'' None]))) = [''alice'']"
  by code_simp

end
