(* ===== verification/Result_Views.thy ===== *)
theory Result_Views
  imports Dashboard
begin

text \<open>
  What the client shows of a result: the URL result card \<open>ScanResult\<close>
  (\<open>src/unnamed/part_004\<close> lines 364-552), the rows of \<open>ScanHistory\<close>
  (\<open>src/unnamed/part_005\<close> lines 28-149), the result panels of the e-mail and logo tabs
  (\<open>src/unnamed/part_004\<close> lines 218-330, \<open>src/unnamed/part_008\<close> lines 277-400), the
  admin check of the \<open>Navbar\<close> (\<open>src/unnamed/part_006\<close> lines 24-63) and the mode of the
  sign-in dialog \<open>AuthModal\<close> (\<open>src/src/components/AuthModal.tsx\<close> lines 16-66). A view
  is the data a component renders: its texts, the targets of its live links, its class
  names; icons, layout and animation are left out. A render that throws a \<open>TypeError\<close>
  (\<open>config.icon\<close> of \<open>undefined\<close>, \<open>null.toFixed\<close>) is \<open>None\<close>.
\<close>

section \<open>Numbers as the pages print them\<close>

text \<open>\<open>x.toFixed(0)\<close> for \<open>|x| < 10^21\<close>: the nearest integer, the larger one on a tie,
  with the sign of \<open>x\<close> (\<open>(-0.3).toFixed(0)\<close> is \<open>"-0"\<close>).\<close>

definition to_fixed0 :: "real \<Rightarrow> string" where
  "to_fixed0 x = (if x < 0 then ''-'' else []) @ nat_to_dec (nat \<lfloor>\<bar>x\<bar> + 1/2\<rfloor>)"

section \<open>The URL result card\<close>

record status_config =
  cfg_title :: string
  cfg_subtitle :: string
  cfg_tone :: string

text \<open>\<open>getStatusConfig\<close>: a \<open>switch\<close> without \<open>default\<close>, so any other result gives
  \<open>undefined\<close>.\<close>

definition getStatusConfig :: "string \<Rightarrow> status_config option" where
  "getStatusConfig res =
     (if res = ''safe'' then
        Some \<lparr>cfg_title = ''URL VERIFIED SAFE'', cfg_subtitle = ''No threats detected by neural analysis'',
              cfg_tone = ''text-safe''\<rparr>
      else if res = ''phishing'' then
        Some \<lparr>cfg_title = ''PHISHING THREAT DETECTED'', cfg_subtitle = ''High-risk indicators identified'',
              cfg_tone = ''text-destructive''\<rparr>
      else if res = ''suspicious'' then
        Some \<lparr>cfg_title = ''SUSPICIOUS ACTIVITY'', cfg_subtitle = ''Proceed with caution'',
              cfg_tone = ''text-warning''\<rparr>
      else None)"

definition method_label :: "url_details \<Rightarrow> string" where
  "method_label d = (case d of Hybrid_Ai _ _ _ \<Rightarrow> ''AI + Rule-Based'' | Rule_Based \<Rightarrow> ''Rule-Based'')"

record result_card =
  card_title :: string
  card_subtitle :: string
  card_confidence :: string
  card_url :: string
  card_links :: "string list"
  card_method :: string
  card_threats :: "jval list"
  card_action :: string

text \<open>The card: the title of the verdict, \<open>confidence.toFixed(0)\<close>, the URL with its
  external-link button, the method, the first five threats, and the action button, whose
  link is the URL for a safe verdict and \<open>#\<close> with \<open>preventDefault\<close> otherwise.
  \<open>card_links\<close> lists the targets of the links a click follows, in page order.\<close>

definition scanResult :: "url_report \<Rightarrow> result_card option" where
  "scanResult r =
     (case getStatusConfig (verdict_string (result r)) of
        None \<Rightarrow> None
      | Some cfg \<Rightarrow>
          (case confidence r of
             None \<Rightarrow> None
           | Some c \<Rightarrow>
               Some \<lparr>card_title = cfg_title cfg, card_subtitle = cfg_subtitle cfg,
                     card_confidence = to_fixed0 c @ ''%'', card_url = url r,
                     card_links = url r # (if result r = Safe then [url r] else []),
                     card_method = method_label (details r), card_threats = take 5 (threatIndicators r),
                     card_action = (if result r = Safe then ''Visit Safely'' else ''Do Not Visit'')\<rparr>))"

section \<open>The scan history\<close>

definition getStatusIcon :: "string \<Rightarrow> string" where
  "getStatusIcon res =
     (if res = ''safe'' then ''ShieldCheck'' else if res = ''phishing'' then ''ShieldAlert'' else ''AlertTriangle'')"

definition getStatusBadge :: "string \<Rightarrow> string" where
  "getStatusBadge res =
     ''px-2 py-1 rounded-full text-xs font-medium uppercase tracking-wider '' @
     (if res = ''safe'' then ''badge-safe'' else if res = ''phishing'' then ''badge-danger'' else ''badge-warning'')"

record history_row =
  hr_icon :: string
  hr_badge :: string
  hr_result :: string
  hr_url :: string
  hr_confidence :: string

definition scan_history_row :: "scan_row \<Rightarrow> history_row" where
  "scan_history_row s =
     \<lparr>hr_icon = getStatusIcon (row_result s), hr_badge = getStatusBadge (row_result s), hr_result = row_result s,
      hr_url = row_url s, hr_confidence = to_fixed0 (row_confidence s) @ ''%''\<rparr>"

datatype history_view = No_Scans_Yet | History_Rows "history_row list"

definition scanHistory :: "scan_row list \<Rightarrow> history_view" where
  "scanHistory scans = (if scans = [] then No_Scans_Yet else History_Rows (map scan_history_row scans))"

section \<open>The result panels of the tabs\<close>

definition email_panel_title :: "string \<Rightarrow> string" where
  "email_panel_title res =
     (if res = ''phishing'' then ''EMAIL PHISHING DETECTED''
      else if res = ''suspicious'' then ''SUSPICIOUS EMAIL'' else ''EMAIL APPEARS SAFE'')"

definition logo_panel_title :: "string \<Rightarrow> string" where
  "logo_panel_title res =
     (if res = ''phishing'' then ''LOGO PHISHING DETECTED''
      else if res = ''unknown'' then ''LOGO UNKNOWN'' else ''LOGO APPEARS AUTHENTIC'')"

section \<open>The navigation bar\<close>

text \<open>\<open>checkAdminStatus\<close>: the same \<open>single()\<close> query as the admin page; \<open>isAdmin\<close> after a
  change of the session, and after \<open>handleSignOut\<close>.\<close>

definition checkAdminStatus :: "db \<Rightarrow> uid \<Rightarrow> bool" where
  "checkAdminStatus d u =
     (case filter (\<lambda>ur. roles_select_policy d (Some u) ur \<and> fst ur = u) (db_roles d) of
        [ur] \<Rightarrow> snd ur = Admin_Role
      | _ \<Rightarrow> False)"

definition navbar_isAdmin :: "db \<Rightarrow> uid option \<Rightarrow> bool" where
  "navbar_isAdmin d user = (case user of Some u \<Rightarrow> checkAdminStatus d u | None \<Rightarrow> False)"

section \<open>The sign-in dialog\<close>

datatype auth_mode = Mode_Signin | Mode_Signup

record auth_form =
  form_mode :: auth_mode
  form_email :: string
  form_password :: string
  form_fullName :: string

text \<open>\<open>handleSubmit\<close> with the answer of the authentication service (\<open>Some\<close> message
  when it fails): the new form, the toast, and whether \<open>onSuccess\<close> was called.\<close>

definition authModal_handleSubmit :: "auth_form \<Rightarrow> string option \<Rightarrow> auth_form \<times> toast \<times> bool" where
  "authModal_handleSubmit f err =
     (case err of
        Some m \<Rightarrow> (f, Toast_Error m, False)
      | None \<Rightarrow>
          if form_mode f = Mode_Signup
          then (f\<lparr>form_mode := Mode_Signin\<rparr>, Toast_Success ''Account created! Please check your email to verify.'', False)
          else (f, Toast_Success ''Welcome back to PhishShield AI!'', True))"

definition authModal_toggle :: "auth_form \<Rightarrow> auth_form" where
  "authModal_toggle f =
     \<lparr>form_mode = (if form_mode f = Mode_Signin then Mode_Signup else Mode_Signin),
      form_email = [], form_password = [], form_fullName = []\<rparr>"

section \<open>Properties\<close>

lemma analyze_url_result_known: "analyze_url jparse key reply req = Ok r \<Longrightarrow> result r \<noteq> Unknown"
  by (erule analyze_url_Ok) (auto simp: url_rule_based_report_def elim: url_hybrid_report_Inr)

lemma getStatusConfig_known: "v \<noteq> Unknown \<Longrightarrow> getStatusConfig (verdict_string v) \<noteq> None"
  by (cases v) (simp_all add: getStatusConfig_def verdict_string_def)

lemma scanResult_Some:
  assumes "result r \<noteq> Unknown"
  shows "scanResult r = None \<longleftrightarrow> confidence r = None"
    "scanResult r = Some c \<Longrightarrow> hd (card_links c) = url r \<and>
       card_action c = (if result r = Safe then ''Visit Safely'' else ''Do Not Visit'')"
  using getStatusConfig_known [OF assms]
  by (auto simp: scanResult_def split: option.splits)

text \<open>
  C15: the result card renders every report of the URL analyzer except those whose confidence is not a number, on which \<open>confidence.toFixed(0)\<close> throws and the dashboard crashes; and when it renders, its first live link opens the scanned URL whatever the verdict, while the action button reads "Do Not Visit" for every verdict but safe.
\<close>

theorem url_result_card:
  assumes "analyze_url jparse key reply req = Ok r"
  shows "(scanResult r = None \<longleftrightarrow> confidence r = None) \<and>
         (\<forall>c. scanResult r = Some c \<longrightarrow> hd (card_links c) = url r \<and>
              card_action c = (if result r = Safe then ''Visit Safely'' else ''Do Not Visit''))"
  using scanResult_Some [OF analyze_url_result_known [OF assms]] by blast

theorem url_result_card_witness:
  "scanResult \<lparr>result = Suspicious, confidence = Some 105,
         threatIndicators = [JStr ''IP address used instead of domain name'', JStr ''Insecure HTTP connection'',
                             JStr ''Phishing keywords detected: login, verify, verify''],
         url = ''http://192.168.1.5/paypal-login-verify'', ruleBasedScore = 60,
         details = Hybrid_Ai (Some 35) (Some 45) [(''isPhishing'', JBool False), (''confidence'', JNum 30)]\<rparr> \<noteq> None \<and>
   hd (card_links (the (scanResult \<lparr>result = Suspicious, confidence = Some 105,
         threatIndicators = [JStr ''IP address used instead of domain name'', JStr ''Insecure HTTP connection'',
                             JStr ''Phishing keywords detected: login, verify, verify''],
         url = ''http://192.168.1.5/paypal-login-verify'', ruleBasedScore = 60,
         details = Hybrid_Ai (Some 35) (Some 45) [(''isPhishing'', JBool False), (''confidence'', JNum 30)]\<rparr>))) = ''http://192.168.1.5/paypal-login-verify'' \<and>
   card_action (the (scanResult \<lparr>result = Suspicious, confidence = Some 105,
         threatIndicators = [JStr ''IP address used instead of domain name'', JStr ''Insecure HTTP connection'',
                             JStr ''Phishing keywords detected: login, verify, verify''],
         url = ''http://192.168.1.5/paypal-login-verify'', ruleBasedScore = 60,
         details = Hybrid_Ai (Some 35) (Some 45) [(''isPhishing'', JBool False), (''confidence'', JNum 30)]\<rparr>)) = ''Do Not Visit''"
proof -
  have a: "analyze_url (\<lambda>_. Some [(''isPhishing'', JBool False), (''confidence'', JNum 30)]) (Some ''key'')
     (Ai_Reply 200 (Some (JObj [(''choices'', JArr [JObj [(''message'',
        JObj [(''content'', JStr ''{\"isPhishing\": false, \"confidence\": 30}'')])]])])))
     \<lparr>req_method = ''POST'', req_body = Some (JObj [(''url'', JStr ''http://192.168.1.5/paypal-login-verify'')])\<rparr>
   = Ok \<lparr>result = Suspicious, confidence = Some 105,
         threatIndicators = [JStr ''IP address used instead of domain name'', JStr ''Insecure HTTP connection'',
                             JStr ''Phishing keywords detected: login, verify, verify''],
         url = ''http://192.168.1.5/paypal-login-verify'', ruleBasedScore = 60,
         details = Hybrid_Ai (Some 35) (Some 45) [(''isPhishing'', JBool False), (''confidence'', JNum 30)]\<rparr>"
    unfolding analyze_url_def by (simp only: risk_score_exec) code_simp
  show ?thesis using url_result_card [OF a] by auto
qed

text \<open>A report whose AI confidence was not a number reaches the client with
  \<open>confidence: null\<close>, and the card does not render.\<close>

theorem url_result_card_nan:
  "scanResult \<lparr>result = Safe, confidence = None, threatIndicators = [], url = ''http://example.com/'',
     ruleBasedScore = 40, details = Hybrid_Ai None None [(''isPhishing'', JBool True), (''confidence'', JStr ''high'')]\<rparr> = None"
  by (simp add: scanResult_def getStatusConfig_def verdict_string_def)

lemma history_row_badge:
  "result_allowed (row_result s) \<Longrightarrow>
   hr_icon (scan_history_row s) = (if row_result s = ''safe'' then ''ShieldCheck''
      else if row_result s = ''phishing'' then ''ShieldAlert'' else ''AlertTriangle'')"
  by (simp add: scan_history_row_def getStatusIcon_def)

theorem navbar_admin_agrees: "navbar_isAdmin d (Some u) = checkAdminAndLoad d u"
  by (simp add: navbar_isAdmin_def checkAdminStatus_def checkAdminAndLoad_def)

theorem authModal_signup_returns_to_signin:
  "form_mode f = Mode_Signup \<Longrightarrow>
   authModal_handleSubmit f None =
     (f\<lparr>form_mode := Mode_Signin\<rparr>, Toast_Success ''Account created! Please check your email to verify.'', False)"
  by (simp add: authModal_handleSubmit_def)

end
