(* ===== verification/Spec2Isabelle.thy ===== *)
theory Spec2Isabelle
  imports Url_Handler Email_Handler Email_Heuristic Logo_Heuristic Logo_Hybrid Scans Dashboard Scan_Forms Link_Scan Result_Views
begin

text \<open>
  A verification library for the phishing analyzers of secure-grid-ai: the Supabase edge
  functions that classify a URL, an e-mail or a logo reference as safe, suspicious,
  phishing or unknown, and the scan history that stores the URL verdicts.

  \<^bold>\<open>The program.\<close> Each edge function is an HTTP handler (\<open>serve(async (req) => ...)\<close>)
  that validates its JSON request, extracts features from the artifact, computes a
  deterministic rule-based risk score with a list of threat messages, consults an AI
  gateway (an external oracle whose reply is free text with an embedded JSON object),
  combines both into a verdict and a confidence, and answers with a JSON document. The
  sources are \<open>src/supabase/functions/analyze-logo/index.ts\<close> (which holds two modules:
  the heuristic logo analyzer, lines 1-140, and the URL analyzer, lines 141-510),
  \<open>src/unnamed/part_001\<close> (hybrid e-mail analyzer), \<open>src/unnamed/part_002\<close> (heuristic
  e-mail analyzer), \<open>src/unnamed/part_000\<close> (hybrid logo analyzer),
  \<open>src/unnamed/part_003\<close> (the database schema, its row-level security and the sign-up
  trigger) and \<open>src/unnamed/part_008\<close> (the client hook \<open>useScans\<close>, lines 474-623,
  which calls the URL analyzer and reads, inserts and deletes scans, and the logo tab),
  \<open>src/unnamed/part_004\<close> (the e-mail tab and the URL form), \<open>src/unnamed/part_009\<close>
  and \<open>src/unnamed/part_010\<close> (the user and admin dashboards),
  \<open>src/src/pages/Index.tsx\<close> and \<open>src/src/components/AuthModal.tsx\<close>.

  \<^bold>\<open>Library layout.\<close>
  \<^item> \<open>Prelude\<close>: the JavaScript string operations (\<open>toLowerCase\<close>, \<open>includes\<close>,
    \<open>startsWith\<close>, \<open>endsWith\<close>, \<open>join\<close>, \<open>split\<close>) with their equivalence to the HOL
    notions \<open>prefix\<close>, \<open>sublist\<close>, \<open>suffix\<close>; \<open>[...new Set(xs)]\<close> as \<open>dedup_by\<close> with its
    first-occurrence characterisation.
  \<^item> \<open>Js_Value\<close>: parsed JSON values, truthiness, \<open>x || d\<close>, \<open>ToNumber\<close>, \<open>String()\<close>,
    numbers with \<open>NaN\<close> (\<open>real option\<close>), \<open>Math.round/max/min\<close>, spread and \<open>Set\<close> equality.
  \<^item> \<open>Patterns\<close>: the regular expressions of the analyzers as left-to-right scanners,
    each proved equal to the existence of a matching substring.
  \<^item> \<open>Url_Parser\<close>: the part of the WHATWG URL parser that \<open>new URL\<close> runs (a platform
    library, modelled from the standard).
  \<^item> \<open>Entropy\<close>: \<open>calculateEntropy\<close> and the exact integer criterion for
    \<open>entropy > 4.5\<close> that makes the score computable.
  \<^item> \<open>Rule_Score\<close>: the shape shared by the rule-based scorers, a fold of
    (condition, points, message) rules, with its non-negativity and distinctness lemmas.
  \<^item> \<open>Url_Analyzer\<close>: \<open>UrlFeatures\<close>, \<open>extractUrlFeatures\<close>, \<open>calculateRiskScore\<close>.
  \<^item> \<open>Report\<close>: verdicts, the common report fields, the request destructuring and the
    response type \<open>Preflight | Bad_Request | Server_Error | Ok\<close> (400/500/200).
  \<^item> \<open>Ai_Gateway\<close>: the gateway reply as an oracle input, \<open>JSON.parse\<close> as a parameter,
    the greedy brace match, \<open>aiScore\<close>, \<open>combinedScore\<close>, and the combiner of the
    specification (\<open>spec_combined\<close>, \<open>spec_verdict\<close>) with the refinement lemma.
  \<^item> \<open>Url_Handler\<close>, \<open>Email_Analyzer\<close>, \<open>Email_Handler\<close>, \<open>Email_Heuristic\<close>,
    \<open>Logo_Heuristic\<close>, \<open>Logo_Hybrid\<close>: one theory per analyzer, the handler modelled
    whole (validation, API key, gateway failure, combination, confidence, threat merge,
    every exception as a \<open>Server_Error\<close>).
  \<^item> \<open>Scans\<close>: the tables, constraints and policies of the scans history, the trigger
    \<open>handle_new_user\<close> and the hook \<open>useScans\<close> as a state machine \<open>sys_step\<close> over user
    events, with the set \<open>reach\<close> of reachable states.
  \<^item> \<open>Link_Scan\<close>: the loop of \<open>String.prototype.match\<close> with a global pattern as
    \<open>while_option\<close>, proved to stop on every e-mail body and to equal \<open>find_links\<close>.
  \<^item> \<open>Csv\<close>: the CSV text the dashboards export and a reader of RFC 4180, with the
    round trip for cells without double quotes.
  \<^item> \<open>Dashboard\<close>: the user dashboard (\<open>src/unnamed/part_009\<close>: \<open>exportToCSV\<close>,
    statistics) and the admin dashboard (\<open>src/unnamed/part_010\<close>: \<open>checkAdminAndLoad\<close>,
    \<open>loadData\<close>, statistics, \<open>getUserEmail\<close>, \<open>exportUsers\<close>) over the states of \<open>Scans\<close>.
  \<^item> \<open>Scan_Forms\<close>: the client forms that build requests (\<open>ScanInput\<close>, the landing
    page, \<open>EmailScanTab\<close>, \<open>LogoScanTab\<close>) with their result toasts, and the sign-up
    form's metadata (\<open>AuthModal\<close>).
  \<^item> \<open>Result_Views\<close>: what the client renders of a result, as data: the URL card
    \<open>ScanResult\<close> (\<open>getStatusConfig\<close>, \<open>toFixed(0)\<close>, the live links, the action
    button), the rows of \<open>ScanHistory\<close>, the titles of the e-mail and logo panels, the
    admin check of the \<open>Navbar\<close> and the mode of the sign-in dialog (\<open>handleSubmit\<close>,
    \<open>toggleMode\<close>); a render that throws is \<open>None\<close>.
  \<^item> this theory: the scenarios of the URL scorer and the property spanning the URL
    analyzer and the scan history.

  \<^bold>\<open>How the parts interact.\<close> The handlers share \<open>Report\<close> and \<open>Ai_Gateway\<close>; the
  URL, e-mail and logo analyzers are independent. The hook sends the URL handler's
  answer (an \<open>url_report response\<close>) to \<open>analyzeUrl\<close> as the event \<open>Analyze\<close>, which
  inserts it into the scans table; the scan form trims the URL before the request, the
  dashboards read the table back through the row-level security policies, and the logo
  and e-mail tabs send the requests whose acceptance by the handlers is proved. The AI reply and \<open>JSON.parse\<close> are parameters of
  every handler lemma, so each lemma holds for every gateway behaviour.

  \<^bold>\<open>Numbers and bounds.\<close> JavaScript numbers are exact reals; IEEE rounding and
  infinities are not modelled. \<open>DECIMAL(5,2)\<close> rounds to two decimals and overflows
  from 1000. Characters are bytes, so only ASCII case mapping is modelled. No fuel is
  needed: every scanner recurses on the string, \<open>find_links\<close> terminates by the
  measure of the remaining text, the CSV reader by the length of the unread text, the
  global match loop is a \<open>while_option\<close> whose termination is a theorem, and the state
  machine is a fold over a finite event list.

  \<^bold>\<open>What the lemmas show.\<close> The rule scores of the URL and e-mail analyzers lie in
  \<open>[0, 100]\<close> with distinct threat messages; every handler's report has a bounded
  confidence and de-duplicated threats; the e-mail verdict refines the combiner of the
  specification. The state machine keeps the CHECK constraints, unique scan ids,
  user isolation of the hook's list and the admin role tied to one address. Among the
  divergences proved: the URL keyword \<open>verify\<close> counted twice, a host starting with
  \<open>http\<close> misread, a hybrid URL confidence of 105, a \<open>NaN\<close> confidence read as safe,
  look-alike sender domains accepted, the PayPal logo override bypassed through the
  path, no \<open>DELETE\<close> policy (a deleted scan reappears), and a confidence above 100
  shown to the user but never stored. Across the client: a URL from the scan form is never
  rejected with 400, every logo-tab request is answered, a valid analysis appears first in
  the history (progress), the dashboard counts partition the history, the admin page's
  client check agrees with \<open>is_admin\<close>, and a non-admin loading admin data sees only
  their own rows. The CSV export reads back under RFC 4180 unless a cell holds a double
  quote, in which case a URL can rewrite its own result column. The result card renders
  every URL report except one with a \<open>null\<close> confidence, which crashes the page, and its
  first live link opens the scanned URL whatever the verdict.

  \<^bold>\<open>Not modelled.\<close> The purely presentational components (\<open>StatsCard\<close>,
  \<open>CyberBackground\<close>, page layout, icons as images, animation), whose output carries no
  data of the program; the test-case buttons that fill the forms; the file download itself
  (\<open>Blob\<close>, anchor click); the profile \<open>UPDATE\<close> and timestamp triggers; the random
  \<open>blockchainHash\<close> and the timestamps of the reports (dates enter as parameters); the
  asynchronous interleaving of the hook's un-awaited \<open>fetchScans()\<close> (each call runs to
  completion); and the host and path normalisation of the WHATWG URL parser beyond the
  scheme, authority and IPv4 parts that the scorer reads (IDNA, percent-encoding), which
  is why the URL parser component is only partly modelled.
\<close>

section \<open>URL scoring scenarios\<close>

text \<open>
  On \<open>http://192.168.1.5/paypal-login-verify\<close> the URL scorer fires the IP-literal
  rule (25), the insecure-HTTP rule (10) and the keyword rule (capped at 25), for a score
  of 60; the keyword message lists \<open>login, verify, verify\<close> because \<open>verify\<close> occurs
  twice in the dictionary.
\<close>

theorem url_ip_literal_scenario:
  "calculateRiskScore (extractUrlFeatures ''http://192.168.1.5/paypal-login-verify'') =
   (60, [''IP address used instead of domain name'', ''Insecure HTTP connection'',
         ''Phishing keywords detected: login, verify, verify''])"
  by (simp only: risk_score_exec) code_simp


text \<open>
  The URL scorer has no list of known-safe domains: \<open>https://www.amazon.com/gp/help\<close>
  is scored 16 with a phishing-keyword threat naming \<open>amazon\<close> and \<open>help\<close>.
\<close>

theorem url_known_brand_scored:
  "calculateRiskScore (extractUrlFeatures ''https://www.amazon.com/gp/help'') =
   (16, [''Phishing keywords detected: amazon, help''])"
  by (simp only: risk_score_exec) code_simp

section \<open>The analyzers and the scan history\<close>

text \<open>
  C40: the URL analyzer and the scan history disagree on the confidence range: a report whose confidence is 101 or more (the hybrid path reaches 105) is shown and announced by its verdict toast, but the insert fails the DECIMAL(5,2) CHECK constraint, the error is only logged, and the scan is never stored.
\<close>

theorem analyze_overconfident_lost:
  assumes "s_user (sys_session s) = Some u" "confidence r = Some c" "101 \<le> c"
  shows "db_scans (sys_db (sys_step s (Analyze (Ok r)))) = db_scans (sys_db s) \<and>
         currentResult (sys_session (sys_step s (Analyze (Ok r)))) = Some r \<and>
         toasts (sys_session (sys_step s (Analyze (Ok r)))) = toasts (sys_session s) @ [result_toast (result r)]"
proof -
  obtain e where "db_insert_scan (Some u) u (url r) (verdict_string (result r)) (confidence r)
                    (threatIndicators r) (sys_db s) = Inl e"
    using db_insert_scan_over_100 [OF assms(2,3)] by blast
  then show ?thesis using assms(1)
    by (simp add: sys_step_def analyzeUrl_def Let_def fetchScans_def add_toast_def)
qed

theorem analyze_overconfident_lost_witness:
  "db_scans (sys_db (sys_step (run_events [Sign_Up 1 ''alice@example.com'' None, Sign_In 1]) (Analyze (analyze_url (\<lambda>_. Some [(''isPhishing'', JBool False), (''confidence'', JNum 30)]) (Some ''key'')
     (Ai_Reply 200 (Some (JObj [(''choices'', JArr [JObj [(''message'',
        JObj [(''content'', JStr ''{\"isPhishing\": false, \"confidence\": 30}'')])]])])))
     \<lparr>req_method = ''POST'', req_body = Some (JObj [(''url'', JStr ''http://192.168.1.5/paypal-login-verify'')])\<rparr>)))) = [] \<and>
   last (toasts (sys_session (sys_step (run_events [Sign_Up 1 ''alice@example.com'' None, Sign_In 1]) (Analyze (analyze_url (\<lambda>_. Some [(''isPhishing'', JBool False), (''confidence'', JNum 30)]) (Some ''key'')
     (Ai_Reply 200 (Some (JObj [(''choices'', JArr [JObj [(''message'',
        JObj [(''content'', JStr ''{\"isPhishing\": false, \"confidence\": 30}'')])]])])))
     \<lparr>req_method = ''POST'', req_body = Some (JObj [(''url'', JStr ''http://192.168.1.5/paypal-login-verify'')])\<rparr>))))) = Toast_Warning ''Suspicious activity detected''"
proof -
  have a: "analyze_url (\<lambda>_. Some [(''isPhishing'', JBool False), (''confidence'', JNum 30)]) (Some ''key'')
     (Ai_Reply 200 (Some (JObj [(''choices'', JArr [JObj [(''message'',
        JObj [(''content'', JStr ''{\"isPhishing\": false, \"confidence\": 30}'')])]])])))
     \<lparr>req_method = ''POST'', req_body = Some (JObj [(''url'', JStr ''http://192.168.1.5/paypal-login-verify'')])\<rparr> =
    Ok \<lparr>result = Suspicious, confidence = Some 105,
         threatIndicators = [JStr ''IP address used instead of domain name'', JStr ''Insecure HTTP connection'',
                             JStr ''Phishing keywords detected: login, verify, verify''],
         url = ''http://192.168.1.5/paypal-login-verify'', ruleBasedScore = 60,
         details = Hybrid_Ai (Some 35) (Some 45) [(''isPhishing'', JBool False), (''confidence'', JNum 30)]\<rparr>"
    unfolding analyze_url_def by (simp only: risk_score_exec) code_simp
  have s0: "s_user (sys_session (run_events [Sign_Up 1 ''alice@example.com'' None, Sign_In 1])) = Some 1" by code_simp
  have d0: "db_scans (sys_db (run_events [Sign_Up 1 ''alice@example.com'' None, Sign_In 1])) = []" by code_simp
  show ?thesis
    unfolding a using d0 analyze_overconfident_lost [OF s0, of "\<lparr>result = Suspicious, confidence = Some 105,
         threatIndicators = [JStr ''IP address used instead of domain name'', JStr ''Insecure HTTP connection'',
                             JStr ''Phishing keywords detected: login, verify, verify''],
         url = ''http://192.168.1.5/paypal-login-verify'', ruleBasedScore = 60,
         details = Hybrid_Ai (Some 35) (Some 45) [(''isPhishing'', JBool False), (''confidence'', JNum 30)]\<rparr>" 105]
    by (simp add: result_toast_def)
qed

end
